(* ===== verification/Prelude.thy ===== *)
theory Prelude
  imports Main
begin

text \<open>
  Shared vocabulary of the development: the names of the model's types, the environment
  inputs that stand for failures of the database and of the network, the model of
  \<open>uuid.New()\<close> (a counter printed in decimal, with its parse/print round trip, so
  that fresh identifiers are provably distinct), Go map iteration order, and generic
  lemmas on lists and maps that the component theories share.
\<close>

section \<open>Collections of facts\<close>

named_theorems ledger_simps \<open>equations of the ledger queries used by the component proofs\<close>
named_theorems hub_simps \<open>equations of the hub's helper functions\<close>

section \<open>Identifiers and amounts\<close>

text \<open>
  Every identifier of the Go code is a \<open>string\<close>: row ids, callback ids, public keys,
  URLs. A websocket connection is a pointer compared by identity (\<open>validator.Conn == conn\<close>
  in \<open>removeValidator\<close>); it is modelled by a number. Amounts are lamports: the code
  keeps them in a \<open>float64\<close> column of type \<open>decimal(20,2)\<close>, but every amount it writes
  is an integer (a multiple of \<open>COST_PER_VALIDATION\<close>), so they are \<open>int\<close> here.
\<close>

type_synonym conn = nat
type_synonym lamports = int

section \<open>Faults of the environment\<close>

text \<open>
  The database and the network can fail at any call. A handler receives a \<open>fault\<close>:
  \<open>None\<close> when every database call it makes succeeds, \<open>Some k\<close> when its \<open>k\<close>-th
  database call (counted from 0 in the order of the source) returns an error.
  Constraint violations (foreign keys, unique indexes) are not faults: the model
  computes them from the state.
\<close>

type_synonym fault = "nat option"

definition db_ok :: "fault \<Rightarrow> nat \<Rightarrow> bool" where
  "db_ok f k \<longleftrightarrow> f \<noteq> Some k"

section \<open>uuid.New() as a counter\<close>

text \<open>
  \<open>uuid.New()\<close> returns a fresh random identifier; the code relies only on its
  uniqueness. The model draws identifiers from a counter and prints it in decimal.
  Injectivity comes from the parse/print round trip.
\<close>

fun show_nat :: "nat \<Rightarrow> string" where
  "show_nat n =
     (if n < 10 then [char_of (48 + n)]
      else show_nat (n div 10) @ [char_of (48 + n mod 10)])"

definition parse_nat :: "string \<Rightarrow> nat" where
  "parse_nat cs = foldl (\<lambda>acc c. 10 * acc + (of_char c - 48)) 0 cs"

definition uuid :: "nat \<Rightarrow> string" where
  "uuid n = ''uuid-'' @ show_nat n"

section \<open>Go map iteration order\<close>

text \<open>
  A \<open>for k, v := range m\<close> loop visits the keys of \<open>m\<close> once each, in an order the
  runtime chooses at random. The model takes that order as an input list and requires
  only that it enumerates the domain without repetition.
\<close>

definition iteration_order :: "'k list \<Rightarrow> ('k \<rightharpoonup> 'v) \<Rightarrow> bool" where
  "iteration_order ks m \<longleftrightarrow> distinct ks \<and> set ks = dom m"

section \<open>Lemmas\<close>

lemma db_ok_None [simp]: "db_ok None k"
  by (simp add: db_ok_def)

lemma db_ok_Some [simp]: "db_ok (Some j) k \<longleftrightarrow> j \<noteq> k"
  by (auto simp add: db_ok_def)

declare show_nat.simps [simp del]

lemma parse_nat_snoc: "parse_nat (cs @ [c]) = 10 * parse_nat cs + (of_char c - 48)"
  by (simp add: parse_nat_def)

lemma of_char_digit: "(d::nat) < 10 \<Longrightarrow> of_char (char_of (48 + d) :: char) = 48 + d"
  by (simp add: of_char_of)

lemma parse_show_nat: "parse_nat (show_nat n) = n"
proof (induction n rule: show_nat.induct)
  case (1 n)
  show ?case
  proof (cases "n < 10")
    case True
    then show ?thesis
      by (simp add: show_nat.simps [of n] parse_nat_def of_char_digit)
  next
    case False
    then have "parse_nat (show_nat (n div 10)) = n div 10" by (rule "1.IH")
    with False show ?thesis
      by (simp add: show_nat.simps [of n] parse_nat_snoc of_char_digit)
  qed
qed

lemma show_nat_inj: "show_nat m = show_nat n \<longleftrightarrow> m = n"
  by (metis parse_show_nat)

lemma uuid_inj [simp]: "uuid m = uuid n \<longleftrightarrow> m = n"
  by (simp add: uuid_def show_nat_inj)

lemma uuid_nonempty [simp]: "uuid n \<noteq> []"
  by (simp add: uuid_def)

lemma show_nat_digits: "c \<in> set (show_nat n) \<Longrightarrow> 48 \<le> (of_char c :: nat) \<and> (of_char c :: nat) < 58"
proof (induction n rule: show_nat.induct)
  case (1 n)
  have d: "(of_char (char_of (48 + n mod 10) :: char) :: nat) = 48 + n mod 10"
    by (simp add: of_char_digit)
  show ?case
  proof (cases "n < 10")
    case True
    with "1.prems" d show ?thesis by (auto simp add: show_nat.simps [of n])
  next
    case False
    with "1.prems" "1.IH" d show ?thesis by (auto simp add: show_nat.simps [of n])
  qed
qed

text \<open>An id has no slash, so it is one segment of a URL path.\<close>

lemma uuid_no_slash [simp]: "CHR ''/'' \<notin> set (uuid n)"
proof
  assume "CHR ''/'' \<in> set (uuid n)"
  then have "CHR ''/'' \<in> set (show_nat n)" by (simp add: uuid_def)
  from show_nat_digits [OF this] show False by simp
qed

lemma iteration_order_Nil [simp]: "iteration_order [] m \<longleftrightarrow> m = Map.empty"
  by (auto simp add: iteration_order_def)

subsection \<open>Lists and maps\<close>

lemma count_filter_append [simp]:
  "length (filter P (xs @ [x])) = length (filter P xs) + (if P x then 1 else 0)"
  by simp

lemma sum_length_filter_distinct:
  "distinct ks \<Longrightarrow>
   sum_list (map (\<lambda>k. length (filter (\<lambda>t. g t = k) P)) ks) = length (filter (\<lambda>t. g t \<in> set ks) P)"
proof (induction P)
  case Nil
  then show ?case by (simp add: sum_list_map_eq_sum_count)
next
  case (Cons t P)
  have one: "sum_list (map (\<lambda>k. if g t = k then 1 else 0) ks) = (if g t \<in> set ks then 1 else (0::nat))"
    using Cons.prems by (induction ks) auto
  have "map (\<lambda>k. length (filter (\<lambda>t'. g t' = k) (t # P))) ks =
      map (\<lambda>k. length (filter (\<lambda>t'. g t' = k) P) + (if g t = k then 1 else 0)) ks" by simp
  then have "sum_list (map (\<lambda>k. length (filter (\<lambda>t'. g t' = k) (t # P))) ks) =
      sum_list (map (\<lambda>k. length (filter (\<lambda>t'. g t' = k) P)) ks) + (if g t \<in> set ks then 1 else 0)"
    by (simp only: sum_list_addf one)
  with Cons show ?case by simp
qed
lemma length_filter_le_mono:
  "(\<And>x. P x \<Longrightarrow> Q x) \<Longrightarrow> length (filter P xs) \<le> length (filter Q xs)"
  by (induction xs) auto
lemma find_Some_mem: "find P xs = Some x \<Longrightarrow> x \<in> set xs \<and> P x"
  by (induction xs) (auto split: if_splits)

lemma map_upd_dom_subset:
  "dom m \<subseteq> A \<Longrightarrow> k \<in> A \<Longrightarrow> dom (m(k \<mapsto> v)) \<subseteq> A"
  by auto

end
