(* ===== verification/Ledger.thy ===== *)
theory Ledger
  imports Prelude
begin

text \<open>
  The persisted tables of \<open>src/internal/models/models.go\<close> (lines 1--82), the
  ledger store every component reads and writes through GORM, and the few store
  operations the core uses, each with the meaning of its SQL: a row lookup by key
  (\<open>First\<close>), an \<open>UPDATE \<dots> WHERE id = ?\<close> that touches every matching row and
  no other, an \<open>INSERT\<close> that the schema's primary keys, unique indexes and foreign
  keys may reject. Tables are lists of rows. The lemmas say how each operation
  changes a validator's pending balance and that the well-formedness of the tables
  (unique keys, tick foreign keys) is kept.
\<close>

section \<open>Rows\<close>

record validator =
  validator_id :: string
  public_key :: string
  location :: string
  ip :: string
  pending_payouts :: lamports

record website =
  website_id :: string
  url :: string
  user_id :: string
  disabled :: bool

record website_tick =
  tick_id :: string
  tick_website_id :: string
  tick_validator_id :: string
  tick_status :: string
  tick_latency :: int

datatype payout_status = Pending | Processing | Completed | Failed

record payout_transaction =
  ptx_id :: string
  ptx_validator_id :: string
  amount :: lamports
  ptx_status :: payout_status
  tx_signature :: string
  error_message :: string

record ledger =
  validator_rows :: "validator list"
  website_rows :: "website list"
  tick_rows :: "website_tick list"
  payout_rows :: "payout_transaction list"

definition empty_ledger :: ledger where
  "empty_ledger = \<lparr>validator_rows = [], website_rows = [], tick_rows = [], payout_rows = []\<rparr>"

section \<open>Queries\<close>

definition validator_by_id :: "ledger \<Rightarrow> string \<Rightarrow> validator option" where
  "validator_by_id d i = find (\<lambda>v. validator_id v = i) (validator_rows d)"

definition validator_by_key :: "ledger \<Rightarrow> string \<Rightarrow> validator option" where
  "validator_by_key d k = find (\<lambda>v. public_key v = k) (validator_rows d)"

definition active_websites :: "ledger \<Rightarrow> website list" where
  "active_websites d = filter (\<lambda>w. \<not> disabled w) (website_rows d)"

text \<open>The balance a validator row holds; 0 for an id with no row.\<close>

definition pending_of :: "ledger \<Rightarrow> string \<Rightarrow> lamports" where
  "pending_of d i = (case validator_by_id d i of Some v \<Rightarrow> pending_payouts v | None \<Rightarrow> 0)"

definition ticks_of :: "ledger \<Rightarrow> string \<Rightarrow> nat" where
  "ticks_of d i = length (filter (\<lambda>t. tick_validator_id t = i) (tick_rows d))"

definition payout_by_id :: "ledger \<Rightarrow> string \<Rightarrow> payout_transaction option" where
  "payout_by_id d i = find (\<lambda>p. ptx_id p = i) (payout_rows d)"

section \<open>Updates\<close>

text \<open>
  \<open>UPDATE "Validator" SET pending_payouts = pending_payouts + x WHERE id = i\<close>
  (\<open>UpdateColumn\<close> with \<open>gorm.Expr\<close>): every row with that id, none if there is none.
\<close>

definition add_pending :: "string \<Rightarrow> lamports \<Rightarrow> ledger \<Rightarrow> ledger" where
  "add_pending i x d = d\<lparr>validator_rows :=
     map (\<lambda>v. if validator_id v = i then v\<lparr>pending_payouts := pending_payouts v + x\<rparr> else v)
       (validator_rows d)\<rparr>"

text \<open>\<open>tx.Model(&validator).Update("pending_payouts", x)\<close>: the row of that id.\<close>

definition set_pending :: "string \<Rightarrow> lamports \<Rightarrow> ledger \<Rightarrow> ledger" where
  "set_pending i x d = d\<lparr>validator_rows :=
     map (\<lambda>v. if validator_id v = i then v\<lparr>pending_payouts := x\<rparr> else v) (validator_rows d)\<rparr>"

text \<open>
  \<open>INSERT\<close> of a validator: the primary key \<open>ID\<close> and the \<open>uniqueIndex\<close> on
  \<open>PublicKey\<close> reject a duplicate.
\<close>

definition insert_validator :: "validator \<Rightarrow> ledger \<Rightarrow> ledger option" where
  "insert_validator v d =
     (if validator_by_id d (validator_id v) = None \<and> validator_by_key d (public_key v) = None
      then Some (d\<lparr>validator_rows := validator_rows d @ [v]\<rparr>) else None)"

text \<open>
  \<open>INSERT\<close> of a tick: the foreign keys \<open>WebsiteID\<close> and \<open>ValidatorID\<close> must name
  existing rows (models.go, lines 58--59), and the primary key must be new.
\<close>

definition insert_tick :: "website_tick \<Rightarrow> ledger \<Rightarrow> ledger option" where
  "insert_tick t d =
     (if (\<exists>w \<in> set (website_rows d). website_id w = tick_website_id t)
         \<and> validator_by_id d (tick_validator_id t) \<noteq> None
         \<and> (\<forall>t' \<in> set (tick_rows d). tick_id t' \<noteq> tick_id t)
      then Some (d\<lparr>tick_rows := tick_rows d @ [t]\<rparr>) else None)"

definition insert_payout :: "payout_transaction \<Rightarrow> ledger \<Rightarrow> ledger option" where
  "insert_payout p d =
     (if (\<exists>v \<in> set (validator_rows d). validator_id v = ptx_validator_id p)
         \<and> (\<forall>p' \<in> set (payout_rows d). ptx_id p' \<noteq> ptx_id p)
      then Some (d\<lparr>payout_rows := payout_rows d @ [p]\<rparr>) else None)"

text \<open>\<open>db.Model(txRecord).Updates(...)\<close>: the payout row with the record's id.\<close>

definition update_payout ::
  "string \<Rightarrow> (payout_transaction \<Rightarrow> payout_transaction) \<Rightarrow> ledger \<Rightarrow> ledger" where
  "update_payout i g d = d\<lparr>payout_rows :=
     map (\<lambda>p. if ptx_id p = i then g p else p) (payout_rows d)\<rparr>"

section \<open>Well-formed tables\<close>

definition ledger_wf :: "ledger \<Rightarrow> bool" where
  "ledger_wf d \<longleftrightarrow>
     distinct (map validator_id (validator_rows d))
     \<and> distinct (map public_key (validator_rows d))
     \<and> (\<forall>t \<in> set (tick_rows d). validator_by_id d (tick_validator_id t) \<noteq> None)"

section \<open>Lemmas\<close>

lemma validator_by_id_map_same [simp]:
  "(\<And>v. validator_id (g v) = validator_id v) \<Longrightarrow>
   find (\<lambda>v. validator_id v = i) (map g vs) = map_option g (find (\<lambda>v. validator_id v = i) vs)"
  by (induction vs) auto

lemma validator_id_add_pending [simp]:
  "validator_by_id (add_pending i x d) j = None \<longleftrightarrow> validator_by_id d j = None"
  by (simp add: add_pending_def validator_by_id_def)

lemma validator_id_set_pending [simp]:
  "validator_by_id (set_pending i x d) j = None \<longleftrightarrow> validator_by_id d j = None"
  by (simp add: set_pending_def validator_by_id_def)

lemma add_pending_fields [simp]:
  "tick_rows (add_pending i x d) = tick_rows d"
  "website_rows (add_pending i x d) = website_rows d"
  "payout_rows (add_pending i x d) = payout_rows d"
  by (simp_all add: add_pending_def)

lemma set_pending_fields [simp]:
  "tick_rows (set_pending i x d) = tick_rows d"
  "website_rows (set_pending i x d) = website_rows d"
  "payout_rows (set_pending i x d) = payout_rows d"
  by (simp_all add: set_pending_def)

lemma find_id_result:
  "find (\<lambda>v. validator_id v = i) vs = Some v \<Longrightarrow> validator_id v = i"
  by (auto dest: find_Some_mem)

lemma pending_of_add_pending [ledger_simps]:
  "pending_of (add_pending i x d) j =
     pending_of d j + (if i = j \<and> validator_by_id d j \<noteq> None then x else 0)"
  by (auto simp add: pending_of_def add_pending_def validator_by_id_def
      dest: find_id_result split: option.splits)

lemma pending_of_set_pending [ledger_simps]:
  "pending_of (set_pending i x d) j =
     (if i = j \<and> validator_by_id d j \<noteq> None then x else pending_of d j)"
  by (auto simp add: pending_of_def set_pending_def validator_by_id_def
      dest: find_id_result split: option.splits)

lemma ticks_of_add_pending [ledger_simps]: "ticks_of (add_pending i x d) j = ticks_of d j"
  by (simp add: ticks_of_def add_pending_def)

lemma ticks_of_set_pending [ledger_simps]: "ticks_of (set_pending i x d) j = ticks_of d j"
  by (simp add: ticks_of_def set_pending_def)

lemma ticks_of_update_payout [ledger_simps]: "ticks_of (update_payout p g d) j = ticks_of d j"
  by (simp add: ticks_of_def update_payout_def)

lemma pending_of_update_payout [ledger_simps]:
  "pending_of (update_payout p g d) j = pending_of d j"
  by (simp add: pending_of_def update_payout_def validator_by_id_def)

lemma validator_by_id_update_payout [ledger_simps]:
  "validator_by_id (update_payout p g d) j = validator_by_id d j"
  by (simp add: validator_by_id_def update_payout_def)

lemma add_pending_wf: "ledger_wf d \<Longrightarrow> ledger_wf (add_pending i x d)"
  by (simp add: ledger_wf_def add_pending_def comp_def if_distrib validator_by_id_def
      cong: if_cong)

lemma set_pending_wf: "ledger_wf d \<Longrightarrow> ledger_wf (set_pending i x d)"
  by (simp add: ledger_wf_def set_pending_def comp_def if_distrib validator_by_id_def
      cong: if_cong)

lemma update_payout_wf: "ledger_wf d \<Longrightarrow> ledger_wf (update_payout p g d)"
  by (simp add: ledger_wf_def update_payout_def validator_by_id_def)


lemma find_append_eq:
  "find P (xs @ ys) = (case find P xs of None \<Rightarrow> find P ys | Some x \<Rightarrow> Some x)"
  by (induction xs) auto

lemma validator_by_id_append:
  "validator_by_id (d\<lparr>validator_rows := validator_rows d @ [v]\<rparr>) j =
     (case validator_by_id d j of
        None \<Rightarrow> if validator_id v = j then Some v else None
      | Some r \<Rightarrow> Some r)"
  by (simp add: validator_by_id_def find_append_eq split: option.splits)

lemma insert_validator_Some:
  "insert_validator v d = Some d' \<Longrightarrow>
     d' = d\<lparr>validator_rows := validator_rows d @ [v]\<rparr>
     \<and> validator_by_id d (validator_id v) = None \<and> validator_by_key d (public_key v) = None"
  by (simp add: insert_validator_def split: if_splits)

lemma validator_by_id_insert_validator [ledger_simps]:
  "insert_validator v d = Some d' \<Longrightarrow>
     validator_by_id d' j = (if j = validator_id v then Some v else validator_by_id d j)"
  by (auto simp add: validator_by_id_append dest!: insert_validator_Some split: option.splits)

lemma insert_tick_Some:
  "insert_tick t d = Some d' \<Longrightarrow>
     d' = d\<lparr>tick_rows := tick_rows d @ [t]\<rparr> \<and> validator_by_id d (tick_validator_id t) \<noteq> None"
  by (simp add: insert_tick_def split: if_splits)

lemma validator_by_id_ticks [simp]:
  "validator_by_id (d\<lparr>tick_rows := ts\<rparr>) j = validator_by_id d j"
  by (simp add: validator_by_id_def)

lemma pending_of_ticks [simp]: "pending_of (d\<lparr>tick_rows := ts\<rparr>) j = pending_of d j"
  by (simp add: pending_of_def)

lemma ticks_of_append [ledger_simps]:
  "ticks_of (d\<lparr>tick_rows := tick_rows d @ [t]\<rparr>) j =
     ticks_of d j + (if tick_validator_id t = j then 1 else 0)"
  by (simp add: ticks_of_def)

lemma ticks_of_validators [simp]:
  "ticks_of (d\<lparr>validator_rows := vs\<rparr>) j = ticks_of d j"
  by (simp add: ticks_of_def)

lemma pending_of_insert_validator [ledger_simps]:
  "insert_validator v d = Some d' \<Longrightarrow>
     pending_of d' j = (if j = validator_id v then pending_payouts v else pending_of d j)"
  by (simp add: pending_of_def validator_by_id_insert_validator)

lemma public_key_map_rows:
  "(\<And>v. validator_id (g v) = validator_id v) \<Longrightarrow> (\<And>v. public_key (g v) = public_key v) \<Longrightarrow>
   map_option public_key (find (\<lambda>v. validator_id v = j) (map g vs)) =
     map_option public_key (find (\<lambda>v. validator_id v = j) vs)"
  by (induction vs) auto

lemma public_key_add_pending [ledger_simps]:
  "map_option public_key (validator_by_id (add_pending i x d) j) =
     map_option public_key (validator_by_id d j)"
  by (simp add: add_pending_def validator_by_id_def public_key_map_rows del: validator_by_id_map_same)

lemma public_key_set_pending [ledger_simps]:
  "map_option public_key (validator_by_id (set_pending i x d) j) =
     map_option public_key (validator_by_id d j)"
  by (simp add: set_pending_def validator_by_id_def public_key_map_rows del: validator_by_id_map_same)

lemma validator_by_id_SomeD:
  "validator_by_id d j = Some r \<Longrightarrow> r \<in> set (validator_rows d) \<and> validator_id r = j"
  unfolding validator_by_id_def by (blast dest: find_Some_mem)

lemma validator_by_id_None_iff:
  "validator_by_id d j = None \<longleftrightarrow> j \<notin> validator_id ` set (validator_rows d)"
  by (auto simp add: validator_by_id_def find_None_iff)

lemma validator_by_key_None_iff:
  "validator_by_key d k = None \<longleftrightarrow> k \<notin> public_key ` set (validator_rows d)"
  by (auto simp add: validator_by_key_def find_None_iff)

lemma ticks_of_no_row:
  "ledger_wf d \<Longrightarrow> validator_by_id d j = None \<Longrightarrow> ticks_of d j = 0"
  by (auto simp add: ledger_wf_def ticks_of_def filter_empty_conv)

lemma insert_validator_wf:
  assumes wf: "ledger_wf d" and ins: "insert_validator v d = Some d'"
  shows "ledger_wf d'"
proof -
  from ins have d': "d' = d\<lparr>validator_rows := validator_rows d @ [v]\<rparr>"
    and fresh: "validator_by_id d (validator_id v) = None" "validator_by_key d (public_key v) = None"
    by (auto dest: insert_validator_Some)
  from fresh have "validator_id v \<notin> validator_id ` set (validator_rows d)"
    and "public_key v \<notin> public_key ` set (validator_rows d)"
    by (simp_all add: validator_by_id_None_iff validator_by_key_None_iff)
  with wf have dist: "distinct (map validator_id (validator_rows d'))"
      "distinct (map public_key (validator_rows d'))"
    by (simp_all add: d' ledger_wf_def)
  have keep: "validator_by_id d' j \<noteq> None" if "validator_by_id d j \<noteq> None" for j
    using that by (auto simp add: d' validator_by_id_append split: option.splits)
  have "\<forall>t \<in> set (tick_rows d). validator_by_id d (tick_validator_id t) \<noteq> None"
    using wf by (simp add: ledger_wf_def)
  moreover have "tick_rows d' = tick_rows d" by (simp add: d')
  ultimately have fk: "\<forall>t \<in> set (tick_rows d'). validator_by_id d' (tick_validator_id t) \<noteq> None"
    using keep by metis
  show ?thesis unfolding ledger_wf_def using dist fk by (intro conjI)
qed

lemma insert_tick_wf:
  assumes wf: "ledger_wf d" and ins: "insert_tick t d = Some d'"
  shows "ledger_wf d'"
proof -
  from ins have d': "d' = d\<lparr>tick_rows := tick_rows d @ [t]\<rparr>"
    and fk: "validator_by_id d (tick_validator_id t) \<noteq> None"
    using insert_tick_Some [OF ins] by simp_all
  from wf fk show ?thesis by (simp add: d' ledger_wf_def)
qed


lemma payouts_update_fields [simp]:
  "validator_by_id (d\<lparr>payout_rows := ps\<rparr>) j = validator_by_id d j"
  "pending_of (d\<lparr>payout_rows := ps\<rparr>) j = pending_of d j"
  "ticks_of (d\<lparr>payout_rows := ps\<rparr>) j = ticks_of d j"
  by (simp_all add: validator_by_id_def pending_of_def ticks_of_def)

lemma insert_payout_ok:
  "validator_by_id d (ptx_validator_id p) \<noteq> None \<Longrightarrow> (\<forall>p' \<in> set (payout_rows d). ptx_id p' \<noteq> ptx_id p) \<Longrightarrow>
   insert_payout p d = Some (d\<lparr>payout_rows := payout_rows d @ [p]\<rparr>)"
  by (auto simp add: insert_payout_def validator_by_id_None_iff)

lemma insert_payout_Some:
  "insert_payout p d = Some d' \<Longrightarrow> d' = d\<lparr>payout_rows := payout_rows d @ [p]\<rparr>"
  by (simp add: insert_payout_def split: if_splits)

lemma payout_by_id_new:
  "(\<forall>p' \<in> set (payout_rows d). ptx_id p' \<noteq> ptx_id p) \<Longrightarrow>
   payout_by_id (d\<lparr>payout_rows := payout_rows d @ [p]\<rparr>) (ptx_id p) = Some p"
  by (simp add: payout_by_id_def find_append_eq find_None_iff [THEN iffD2])

lemma find_payout_update:
  "(\<And>p. ptx_id (g p) = ptx_id p) \<Longrightarrow>
   find (\<lambda>p. ptx_id p = i) (map (\<lambda>p. if ptx_id p = i then g p else p) ps) =
     map_option g (find (\<lambda>p. ptx_id p = i) ps)"
  by (induction ps) auto

lemma payout_by_id_update [ledger_simps]:
  "(\<And>p. ptx_id (g p) = ptx_id p) \<Longrightarrow>
   payout_by_id (update_payout i g d) i = map_option g (payout_by_id d i)"
  by (simp add: payout_by_id_def update_payout_def find_payout_update)

lemma payout_by_id_add_pending [simp]: "payout_by_id (add_pending j x d) i = payout_by_id d i"
  by (simp add: payout_by_id_def)

lemma empty_ledger_wf: "ledger_wf empty_ledger"
  by (simp add: ledger_wf_def empty_ledger_def)

end
