(* ===== verification/Hub.thy ===== *)
theory Hub
  imports Ledger
begin

text \<open>
  The hub coordinator of \<open>src/cmd/hub/main.go\<close>: the registry of connected
  validators (\<open>Hub.validators\<close>), the table of one-shot reply handlers
  (\<open>Hub.callbacks\<close>), and the handlers that change them: \<open>handleSignup\<close>,
  \<open>handleValidate\<close>, \<open>removeValidator\<close>, one round of \<open>startMonitoring\<close>, and the
  handler closure built by \<open>createValidateCallback\<close>, which records a tick and credits
  a validator in one database transaction. \<open>handleWebSocket\<close>'s read loop is the step
  function \<open>hub_step\<close> over events (a frame read on a connection, a read error, a tick
  of the monitoring timer); a run is a list of events. The closure is defunctionalised:
  its captured variables are the arguments of the constructor \<open>ValidateCallback\<close>.
  Writes to a connection may fail (the \<open>writable\<close> input); a failed write is only
  logged, as in the source.
\<close>

section \<open>Messages and state\<close>

definition COST_PER_VALIDATION :: lamports where
  "COST_PER_VALIDATION = 100"

record validator_connection =
  vc_validator_id :: string
  vc_public_key :: string
  vc_conn :: conn

datatype callback = ValidateCallback string string

record signup_incoming =
  su_ip :: string
  su_public_key :: string
  su_signed_message :: string
  su_callback_id :: string

record validate_incoming =
  vi_callback_id :: string
  vi_status :: string
  vi_latency :: int
  vi_validator_id :: string
  vi_website_id :: string
  vi_signed_message :: string

text \<open>
  The \<open>data\<close> field of a frame, as the JSON the peer sent: a signup object, a validate
  object, or something \<open>json.Unmarshal\<close> rejects. Decoding an object into the other
  struct fills the fields the two share (\<open>callbackId\<close>, \<open>signedMessage\<close>) and leaves
  the rest at their zero value, as \<open>encoding/json\<close> does.
\<close>

datatype json_data = JSignup signup_incoming | JValidate validate_incoming | JMalformed

datatype frame = Frame string json_data | Unparsable

datatype outgoing_message =
    SignupReply string string
  | ValidateTask string string string

record hub =
  hub_db :: ledger
  validators :: "string \<rightharpoonup> validator_connection"
  callbacks :: "string \<rightharpoonup> callback"
  sent :: "(conn \<times> outgoing_message) list"
  seed :: nat

definition new_hub :: "ledger \<Rightarrow> hub" where
  "new_hub d = \<lparr>hub_db = d, validators = Map.empty, callbacks = Map.empty, sent = [], seed = 0\<rparr>"

section \<open>Decoding\<close>

fun decode_signup :: "json_data \<Rightarrow> signup_incoming option" where
  "decode_signup (JSignup s) = Some s"
| "decode_signup (JValidate v) =
     Some \<lparr>su_ip = [], su_public_key = [], su_signed_message = vi_signed_message v,
           su_callback_id = vi_callback_id v\<rparr>"
| "decode_signup JMalformed = None"

fun decode_validate :: "json_data \<Rightarrow> validate_incoming option" where
  "decode_validate (JValidate v) = Some v"
| "decode_validate (JSignup s) =
     Some \<lparr>vi_callback_id = su_callback_id s, vi_status = [], vi_latency = 0,
           vi_validator_id = [], vi_website_id = [], vi_signed_message = su_signed_message s\<rparr>"
| "decode_validate JMalformed = None"

section \<open>The validate callback\<close>

text \<open>
  The transaction of \<open>createValidateCallback\<close>: insert the tick, add the reward to
  the validator named in the reply, commit. A failed call rolls back: the ledger is
  unchanged. Database calls: 0 the tick insert, 1 the update, 2 the commit.
\<close>

definition record_tick :: "website_tick \<Rightarrow> fault \<Rightarrow> ledger \<Rightarrow> ledger" where
  "record_tick t f d =
     (if \<not> db_ok f 0 then d
      else case insert_tick t d of
        None \<Rightarrow> d
      | Some d1 \<Rightarrow>
          if \<not> db_ok f 1 then d
          else let d2 = add_pending (tick_validator_id t) COST_PER_VALIDATION d1 in
            if \<not> db_ok f 2 then d else d2)"

definition validate_callback :: "string \<Rightarrow> string \<Rightarrow> json_data \<Rightarrow> fault \<Rightarrow> hub \<Rightarrow> hub" where
  "validate_callback websiteID validatorPublicKey data f h =
     (case decode_validate data of
        None \<Rightarrow> h
      | Some vi \<Rightarrow>
          let tick = \<lparr>tick_id = uuid (seed h), tick_website_id = websiteID,
                      tick_validator_id = vi_validator_id vi, tick_status = vi_status vi,
                      tick_latency = vi_latency vi\<rparr>
          in h\<lparr>seed := Suc (seed h), hub_db := record_tick tick f (hub_db h)\<rparr>)"

fun run_callback :: "callback \<Rightarrow> json_data \<Rightarrow> fault \<Rightarrow> hub \<Rightarrow> hub" where
  "run_callback (ValidateCallback websiteID validatorPublicKey) data f h =
     validate_callback websiteID validatorPublicKey data f h"

section \<open>Handlers\<close>

definition register_connection :: "conn \<Rightarrow> signup_incoming \<Rightarrow> validator \<Rightarrow> (conn \<Rightarrow> bool) \<Rightarrow> hub \<Rightarrow> hub" where
  "register_connection c su v writable h =
     h\<lparr>validators := (validators h)(validator_id v \<mapsto>
         \<lparr>vc_validator_id = validator_id v, vc_public_key = public_key v, vc_conn = c\<rparr>),
       sent := sent h @ (if writable c then [(c, SignupReply (validator_id v) (su_callback_id su))]
                         else [])\<rparr>"

text \<open>
  \<open>handleSignup\<close>: database calls 0 the lookup by public key, 1 the insert of a new
  validator. The signature in the message is not checked (the source's TODO).
\<close>

definition handleSignup :: "conn \<Rightarrow> json_data \<Rightarrow> fault \<Rightarrow> (conn \<Rightarrow> bool) \<Rightarrow> hub \<Rightarrow> hub" where
  "handleSignup c data f writable h =
     (case decode_signup data of
        None \<Rightarrow> h
      | Some su \<Rightarrow>
          if \<not> db_ok f 0 then h
          else case validator_by_key (hub_db h) (su_public_key su) of
            Some v \<Rightarrow> register_connection c su v writable h
          | None \<Rightarrow>
              let v = \<lparr>validator_id = uuid (seed h), public_key = su_public_key su,
                       location = ''unknown'', ip = su_ip su, pending_payouts = 0\<rparr>;
                  h1 = h\<lparr>seed := Suc (seed h)\<rparr>
              in if \<not> db_ok f 1 then h1
                 else case insert_validator v (hub_db h1) of
                   None \<Rightarrow> h1
                 | Some d \<Rightarrow> register_connection c su v writable (h1\<lparr>hub_db := d\<rparr>))"

text \<open>
  \<open>handleValidate\<close>: look the handler up, run it, then delete it. Run atomically
  here, as one receive loop does; \<open>Correlation\<close> splits the three steps to study
  concurrent receive loops.
\<close>

definition handleValidate :: "json_data \<Rightarrow> fault \<Rightarrow> hub \<Rightarrow> hub" where
  "handleValidate data f h =
     (case decode_validate data of
        None \<Rightarrow> h
      | Some vi \<Rightarrow>
          (case callbacks h (vi_callback_id vi) of
             None \<Rightarrow> h
           | Some cb \<Rightarrow>
               let h1 = run_callback cb data f h
               in h1\<lparr>callbacks := (callbacks h1)(vi_callback_id vi := None)\<rparr>))"

text \<open>
  \<open>removeValidator\<close>: walk the registry in the runtime's order \<open>ks\<close> and delete the
  first entry whose connection is \<open>c\<close>, then stop (the \<open>break\<close>).
\<close>

fun remove_first :: "conn \<Rightarrow> string list \<Rightarrow> (string \<rightharpoonup> validator_connection) \<Rightarrow> (string \<rightharpoonup> validator_connection)" where
  "remove_first c [] m = m"
| "remove_first c (k # ks) m =
     (case m k of
        Some v \<Rightarrow> if vc_conn v = c then m(k := None) else remove_first c ks m
      | None \<Rightarrow> remove_first c ks m)"

definition removeValidator :: "conn \<Rightarrow> string list \<Rightarrow> hub \<Rightarrow> hub" where
  "removeValidator c ks h = h\<lparr>validators := remove_first c ks (validators h)\<rparr>"

section \<open>One round of the monitoring loop\<close>

text \<open>
  The inner loop over validators for one website: a fresh callback id, the handler
  registered under it, then the task written to the validator's connection.
\<close>

fun send_to_validators :: "(conn \<Rightarrow> bool) \<Rightarrow> website \<Rightarrow> validator_connection list \<Rightarrow> hub \<Rightarrow> hub" where
  "send_to_validators writable w [] h = h"
| "send_to_validators writable w (v # vs) h =
     (let cb = uuid (seed h);
          h1 = h\<lparr>seed := Suc (seed h),
                 callbacks := (callbacks h)(cb \<mapsto> ValidateCallback (website_id w) (vc_public_key v))\<rparr>;
          h2 = (if writable (vc_conn v)
                then h1\<lparr>sent := sent h1 @ [(vc_conn v, ValidateTask (url w) cb (website_id w))]\<rparr>
                else h1)
      in send_to_validators writable w vs h2)"

fun send_tasks :: "(conn \<Rightarrow> bool) \<Rightarrow> website list \<Rightarrow> validator_connection list \<Rightarrow> hub \<Rightarrow> hub" where
  "send_tasks writable [] vs h = h"
| "send_tasks writable (w # ws) vs h = send_tasks writable ws vs (send_to_validators writable w vs h)"

text \<open>
  One tick of \<open>startMonitoring\<close>: database call 0 is the query for active websites;
  \<open>ks\<close> is the order in which the registry is copied.
\<close>

definition monitoring_round :: "fault \<Rightarrow> string list \<Rightarrow> (conn \<Rightarrow> bool) \<Rightarrow> hub \<Rightarrow> hub" where
  "monitoring_round f ks writable h =
     (if \<not> db_ok f 0 then h
      else let websites = active_websites (hub_db h) in
        if websites = [] then h
        else let vs = List.map_filter (validators h) ks in
          if vs = [] then h else send_tasks writable websites vs h)"

section \<open>The read loop\<close>

datatype hub_event =
    Receive conn frame fault
  | ReadFailed conn "string list"
  | MonitorTick fault "string list"

fun hub_step :: "(conn \<Rightarrow> bool) \<Rightarrow> hub \<Rightarrow> hub_event \<Rightarrow> hub" where
  "hub_step writable h (Receive c (Frame ty data) f) =
     (if ty = ''signup'' then handleSignup c data f writable h
      else if ty = ''validate'' then handleValidate data f h
      else h)"
| "hub_step writable h (Receive c Unparsable f) = h"
| "hub_step writable h (ReadFailed c ks) = removeValidator c ks h"
| "hub_step writable h (MonitorTick f ks) = monitoring_round f ks writable h"

definition hub_run :: "(conn \<Rightarrow> bool) \<Rightarrow> hub \<Rightarrow> hub_event list \<Rightarrow> hub" where
  "hub_run writable h es = foldl (hub_step writable) h es"

section \<open>The contract of a monitoring round\<close>

text \<open>
  What a round promises: for each (website, validator) pair, in the loop's order,
  a callback id drawn consecutively from the counter, a handler for it that remembers
  the website and the validator's key, and a task written to the validator when its
  connection accepts writes. \<open>dispatch_one\<close> is one pass of the inner loop body.
\<close>

definition dispatch_one :: "(conn \<Rightarrow> bool) \<Rightarrow> hub \<Rightarrow> website \<times> validator_connection \<Rightarrow> hub" where
  "dispatch_one writable h wv = send_to_validators writable (fst wv) [snd wv] h"

definition plan_callbacks :: "nat \<Rightarrow> (website \<times> validator_connection) list \<Rightarrow> (string \<times> callback) list" where
  "plan_callbacks n ps =
     map (\<lambda>(k, w, v). (uuid k, ValidateCallback (website_id w) (vc_public_key v))) (enumerate n ps)"

definition plan_messages ::
  "(conn \<Rightarrow> bool) \<Rightarrow> nat \<Rightarrow> (website \<times> validator_connection) list \<Rightarrow> (conn \<times> outgoing_message) list" where
  "plan_messages writable n ps =
     concat (map (\<lambda>(k, w, v). if writable (vc_conn v)
                               then [(vc_conn v, ValidateTask (url w) (uuid k) (website_id w))] else [])
               (enumerate n ps))"

section \<open>Invariant\<close>

text \<open>
  The hub's invariant: the ledger tables are well formed, every registry entry is
  stored under the id of its validator and carries that validator's public key, and
  every identifier the counter will still hand out is unused (no handler, no row, no
  tick has it). \<open>withdrawn\<close> is what a validator earned by ticks and no longer holds
  as pending balance; no hub operation changes it.
\<close>

definition registry_ok :: "hub \<Rightarrow> bool" where
  "registry_ok h \<longleftrightarrow>
     (\<forall>k v. validators h k = Some v \<longrightarrow>
        vc_validator_id v = k \<and> map_option public_key (validator_by_id (hub_db h) k) = Some (vc_public_key v))"

definition fresh_ids :: "hub \<Rightarrow> bool" where
  "fresh_ids h \<longleftrightarrow>
     (\<forall>n \<ge> seed h. callbacks h (uuid n) = None \<and> validator_by_id (hub_db h) (uuid n) = None
        \<and> (\<forall>t \<in> set (tick_rows (hub_db h)). tick_id t \<noteq> uuid n))"

definition hub_inv :: "hub \<Rightarrow> bool" where
  "hub_inv h \<longleftrightarrow> ledger_wf (hub_db h) \<and> registry_ok h \<and> fresh_ids h"

definition withdrawn :: "ledger \<Rightarrow> string \<Rightarrow> lamports" where
  "withdrawn d j = COST_PER_VALIDATION * int (ticks_of d j) - pending_of d j"

section \<open>Lemmas on the callback transaction\<close>

lemma record_tick_cases:
  "record_tick t f d = d \<or>
   (validator_by_id d (tick_validator_id t) \<noteq> None
    \<and> (\<forall>t' \<in> set (tick_rows d). tick_id t' \<noteq> tick_id t)
    \<and> record_tick t f d =
        add_pending (tick_validator_id t) COST_PER_VALIDATION (d\<lparr>tick_rows := tick_rows d @ [t]\<rparr>))"
  by (auto simp add: record_tick_def insert_tick_def Let_def)

lemma record_tick_wf: "ledger_wf d \<Longrightarrow> ledger_wf (record_tick t f d)"
  by (auto simp add: record_tick_def Let_def intro: add_pending_wf insert_tick_wf
      split: option.splits)

lemma record_tick_withdrawn [hub_simps]: "withdrawn (record_tick t f d) j = withdrawn d j"
  using record_tick_cases [of t f d]
  by (auto simp add: withdrawn_def ledger_simps algebra_simps)

lemma record_tick_key [hub_simps]:
  "map_option public_key (validator_by_id (record_tick t f d) j) =
     map_option public_key (validator_by_id d j)"
  using record_tick_cases [of t f d] by (auto simp add: ledger_simps)

lemma record_tick_row [hub_simps]:
  "validator_by_id (record_tick t f d) j = None \<longleftrightarrow> validator_by_id d j = None"
  using record_tick_cases [of t f d] by (auto simp add: ledger_simps)

lemma record_tick_tick_ids:
  "t' \<in> set (tick_rows (record_tick t f d)) \<Longrightarrow> t' \<in> set (tick_rows d) \<or> t' = t"
  using record_tick_cases [of t f d] by (auto simp add: add_pending_def)

section \<open>Which fields each operation writes\<close>

lemma hub_inv_sent [simp]: "hub_inv (h\<lparr>sent := x\<rparr>) \<longleftrightarrow> hub_inv h"
  by (simp add: hub_inv_def registry_ok_def fresh_ids_def)

lemma register_connection_fields [simp]:
  "hub_db (register_connection c su v w h) = hub_db h"
  "callbacks (register_connection c su v w h) = callbacks h"
  "seed (register_connection c su v w h) = seed h"
  by (simp_all add: register_connection_def)

lemma removeValidator_fields [simp]:
  "hub_db (removeValidator c ks h) = hub_db h"
  "callbacks (removeValidator c ks h) = callbacks h"
  "seed (removeValidator c ks h) = seed h"
  by (simp_all add: removeValidator_def)

lemma send_to_validators_fields [simp]:
  "hub_db (send_to_validators w ws vs h) = hub_db h"
  "validators (send_to_validators w ws vs h) = validators h"
  by (induction vs arbitrary: h) (simp_all add: Let_def)

lemma send_tasks_fields [simp]:
  "hub_db (send_tasks w ws vs h) = hub_db h"
  "validators (send_tasks w ws vs h) = validators h"
  by (induction ws arbitrary: h) simp_all

lemma monitoring_round_fields [simp]:
  "hub_db (monitoring_round f ks w h) = hub_db h"
  "validators (monitoring_round f ks w h) = validators h"
  by (simp_all add: monitoring_round_def Let_def)

section \<open>Each operation keeps the invariant\<close>

lemma find_distinct_key:
  "distinct (map g xs) \<Longrightarrow> x \<in> set xs \<Longrightarrow> find (\<lambda>y. g y = g x) xs = Some x"
  by (induction xs) (auto simp add: image_iff)

lemma validator_by_key_row:
  assumes "ledger_wf d" and "validator_by_key d k = Some v"
  shows "validator_by_id d (validator_id v) = Some v"
proof -
  from assms(2) have "v \<in> set (validator_rows d)"
    by (simp add: validator_by_key_def find_Some_mem)
  with assms(1) show ?thesis
    by (simp add: validator_by_id_def ledger_wf_def find_distinct_key)
qed

lemma validate_callback_inv:
  assumes inv: "hub_inv h"
  shows "hub_inv (validate_callback w p data f h)"
proof (cases "decode_validate data")
  case None
  with inv show ?thesis by (simp add: validate_callback_def)
next
  case (Some vi)
  define t where "t = \<lparr>tick_id = uuid (seed h), tick_website_id = w,
      tick_validator_id = vi_validator_id vi, tick_status = vi_status vi,
      tick_latency = vi_latency vi\<rparr>"
  have h': "validate_callback w p data f h =
      h\<lparr>seed := Suc (seed h), hub_db := record_tick t f (hub_db h)\<rparr>"
    by (simp add: validate_callback_def Some t_def)
  have tid: "tick_id t = uuid (seed h)" by (simp add: t_def)
  from inv show ?thesis
    unfolding h' hub_inv_def registry_ok_def fresh_ids_def
    by (auto simp add: record_tick_wf hub_simps tid dest!: record_tick_tick_ids)
qed

lemma run_callback_inv: "hub_inv h \<Longrightarrow> hub_inv (run_callback cb data f h)"
  by (cases cb) (simp add: validate_callback_inv)

lemma delete_callback_inv:
  "hub_inv h \<Longrightarrow> hub_inv (h\<lparr>callbacks := (callbacks h)(k := None)\<rparr>)"
  by (simp add: hub_inv_def registry_ok_def fresh_ids_def)

lemma handleValidate_inv: "hub_inv h \<Longrightarrow> hub_inv (handleValidate data f h)"
  by (simp add: handleValidate_def Let_def run_callback_inv delete_callback_inv
      split: option.splits)

lemma register_connection_inv:
  "hub_inv h \<Longrightarrow> validator_by_id (hub_db h) (validator_id v) = Some v \<Longrightarrow>
   hub_inv (register_connection c su v w h)"
  by (auto simp add: hub_inv_def registry_ok_def fresh_ids_def register_connection_def)

lemma seed_inc_inv: "hub_inv h \<Longrightarrow> hub_inv (h\<lparr>seed := Suc (seed h)\<rparr>)"
  by (simp add: hub_inv_def registry_ok_def fresh_ids_def)

lemma insert_new_validator_inv:
  assumes inv: "hub_inv h" and vid: "validator_id v = uuid (seed h)"
    and ins: "insert_validator v (hub_db h) = Some d"
  shows "hub_inv (h\<lparr>seed := Suc (seed h), hub_db := d\<rparr>)"
proof -
  from inv have none: "validator_by_id (hub_db h) (uuid (seed h)) = None"
    by (simp add: hub_inv_def fresh_ids_def)
  have ticks: "tick_rows d = tick_rows (hub_db h)"
    using insert_validator_Some [OF ins] by simp
  have row: "validator_by_id d j = (if j = uuid (seed h) then Some v else validator_by_id (hub_db h) j)" for j
    using validator_by_id_insert_validator [OF ins, of j] vid by simp
  have wf: "ledger_wf d"
    using inv by (simp add: hub_inv_def insert_validator_wf [OF _ ins])
  have reg: "registry_ok (h\<lparr>seed := Suc (seed h), hub_db := d\<rparr>)"
    using inv none unfolding hub_inv_def registry_ok_def by (auto simp add: row) fastforce
  have fr: "fresh_ids (h\<lparr>seed := Suc (seed h), hub_db := d\<rparr>)"
    using inv unfolding hub_inv_def fresh_ids_def by (simp add: row ticks)
  from wf reg fr show ?thesis by (simp add: hub_inv_def)
qed

lemma handleSignup_inv: "hub_inv h \<Longrightarrow> hub_inv (handleSignup c data f w h)"
proof -
  assume inv: "hub_inv h"
  then have wf: "ledger_wf (hub_db h)" by (simp add: hub_inv_def)
  show ?thesis
  proof (cases "decode_signup data")
    case None
    with inv show ?thesis by (simp add: handleSignup_def)
  next
    case (Some su)
    show ?thesis
    proof (cases "validator_by_key (hub_db h) (su_public_key su)")
      case (Some v)
      with inv wf \<open>decode_signup data = Some su\<close> show ?thesis
        by (simp add: handleSignup_def register_connection_inv validator_by_key_row)
    next
      case None
      define v where "v = \<lparr>validator_id = uuid (seed h), public_key = su_public_key su,
          location = ''unknown'', ip = su_ip su, pending_payouts = (0::int)\<rparr>"
      have new: "hub_inv (h\<lparr>seed := Suc (seed h), hub_db := d\<rparr>)"
        if "insert_validator v (hub_db h) = Some d" for d
        using insert_new_validator_inv [OF inv _ that] by (simp add: v_def)
      have reg: "hub_inv (register_connection c su v w (h\<lparr>seed := Suc (seed h), hub_db := d\<rparr>))"
        if ins: "insert_validator v (hub_db h) = Some d" for d
        using register_connection_inv [OF new [OF ins]]
          validator_by_id_insert_validator [OF ins, of "validator_id v"] by simp
      from inv \<open>decode_signup data = Some su\<close> None show ?thesis
        by (auto simp add: handleSignup_def Let_def seed_inc_inv reg
            simp flip: v_def split: option.splits)
    qed
  qed
qed

lemma remove_first_sub: "remove_first c ks m k = Some v \<Longrightarrow> m k = Some v"
  by (induction ks) (auto split: option.splits if_splits)

lemma removeValidator_inv: "hub_inv h \<Longrightarrow> hub_inv (removeValidator c ks h)"
  unfolding hub_inv_def registry_ok_def fresh_ids_def
  by (auto simp add: removeValidator_def dest!: remove_first_sub)

lemma add_callback_inv:
  "hub_inv h \<Longrightarrow> hub_inv (h\<lparr>seed := Suc (seed h), callbacks := (callbacks h)(uuid (seed h) \<mapsto> cb)\<rparr>)"
  by (simp add: hub_inv_def registry_ok_def fresh_ids_def)

lemma send_to_validators_inv: "hub_inv h \<Longrightarrow> hub_inv (send_to_validators w web vs h)"
  by (induction vs arbitrary: h) (simp_all add: Let_def add_callback_inv)

lemma send_tasks_inv: "hub_inv h \<Longrightarrow> hub_inv (send_tasks w ws vs h)"
  by (induction ws arbitrary: h) (simp_all add: send_to_validators_inv)

lemma monitoring_round_inv: "hub_inv h \<Longrightarrow> hub_inv (monitoring_round f ks w h)"
  by (simp add: monitoring_round_def Let_def send_tasks_inv)

lemmas hub_ops_inv = handleSignup_inv handleValidate_inv removeValidator_inv monitoring_round_inv

section \<open>Runs keep the invariant and the withdrawn amounts\<close>

lemma hub_step_inv: "hub_inv h \<Longrightarrow> hub_inv (hub_step w h e)"
proof (induction w h e rule: hub_step.induct)
  case (1 writable h c ty data f)
  then show ?case by (simp add: hub_ops_inv)
qed (simp_all add: hub_ops_inv)

lemma hub_run_inv: "hub_inv h \<Longrightarrow> hub_inv (hub_run w h es)"
  unfolding hub_run_def by (induction es arbitrary: h) (simp_all add: hub_step_inv)

lemma new_hub_inv:
  "validator_rows d = [] \<Longrightarrow> tick_rows d = [] \<Longrightarrow> hub_inv (new_hub d)"
  by (simp add: hub_inv_def registry_ok_def fresh_ids_def new_hub_def ledger_wf_def
      validator_by_id_def)

lemma validate_callback_withdrawn:
  "withdrawn (hub_db (validate_callback w p data f h)) j = withdrawn (hub_db h) j"
  by (simp add: validate_callback_def Let_def hub_simps split: option.splits)

lemma handleValidate_withdrawn:
  "withdrawn (hub_db (handleValidate data f h)) j = withdrawn (hub_db h) j"
proof -
  have "withdrawn (hub_db (run_callback cb data f h)) j = withdrawn (hub_db h) j" for cb
    by (cases cb) (simp add: validate_callback_withdrawn)
  then show ?thesis by (simp add: handleValidate_def Let_def split: option.splits)
qed

lemma insert_new_validator_withdrawn:
  assumes inv: "hub_inv h" and vid: "validator_id v = uuid (seed h)" and p0: "pending_payouts v = 0"
    and ins: "insert_validator v (hub_db h) = Some d"
  shows "withdrawn d j = withdrawn (hub_db h) j"
proof -
  from inv have none: "validator_by_id (hub_db h) (uuid (seed h)) = None"
    and wf: "ledger_wf (hub_db h)"
    by (simp_all add: hub_inv_def fresh_ids_def)
  have ticks: "ticks_of d i = ticks_of (hub_db h) i" for i
    using insert_validator_Some [OF ins] by simp
  show ?thesis
  proof (cases "j = uuid (seed h)")
    case True
    with none wf have "ticks_of (hub_db h) j = 0" "pending_of (hub_db h) j = 0"
      by (simp_all add: ticks_of_no_row pending_of_def)
    with True show ?thesis
      by (simp add: withdrawn_def ticks pending_of_insert_validator [OF ins] vid p0)
  next
    case False
    then show ?thesis
      by (simp add: withdrawn_def ticks pending_of_insert_validator [OF ins] vid)
  qed
qed

lemma handleSignup_withdrawn:
  assumes inv: "hub_inv h"
  shows "withdrawn (hub_db (handleSignup c data f w h)) j = withdrawn (hub_db h) j"
proof -
  have new: "withdrawn d j = withdrawn (hub_db h) j"
    if "insert_validator \<lparr>validator_id = uuid (seed h), public_key = k, location = ''unknown'',
          ip = a, pending_payouts = 0\<rparr> (hub_db h) = Some d" for k a d
    using insert_new_validator_withdrawn [OF inv _ _ that] by simp
  then show ?thesis
    by (auto simp add: handleSignup_def Let_def split: option.splits)
qed

lemma hub_step_withdrawn:
  "hub_inv h \<Longrightarrow> withdrawn (hub_db (hub_step w h e)) j = withdrawn (hub_db h) j"
proof (induction w h e rule: hub_step.induct)
  case (1 writable h c ty data f)
  then show ?case by (simp add: handleSignup_withdrawn handleValidate_withdrawn)
qed simp_all

lemma hub_run_withdrawn:
  "hub_inv h \<Longrightarrow> withdrawn (hub_db (hub_run w h es)) j = withdrawn (hub_db h) j"
  unfolding hub_run_def
  by (induction es arbitrary: h) (simp_all add: hub_step_withdrawn hub_step_inv)

lemma run_callback_fields [simp]:
  "callbacks (run_callback cb data f h) = callbacks h"
  "validators (run_callback cb data f h) = validators h"
  "sent (run_callback cb data f h) = sent h"
  by (cases cb; simp add: validate_callback_def Let_def split: option.splits)+

lemma new_hub_withdrawn:
  "validator_rows d = [] \<Longrightarrow> tick_rows d = [] \<Longrightarrow> withdrawn (hub_db (new_hub d)) j = 0"
  by (simp add: withdrawn_def new_hub_def ticks_of_def pending_of_def validator_by_id_def)

text \<open>The definitions a concrete run of the hub unfolds, for evaluation by \<open>simp\<close>.\<close>

lemmas hub_eval = hub_run_def new_hub_def handleSignup_def handleValidate_def
  monitoring_round_def validate_callback_def record_tick_def insert_tick_def
  insert_validator_def validator_by_id_def validator_by_key_def active_websites_def
  add_pending_def pending_of_def ticks_of_def empty_ledger_def register_connection_def
  removeValidator_def COST_PER_VALIDATION_def Let_def

section \<open>A monitoring round implements its contract\<close>

lemma send_to_validators_fold:
  "send_to_validators wr w vs h = foldl (dispatch_one wr) h (map (Pair w) vs)"
  by (induction vs arbitrary: h) (simp_all add: dispatch_one_def Let_def)

lemma send_tasks_fold:
  "send_tasks wr ws vs h = foldl (dispatch_one wr) h (List.product ws vs)"
  by (induction ws arbitrary: h) (simp_all add: send_to_validators_fold)

lemma plan_callbacks_fresh:
  "uuid n \<notin> dom (map_of (plan_callbacks (Suc n) ps))"
  by (auto simp add: plan_callbacks_def dom_map_of_conv_image_fst in_set_enumerate_eq)

lemma dispatch_one_step:
  "dispatch_one wr h (w, v) =
     h\<lparr>seed := Suc (seed h),
       callbacks := (callbacks h)(uuid (seed h) \<mapsto> ValidateCallback (website_id w) (vc_public_key v)),
       sent := sent h @ (if wr (vc_conn v)
                         then [(vc_conn v, ValidateTask (url w) (uuid (seed h)) (website_id w))] else [])\<rparr>"
  by (simp add: dispatch_one_def Let_def)

lemma dispatch_fold_seed:
  "seed (foldl (dispatch_one wr) h ps) = seed h + length ps"
  by (induction ps arbitrary: h) (auto simp add: dispatch_one_step)

lemma dispatch_fold_callbacks:
  "callbacks (foldl (dispatch_one wr) h ps) = callbacks h ++ map_of (plan_callbacks (seed h) ps)"
proof (induction ps arbitrary: h)
  case Nil
  then show ?case by (simp add: plan_callbacks_def)
next
  case (Cons p ps)
  obtain w v where p: "p = (w, v)" by fastforce
  define c where "c = ValidateCallback (website_id w) (vc_public_key v)"
  define M where "M = map_of (plan_callbacks (Suc (seed h)) ps)"
  have step: "callbacks (dispatch_one wr h (w, v)) = (callbacks h)(uuid (seed h) \<mapsto> c)"
    "seed (dispatch_one wr h (w, v)) = Suc (seed h)"
    by (simp_all add: dispatch_one_step c_def)
  have "callbacks (foldl (dispatch_one wr) h (p # ps)) = (callbacks h)(uuid (seed h) \<mapsto> c) ++ M"
    by (simp only: p foldl_Cons Cons.IH step M_def)
  also have "\<dots> = (callbacks h ++ M)(uuid (seed h) \<mapsto> c)"
    by (rule map_add_upd_left) (simp only: M_def plan_callbacks_fresh not_False_eq_True)
  also have "\<dots> = callbacks h ++ map_of (plan_callbacks (seed h) (p # ps))"
    by (simp add: p plan_callbacks_def M_def c_def)
  finally show ?case .
qed

lemma dispatch_fold_sent:
  "sent (foldl (dispatch_one wr) h ps) = sent h @ plan_messages wr (seed h) ps"
  by (induction ps arbitrary: h) (auto simp add: dispatch_one_step plan_messages_def)

lemma dispatch_fold_fields:
  "hub_db (foldl (dispatch_one wr) h ps) = hub_db h"
  "validators (foldl (dispatch_one wr) h ps) = validators h"
  "hub.more (foldl (dispatch_one wr) h ps) = hub.more h"
  by (induction ps arbitrary: h) (auto simp add: dispatch_one_step)

lemma dispatch_fold:
  "foldl (dispatch_one wr) h ps =
     h\<lparr>seed := seed h + length ps, callbacks := callbacks h ++ map_of (plan_callbacks (seed h) ps),
       sent := sent h @ plan_messages wr (seed h) ps\<rparr>"
  by (intro hub.equality) (simp_all add: dispatch_fold_seed dispatch_fold_callbacks
      dispatch_fold_sent dispatch_fold_fields)

lemma monitoring_round_noop:
  "\<not> db_ok f 0 \<or> active_websites (hub_db h) = [] \<or> List.map_filter (validators h) ks = [] \<Longrightarrow>
   monitoring_round f ks wr h = h"
  by (auto simp add: monitoring_round_def Let_def)

lemma remove_first_cases:
  "remove_first c ks m = m \<or> (\<exists>k v. m k = Some v \<and> vc_conn v = c \<and> remove_first c ks m = m(k := None))"
proof (induction ks)
  case Nil
  then show ?case by simp
next
  case (Cons k0 ks)
  show ?case
  proof (cases "\<exists>v0. m k0 = Some v0 \<and> vc_conn v0 = c")
    case True
    then obtain v0 where "m k0 = Some v0" and "vc_conn v0 = c" by blast
    then have "remove_first c (k0 # ks) m = m(k0 := None)" by simp
    with \<open>m k0 = Some v0\<close> \<open>vc_conn v0 = c\<close> show ?thesis by blast
  next
    case False
    then have "remove_first c (k0 # ks) m = remove_first c ks m"
      by (auto split: option.splits)
    with Cons.IH show ?thesis by presburger
  qed
qed

lemma remove_first_removes:
  "k \<in> set ks \<Longrightarrow> m k = Some v \<Longrightarrow> vc_conn v = c \<Longrightarrow>
   \<exists>k' v'. m k' = Some v' \<and> vc_conn v' = c \<and> remove_first c ks m = m(k' := None)"
proof (induction ks)
  case Nil
  then show ?case by auto
next
  case (Cons k0 ks)
  show ?case
  proof (cases "\<exists>v0. m k0 = Some v0 \<and> vc_conn v0 = c")
    case True
    then obtain v0 where "m k0 = Some v0" and "vc_conn v0 = c" by blast
    then have "remove_first c (k0 # ks) m = m(k0 := None)" by simp
    with \<open>m k0 = Some v0\<close> \<open>vc_conn v0 = c\<close> show ?thesis by blast
  next
    case False
    then have step: "remove_first c (k0 # ks) m = remove_first c ks m"
      by (auto split: option.splits)
    from False Cons.prems have "k \<in> set ks" by auto
    with Cons.IH Cons.prems step show ?thesis by simp
  qed
qed


lemma fresh_tick_id:
  "hub_inv h \<Longrightarrow> \<forall>t' \<in> set (tick_rows (hub_db h)). tick_id t' \<noteq> uuid (seed h)"
  by (simp add: hub_inv_def fresh_ids_def)

lemma fresh_validator_id:
  "hub_inv h \<Longrightarrow> validator_by_id (hub_db h) (uuid (seed h)) = None"
  by (simp add: hub_inv_def fresh_ids_def)

section \<open>Properties\<close>

text \<open>
  C1. Starting from a ledger with no validators and no ticks, after any run of the hub
  (any signups, replies, disconnects and monitoring rounds, with any database faults
  and failed writes), every validator row holds exactly \<open>COST_PER_VALIDATION\<close> times
  the number of ticks recorded for it: no result exists without its credit, and no
  credit without its result.
\<close>

theorem pending_equals_reward_count:
  assumes "validator_rows d = []" and "tick_rows d = []"
    and "validator_by_id (hub_db (hub_run w (new_hub d) es)) i = Some r"
  shows "pending_payouts r =
           COST_PER_VALIDATION * int (ticks_of (hub_db (hub_run w (new_hub d) es)) i)"
proof -
  let ?d' = "hub_db (hub_run w (new_hub d) es)"
  have "withdrawn ?d' i = withdrawn (hub_db (new_hub d)) i"
    using assms(1,2) by (simp add: hub_run_withdrawn new_hub_inv)
  also have "\<dots> = 0" using assms(1,2) by (rule new_hub_withdrawn)
  finally show ?thesis using assms(3) by (simp add: withdrawn_def pending_of_def)
qed

text \<open>
  C2. The transaction of the validate callback is atomic: whatever fails (the tick
  insert, the credit update, the commit, a foreign key), either neither the tick
  table nor any balance changes, or the tick is appended and exactly the validator it
  names gains \<open>COST_PER_VALIDATION\<close>.
\<close>

theorem record_tick_atomic:
  "(tick_rows (record_tick t f d) = tick_rows d \<and> pending_of (record_tick t f d) = pending_of d)
   \<or> (tick_rows (record_tick t f d) = tick_rows d @ [t]
      \<and> pending_of (record_tick t f d) =
          (pending_of d)(tick_validator_id t := pending_of d (tick_validator_id t) + COST_PER_VALIDATION))"
  using record_tick_cases [of t f d]
  by (auto simp add: ledger_simps fun_eq_iff)

text \<open>
  C3. A reply carrying a registered callback id runs that handler once and removes it;
  any later reply with the same id (a duplicate or a late reply) leaves the hub
  unchanged.
\<close>

theorem handleValidate_once:
  assumes "decode_validate data = Some vi" and "callbacks h (vi_callback_id vi) = Some cb"
    and "decode_validate data' = Some vi'" and "vi_callback_id vi' = vi_callback_id vi"
  shows "handleValidate data f h =
           (run_callback cb data f h)\<lparr>callbacks := (callbacks h)(vi_callback_id vi := None)\<rparr>
         \<and> handleValidate data' f' (handleValidate data f h) = handleValidate data f h"
  using assms by (simp add: handleValidate_def Let_def)

text \<open>
  C4. The invariant of the hub (well-formed tables, a registry consistent with the
  validator rows, unused fresh identifiers) holds after every run from an empty
  ledger.
\<close>

theorem hub_invariant_holds:
  "validator_rows d = [] \<Longrightarrow> tick_rows d = [] \<Longrightarrow> hub_inv (hub_run w (new_hub d) es)"
  by (simp add: hub_run_inv new_hub_inv)

text \<open>
  C16. A monitoring round whose query succeeds, with active websites \<open>ws\<close> and
  connected validators \<open>vs\<close>, does exactly what its contract says: one fresh callback
  id per pair of \<open>ws \<times> vs\<close> in loop order, each with its handler, one task per pair
  written to each writable connection, and the counter advanced by
  \<open>|ws| * |vs|\<close>; the ledger and the registry are untouched.
\<close>

theorem monitoring_round_fan_out:
  assumes "db_ok f 0" and "active_websites (hub_db h) = ws" and "ws \<noteq> []"
    and "List.map_filter (validators h) ks = vs" and "vs \<noteq> []"
  shows "monitoring_round f ks wr h =
           h\<lparr>seed := seed h + length ws * length vs,
             callbacks := callbacks h ++ map_of (plan_callbacks (seed h) (List.product ws vs)),
             sent := sent h @ plan_messages wr (seed h) (List.product ws vs)\<rparr>"
  using assms by (simp add: monitoring_round_def Let_def send_tasks_fold dispatch_fold)

text \<open>
  A monitoring round is a no-op when the website query fails, when no website is
  active or when no validator is connected: no callback, no task, no id drawn.
\<close>

theorem monitoring_round_skips:
  "\<not> db_ok f 0 \<or> active_websites (hub_db h) = [] \<or> List.map_filter (validators h) ks = [] \<Longrightarrow>
   monitoring_round f ks wr h = h"
  by (auto simp add: monitoring_round_def Let_def)

text \<open>
  C18. A reply credits the validator whose id the reply names, not the validator the
  task was sent to: the handler's own record of that validator (its public key) is
  never read, and, with a healthy database, the balance of the named validator grows by
  \<open>COST_PER_VALIDATION\<close> whichever connection sent the reply.
\<close>

theorem validate_credits_reply_validator:
  assumes "hub_inv h" and "decode_validate data = Some vi"
    and "wid \<in> website_id ` set (website_rows (hub_db h))"
    and "validator_by_id (hub_db h) (vi_validator_id vi) \<noteq> None"
  shows "pending_of (hub_db (run_callback (ValidateCallback wid key) data None h)) =
           (pending_of (hub_db h))(vi_validator_id vi :=
              pending_of (hub_db h) (vi_validator_id vi) + COST_PER_VALIDATION)
    \<and> run_callback (ValidateCallback wid key) data f h = run_callback (ValidateCallback wid key') data f h"
proof -
  let ?t = "\<lparr>tick_id = uuid (seed h), tick_website_id = wid, tick_validator_id = vi_validator_id vi,
             tick_status = vi_status vi, tick_latency = vi_latency vi\<rparr>"
  have "record_tick ?t None (hub_db h) =
          add_pending (vi_validator_id vi) COST_PER_VALIDATION
            ((hub_db h)\<lparr>tick_rows := tick_rows (hub_db h) @ [?t]\<rparr>)"
    using assms(3,4) fresh_tick_id [OF assms(1)]
    by (auto simp add: record_tick_def insert_tick_def)
  then show ?thesis
    using assms(2,4) by (simp add: validate_callback_def Let_def ledger_simps fun_eq_iff)
qed

text \<open>
  C19. A signup is accepted whatever its signature: the signed message is never read,
  and a signup for a key the ledger does not know, with a healthy database, creates the
  validator under the next id and registers the connection for it.
\<close>

theorem handleSignup_ignores_signature:
  assumes "hub_inv h" and "validator_by_key (hub_db h) (su_public_key su) = None"
  shows "validators (handleSignup c (JSignup su) None wr h) (uuid (seed h)) =
           Some \<lparr>vc_validator_id = uuid (seed h), vc_public_key = su_public_key su, vc_conn = c\<rparr>
    \<and> handleSignup c (JSignup (su\<lparr>su_signed_message := s\<rparr>)) f wr h = handleSignup c (JSignup su) f wr h"
  using assms fresh_validator_id [OF assms(1)]
  by (simp add: handleSignup_def insert_validator_def register_connection_def Let_def
      split: option.splits)

text \<open>
  C20. A disconnect removes only the first registry entry, in map order, whose
  connection is the dropped one. When one connection has signed up under two
  identities, an entry for the dead connection survives the disconnect.
\<close>

theorem removeValidator_leaves_stale:
  assumes "validators h k1 = Some v1" and "validators h k2 = Some v2" and "k1 \<noteq> k2"
    and "vc_conn v1 = c" and "vc_conn v2 = c"
  shows "\<exists>k v. validators (removeValidator c ks h) k = Some v \<and> vc_conn v = c"
proof -
  let ?m = "validators h"
  have "\<exists>k. remove_first c ks ?m k \<in> {Some v1, Some v2}"
  proof (cases "remove_first c ks ?m = ?m")
    case True
    then show ?thesis using assms(1) by auto
  next
    case False
    then obtain k where "remove_first c ks ?m = ?m(k := None)"
      using remove_first_cases [of c ks ?m] by blast
    then show ?thesis
      using assms(1-3) by (cases "k = k1") auto
  qed
  then show ?thesis
    using assms(4,5) by (auto simp add: removeValidator_def)
qed

text \<open>
  C21. When the dropped connection is registered under one identity only, a disconnect
  removes exactly that entry, whatever the map's iteration order.
\<close>

theorem removeValidator_disconnects:
  assumes "iteration_order ks (validators h)" and "validators h k = Some v" and "vc_conn v = c"
    and "\<forall>k' v'. validators h k' = Some v' \<and> vc_conn v' = c \<longrightarrow> k' = k"
  shows "validators (removeValidator c ks h) = (validators h)(k := None)"
proof -
  from assms(1,2) have "k \<in> set ks" by (auto simp add: iteration_order_def)
  from remove_first_removes [of k ks "validators h" v c, OF this assms(2,3)] assms(4)
  show ?thesis by (auto simp add: removeValidator_def)
qed

end
