(* ===== verification/Correlation.thy ===== *)
theory Correlation
  imports Hub
begin

text \<open>
  The correlation table under concurrent read loops. \<open>handleWebSocket\<close> runs one read
  loop per connection, and each calls \<open>handleValidate\<close> (\<open>src/cmd/hub/main.go\<close>,
  lines 166--189) for a \<open>validate\<close> frame. The handler takes the callback table's lock
  three times: a read lock to look the handler up, none while the handler runs, and the
  write lock to delete it. Each read loop is a program counter (\<open>hv_pc\<close>) over these
  steps; a run is any interleaving of the steps of several loops over the shared hub.
  Run without interleaving, the steps are \<open>handleValidate\<close>; interleaved, two loops
  can both find the handler of one callback id before either deletes it.
\<close>

section \<open>Read loops in \<open>handleValidate\<close>\<close>

datatype hv_pc =
    HvIdle
  | HvReceived json_data validate_incoming
  | HvLooked json_data validate_incoming callback
  | HvCalled validate_incoming

record corr =
  corr_hub :: hub
  loops :: "conn \<Rightarrow> hv_pc"

datatype corr_event = Recv conn json_data | Lookup conn | Call conn fault | Delete conn

text \<open>
  \<open>Recv\<close>: the loop of the connection reads a \<open>validate\<close> frame and unmarshals it;
  \<open>Lookup\<close>: the read-locked lookup (an absent id ends the handler);
  \<open>Call\<close>: the handler runs, outside the lock; \<open>Delete\<close>: the write-locked delete.
  A step of a loop that is not at that point changes nothing.
\<close>

fun corr_step :: "corr \<Rightarrow> corr_event \<Rightarrow> corr" where
  "corr_step s (Recv c data) =
     (case loops s c of
        HvIdle \<Rightarrow> (case decode_validate data of
                     None \<Rightarrow> s
                   | Some vi \<Rightarrow> s\<lparr>loops := (loops s)(c := HvReceived data vi)\<rparr>)
      | _ \<Rightarrow> s)"
| "corr_step s (Lookup c) =
     (case loops s c of
        HvReceived data vi \<Rightarrow>
          (case callbacks (corr_hub s) (vi_callback_id vi) of
             None \<Rightarrow> s\<lparr>loops := (loops s)(c := HvIdle)\<rparr>
           | Some cb \<Rightarrow> s\<lparr>loops := (loops s)(c := HvLooked data vi cb)\<rparr>)
      | _ \<Rightarrow> s)"
| "corr_step s (Call c f) =
     (case loops s c of
        HvLooked data vi cb \<Rightarrow>
          s\<lparr>corr_hub := run_callback cb data f (corr_hub s), loops := (loops s)(c := HvCalled vi)\<rparr>
      | _ \<Rightarrow> s)"
| "corr_step s (Delete c) =
     (case loops s c of
        HvCalled vi \<Rightarrow>
          s\<lparr>corr_hub := (corr_hub s)\<lparr>callbacks := (callbacks (corr_hub s))(vi_callback_id vi := None)\<rparr>,
            loops := (loops s)(c := HvIdle)\<rparr>
      | _ \<Rightarrow> s)"

definition corr_run :: "corr \<Rightarrow> corr_event list \<Rightarrow> corr" where
  "corr_run s es = foldl corr_step s es"

section \<open>Lemmas\<close>

lemma run_callback_callbacks [simp]: "callbacks (run_callback cb data f h) = callbacks h"
  by (cases cb) (simp add: validate_callback_def Let_def split: option.splits)

lemma corr_run_Cons [simp]: "corr_run s (e # es) = corr_run (corr_step s e) es"
  by (simp add: corr_run_def)

lemma corr_run_Nil [simp]: "corr_run s [] = s"
  by (simp add: corr_run_def)

text \<open>
  Without interleaving, the four steps of one loop are \<open>handleValidate\<close>: the split
  model refines the atomic handler of \<open>Hub\<close>.
\<close>

lemma handleValidate_steps:
  assumes "loops s c = HvIdle"
  shows "corr_run s [Recv c data, Lookup c, Call c f, Delete c] = s\<lparr>corr_hub := handleValidate data f (corr_hub s)\<rparr>"
proof (cases "decode_validate data")
  case None
  with assms show ?thesis by (simp add: handleValidate_def)
next
  case (Some vi)
  show ?thesis
  proof (cases "callbacks (corr_hub s) (vi_callback_id vi)")
    case None
    with assms Some show ?thesis by (simp add: handleValidate_def fun_upd_idem)
  next
    case (Some cb)
    with assms \<open>decode_validate data = Some vi\<close> show ?thesis
      by (simp add: handleValidate_def Let_def fun_upd_idem)
  qed
qed

section \<open>Properties\<close>

text \<open>
  C17. Two read loops that receive a reply with the same callback id (a validator
  holding two connections, or a replayed frame on a second connection) can both look
  the handler up before either deletes it: the handler then runs twice, recording two
  ticks and crediting the validator twice, against the contract that a handler is
  invoked at most once.
\<close>

theorem concurrent_replies_run_twice:
  assumes "c1 \<noteq> c2" and "loops s c1 = HvIdle" and "loops s c2 = HvIdle"
    and "decode_validate data = Some vi" and "callbacks (corr_hub s) (vi_callback_id vi) = Some cb"
  shows "corr_hub (corr_run s [Recv c1 data, Recv c2 data, Lookup c1, Lookup c2,
                              Call c1 f1, Call c2 f2, Delete c1, Delete c2]) =
    (let h = run_callback cb data f2 (run_callback cb data f1 (corr_hub s))
     in h\<lparr>callbacks := (callbacks h)(vi_callback_id vi := None)\<rparr>)"
  using assms by (simp add: Let_def)

end
