(* ===== verification/UserApi.thy ===== *)
theory UserApi
  imports Jwt Ledger
begin

text \<open>
  Accounts and the read-only balance query of \<open>src/internal/handlers/user/handler.go\<close>:
  \<open>Signup\<close> (lines 157--215), \<open>Login\<close> (lines 162--165 and 217--252) and
  \<open>GetValidatorBalance\<close> (lines 133--155), over the \<open>User\<close> table of
  \<open>src/internal/models/models.go\<close> (lines 7--16: primary key \<open>ID\<close>, unique index on
  \<open>Email\<close>). The request body is given after \<open>ShouldBindJSON\<close>: whether the
  \<open>email\<close> validator accepts the address is an input; \<open>required\<close> and \<open>min=8\<close> are
  written out (a string is a list of characters, as \<open>min\<close> counts runes). \<open>bcrypt\<close> is an
  ideal password hash: \<open>Bcrypt p\<close> matches exactly the password \<open>p\<close>; whether
  \<open>GenerateFromPassword\<close> fails is an input. Database calls are numbered per handler.
\<close>

section \<open>State\<close>

datatype password_hash = Bcrypt string

record user =
  user_ID :: string
  email :: string
  password :: password_hash

record user_store =
  users :: "user list"
  api_seed :: nat

record signup_request =
  req_email :: string
  req_password :: string
  email_valid :: bool

datatype http_response =
    Response nat string
  | TokenResponse nat token string string
  | BalanceResponse string string lamports

fun status_of :: "http_response \<Rightarrow> nat" where
  "status_of (Response n m) = n"
| "status_of (TokenResponse n t i e) = n"
| "status_of (BalanceResponse i k p) = 200"

section \<open>The \<open>User\<close> table\<close>

definition user_by_email :: "user_store \<Rightarrow> string \<Rightarrow> user option" where
  "user_by_email s e = find (\<lambda>u. email u = e) (users s)"

definition insert_user :: "user \<Rightarrow> user_store \<Rightarrow> user_store option" where
  "insert_user u s =
     (if (\<forall>u' \<in> set (users s). user_ID u' \<noteq> user_ID u \<and> email u' \<noteq> email u)
      then Some (s\<lparr>users := users s @ [u]\<rparr>) else None)"

section \<open>Handlers\<close>

text \<open>
  \<open>Signup\<close>: database call 0 the lookup by email (only a found row stops the
  handler: a failed lookup proceeds as if the email were new), 1 the insert.
\<close>

definition Signup ::
  "signup_request \<Rightarrow> fault \<Rightarrow> bool \<Rightarrow> string \<Rightarrow> int \<Rightarrow> user_store \<Rightarrow> http_response \<times> user_store" where
  "Signup req f hash_ok secret now s =
     (if \<not> (email_valid req \<and> req_email req \<noteq> [] \<and> 8 \<le> length (req_password req))
      then (Response 400 ''invalid request'', s)
      else if db_ok f 0 \<and> user_by_email s (req_email req) \<noteq> None
      then (Response 409 ''User already exists'', s)
      else if \<not> hash_ok then (Response 500 ''Failed to hash password'', s)
      else let u = \<lparr>user_ID = uuid (api_seed s), email = req_email req,
                    password = Bcrypt (req_password req)\<rparr>;
               s1 = s\<lparr>api_seed := Suc (api_seed s)\<rparr>
           in if \<not> db_ok f 1 then (Response 500 ''Failed to create user'', s1)
              else case insert_user u s1 of
                None \<Rightarrow> (Response 500 ''Failed to create user'', s1)
              | Some s2 \<Rightarrow> (TokenResponse 201 (GenerateJWT (user_ID u) secret now) (user_ID u) (email u), s2))"

text \<open>\<open>Login\<close>: database call 0 the lookup by email; the state is never changed.\<close>

definition Login ::
  "signup_request \<Rightarrow> fault \<Rightarrow> string \<Rightarrow> int \<Rightarrow> user_store \<Rightarrow> http_response" where
  "Login req f secret now s =
     (if \<not> (email_valid req \<and> req_email req \<noteq> [] \<and> req_password req \<noteq> [])
      then Response 400 ''invalid request''
      else if \<not> db_ok f 0 then Response 401 ''Invalid credentials''
      else case user_by_email s (req_email req) of
        None \<Rightarrow> Response 401 ''Invalid credentials''
      | Some u \<Rightarrow>
          if password u \<noteq> Bcrypt (req_password req) then Response 401 ''Invalid credentials''
          else TokenResponse 200 (GenerateJWT (user_ID u) secret now) (user_ID u) (email u))"

text \<open>\<open>GetValidatorBalance\<close>: database call 0 the lookup by id.\<close>

definition GetValidatorBalance :: "string \<Rightarrow> fault \<Rightarrow> ledger \<Rightarrow> http_response" where
  "GetValidatorBalance validatorID f d =
     (if \<not> db_ok f 0 then Response 500 ''Database error''
      else case validator_by_id d validatorID of
        None \<Rightarrow> Response 404 ''Validator not found''
      | Some v \<Rightarrow> BalanceResponse (validator_id v) (public_key v) (pending_payouts v))"

text \<open>The invariant of the table: ids and emails are unique.\<close>

definition users_wf :: "user_store \<Rightarrow> bool" where
  "users_wf s \<longleftrightarrow> distinct (map user_ID (users s)) \<and> distinct (map email (users s))"

section \<open>Lemmas\<close>

lemma insert_user_Some:
  "insert_user u s = Some s' \<Longrightarrow>
   s' = s\<lparr>users := users s @ [u]\<rparr> \<and> (\<forall>u' \<in> set (users s). user_ID u' \<noteq> user_ID u \<and> email u' \<noteq> email u)"
  by (simp add: insert_user_def split: if_splits)

lemma find_email_appended:
  "\<forall>u' \<in> set us. email u' \<noteq> email u \<Longrightarrow> find (\<lambda>x. email x = email u) (us @ [u]) = Some u"
  by (induction us) auto

lemma user_by_email_SomeD:
  "user_by_email s e = Some u \<Longrightarrow> u \<in> set (users s) \<and> email u = e"
  unfolding user_by_email_def by (blast dest: find_Some_mem)

lemma Signup_created:
  assumes "Signup req f hash_ok secret now s = (TokenResponse n tok i e, s')"
  shows "n = 201 \<and> tok = GenerateJWT i secret now \<and> e = req_email req
    \<and> i = uuid (api_seed s)
    \<and> (\<exists>u. s' = \<lparr>users = users s @ [u], api_seed = Suc (api_seed s), \<dots> = user_store.more s\<rparr>
         \<and> user_ID u = i \<and> email u = req_email req \<and> password u = Bcrypt (req_password req)
         \<and> (\<forall>u' \<in> set (users s). user_ID u' \<noteq> i \<and> email u' \<noteq> req_email req))"
  using assms
  by (cases s) (auto simp add: Signup_def Let_def insert_user_def split: if_splits option.splits)

lemma Signup_other:
  "Signup req f hash_ok secret now s = (Response n m, s') \<Longrightarrow> users s' = users s"
  by (auto simp add: Signup_def Let_def split: if_splits option.splits)

section \<open>Properties\<close>

text \<open>
  C30. Round trip of an account: after a successful \<open>Signup\<close>, \<open>Login\<close> with the same
  email and password (and a healthy database) returns a token for the new user's id,
  and that token verifies to the same id for 24 hours.
\<close>

theorem Signup_Login_roundtrip:
  assumes "Signup req f hash_ok secret now s = (TokenResponse n tok i e, s')"
    and "t < now' + TOKEN_LIFETIME"
  shows "Login req None secret now' s' = TokenResponse 200 (GenerateJWT i secret now') i (req_email req)
    \<and> VerifyJWT (GenerateJWT i secret now') secret t = Inr i"
proof -
  obtain u where s': "s' = \<lparr>users = users s @ [u], api_seed = Suc (api_seed s), \<dots> = user_store.more s\<rparr>"
    and u: "user_ID u = i" "email u = req_email req" "password u = Bcrypt (req_password req)"
    and fresh: "\<forall>u' \<in> set (users s). user_ID u' \<noteq> i \<and> email u' \<noteq> req_email req"
    using Signup_created [OF assms(1)] by blast
  have valid: "email_valid req \<and> req_email req \<noteq> [] \<and> req_password req \<noteq> []"
    using assms(1) by (auto simp add: Signup_def split: if_splits)
  have "user_by_email s' (req_email req) = Some u"
    using find_email_appended [of "users s" u] fresh u s' by (simp add: user_by_email_def)
  then have "Login req None secret now' s' = TokenResponse 200 (GenerateJWT i secret now') i (req_email req)"
    using valid u by (simp add: Login_def)
  moreover have "VerifyJWT (GenerateJWT i secret now') secret t = Inr i"
    using assms(2) by (simp add: GenerateJWT_def time_claims_ok_def Let_def)
  ultimately show ?thesis by blast
qed

text \<open>
  C31. \<open>Signup\<close> keeps the \<open>User\<close> table well formed (unique ids and emails) under
  every outcome, including a failed lookup followed by an insert.
\<close>

theorem Signup_users_wf:
  "users_wf s \<Longrightarrow> users_wf (snd (Signup req f hash_ok secret now s))"
proof -
  assume wf: "users_wf s"
  obtain r s' where r: "Signup req f hash_ok secret now s = (r, s')" by fastforce
  show ?thesis
  proof (cases r)
    case (TokenResponse n tok i e)
    then obtain u where s': "s' = \<lparr>users = users s @ [u], api_seed = Suc (api_seed s), \<dots> = user_store.more s\<rparr>"
      and u: "user_ID u = i" "email u = req_email req"
      and fresh: "\<forall>u' \<in> set (users s). user_ID u' \<noteq> i \<and> email u' \<noteq> req_email req"
      using Signup_created [of req f hash_ok secret now s n tok i e s'] r by blast
    have "user_ID u \<notin> user_ID ` set (users s)" and "email u \<notin> email ` set (users s)"
      using fresh u by auto
    with wf r s' show ?thesis by (simp add: users_wf_def)
  next
    case (Response n m)
    with Signup_other [of req f hash_ok secret now s n m s'] r wf show ?thesis
      by (simp add: users_wf_def)
  next
    case (BalanceResponse i k p)
    with r show ?thesis by (auto simp add: Signup_def Let_def split: if_splits option.splits)
  qed
qed

text \<open>
  C32. \<open>Login\<close> issues a token only for a stored user whose email is the one given and
  whose password hash matches the password given; every other request gets 400 or 401
  and no token.
\<close>

theorem Login_authenticates:
  assumes "Login req f secret now s = TokenResponse n tok i e"
  shows "\<exists>u \<in> set (users s). email u = req_email req \<and> password u = Bcrypt (req_password req)
    \<and> user_ID u = i \<and> e = email u \<and> n = 200 \<and> tok = GenerateJWT i secret now"
  using assms
  by (auto simp add: Login_def split: if_splits option.splits dest!: user_by_email_SomeD)

end
