(* ===== verification/Websites.thy ===== *)
theory Websites
  imports Jwt Hub
begin

text \<open>
  The website handlers of \<open>src/internal/handlers/website/handler.go\<close>, on the
  \<open>Website\<close> and \<open>WebsiteTick\<close> tables of \<open>Ledger\<close>: \<open>CreateWebsite\<close>,
  \<open>GetWebsites\<close>, \<open>GetWebsiteStatus\<close> and the soft delete \<open>DeleteWebsite\<close>, each
  reached through \<open>AuthMiddleware\<close> (\<open>protected\<close> routes of \<open>src/cmd/api/main.go\<close>,
  lines 79--88), which stores the authenticated user id in the request context. Rows are
  kept in insertion order, so \<open>ORDER BY created_at DESC\<close> is the reversed list. The
  ticks preloaded with \<open>Order("created_at DESC").Limit(100)\<close> are one query for the
  whole result: \<open>GetWebsites\<close> loads the 100 newest ticks of all listed websites
  together and hands each website its share (\<open>preload_ticks\<close>), while
  \<open>GetWebsiteStatus\<close>, with one website, gets that website's latest 100
  (\<open>latest_ticks\<close>). The request body is given after
  binding: whether \<open>binding:"required,url"\<close> accepts it is an input. The delete is a
  PostgreSQL \<open>UPDATE\<close>, whose affected-row count is the number of rows matched.
\<close>

section \<open>State and responses\<close>

record web_state =
  web_db :: ledger
  web_seed :: nat

datatype web_response =
    WebError nat string
  | WebCreated string string
  | WebList "(website \<times> website_tick list) list" nat
  | WebStatus website "website_tick list"
  | WebDeleted

section \<open>Handlers\<close>

definition latest_ticks :: "ledger \<Rightarrow> string \<Rightarrow> website_tick list" where
  "latest_ticks d wid = take 100 (rev (filter (\<lambda>t. tick_website_id t = wid) (tick_rows d)))"

text \<open>
  GORM's \<open>Preload\<close> for a list of websites: one
  \<open>SELECT \<dots> WHERE website_id IN (\<dots>) ORDER BY created_at DESC LIMIT 100\<close>, whose
  rows are then distributed to the websites by \<open>website_id\<close>.
\<close>

definition preload_ticks :: "ledger \<Rightarrow> website list \<Rightarrow> website_tick list" where
  "preload_ticks d ws =
     take 100 (rev (filter (\<lambda>t. tick_website_id t \<in> set (map website_id ws)) (tick_rows d)))"

definition ticks_for :: "website_tick list \<Rightarrow> website \<Rightarrow> website_tick list" where
  "ticks_for ts w = filter (\<lambda>t. tick_website_id t = website_id w) ts"

text \<open>\<open>CreateWebsite\<close>: database call 0 the insert (its primary key must be new).\<close>

definition CreateWebsite ::
  "string option \<Rightarrow> string \<Rightarrow> bool \<Rightarrow> fault \<Rightarrow> web_state \<Rightarrow> web_response \<times> web_state" where
  "CreateWebsite userID u bind_ok f s =
     (case userID of
        None \<Rightarrow> (WebError 401 ''User not authenticated'', s)
      | Some uid \<Rightarrow>
          if \<not> (bind_ok \<and> u \<noteq> []) then (WebError 400 ''Invalid request'', s)
          else let w = \<lparr>website_id = uuid (web_seed s), url = u, user_id = uid, disabled = False\<rparr>;
                   s1 = s\<lparr>web_seed := Suc (web_seed s)\<rparr>
               in if \<not> db_ok f 0 \<or> website_id w \<in> website_id ` set (website_rows (web_db s))
                  then (WebError 500 ''Failed to create website'', s1)
                  else (WebCreated (website_id w) u,
                        s1\<lparr>web_db := (web_db s)\<lparr>website_rows := website_rows (web_db s) @ [w]\<rparr>\<rparr>))"

definition owned_active :: "string \<Rightarrow> website \<Rightarrow> bool" where
  "owned_active uid w \<longleftrightarrow> user_id w = uid \<and> \<not> disabled w"

definition GetWebsites :: "string option \<Rightarrow> fault \<Rightarrow> ledger \<Rightarrow> web_response" where
  "GetWebsites userID f d =
     (if \<not> db_ok f 0 then WebError 500 ''Failed to fetch websites''
      else let ws = (case userID of
                       None \<Rightarrow> []
                     | Some uid \<Rightarrow> rev (filter (owned_active uid) (website_rows d)))
           in WebList (map (\<lambda>w. (w, ticks_for (preload_ticks d ws) w)) ws) (length ws))"

definition GetWebsiteStatus :: "string \<Rightarrow> string option \<Rightarrow> fault \<Rightarrow> ledger \<Rightarrow> web_response" where
  "GetWebsiteStatus websiteID userID f d =
     (if websiteID = [] then WebError 400 ''websiteId query parameter required''
      else if \<not> db_ok f 0 then WebError 500 ''Database error''
      else case userID of
        None \<Rightarrow> WebError 404 ''Website not found''
      | Some uid \<Rightarrow>
          (case find (\<lambda>w. website_id w = websiteID \<and> owned_active uid w) (website_rows d) of
             None \<Rightarrow> WebError 404 ''Website not found''
           | Some w \<Rightarrow> WebStatus w (latest_ticks d (website_id w))))"

text \<open>\<open>DeleteWebsite\<close>: database call 0 the update.\<close>

definition delete_matches :: "string \<Rightarrow> string \<Rightarrow> website \<Rightarrow> bool" where
  "delete_matches wid uid w \<longleftrightarrow> website_id w = wid \<and> user_id w = uid"

definition DeleteWebsite ::
  "string option \<Rightarrow> string \<Rightarrow> fault \<Rightarrow> ledger \<Rightarrow> web_response \<times> ledger" where
  "DeleteWebsite userID wid f d =
     (if wid = [] then (WebError 400 ''Invalid request'', d)
      else if \<not> db_ok f 0 then (WebError 500 ''Failed to delete website'', d)
      else case userID of
        None \<Rightarrow> (WebError 404 ''Website not found'', d)
      | Some uid \<Rightarrow>
          if \<not> (\<exists>w \<in> set (website_rows d). delete_matches wid uid w)
          then (WebError 404 ''Website not found'', d)
          else (WebDeleted, d\<lparr>website_rows :=
                  map (\<lambda>w. if delete_matches wid uid w then w\<lparr>disabled := True\<rparr> else w)
                    (website_rows d)\<rparr>))"

text \<open>A protected route: the middleware, then the handler with the user id it stored.\<close>

definition protected ::
  "string \<Rightarrow> auth_header \<Rightarrow> int \<Rightarrow> 's \<Rightarrow> (string option \<Rightarrow> web_response \<times> 's) \<Rightarrow> web_response \<times> 's" where
  "protected secret hdr now s handler =
     (case AuthMiddleware secret hdr now of
        Unauthorized m \<Rightarrow> (WebError 401 m, s)
      | Authenticated uid \<Rightarrow> handler (Some uid))"

section \<open>Lemmas\<close>

lemma DeleteWebsite_cases:
  "DeleteWebsite (Some uid) wid f d = (r, d') \<Longrightarrow>
     (d' = d \<and> r \<noteq> WebDeleted)
   \<or> (r = WebDeleted \<and> (\<exists>w \<in> set (website_rows d). delete_matches wid uid w)
      \<and> d' = d\<lparr>website_rows := map (\<lambda>w. if delete_matches wid uid w then w\<lparr>disabled := True\<rparr> else w)
                                 (website_rows d)\<rparr>)"
  by (auto simp add: DeleteWebsite_def split: if_splits)

lemma filter_map_keep:
  "(\<And>x. \<not> P x \<Longrightarrow> Q (g x) \<longleftrightarrow> Q x) \<Longrightarrow> (\<And>x. P x \<Longrightarrow> \<not> Q x) \<Longrightarrow> (\<And>x. P x \<Longrightarrow> \<not> Q (g x)) \<Longrightarrow>
   filter Q (map (\<lambda>x. if P x then g x else x) xs) = filter Q xs"
  by (induction xs) auto

lemma plan_messages_set:
  "m \<in> set (plan_messages wr n ps) \<Longrightarrow>
   \<exists>k w v. (w, v) \<in> set ps \<and> m = (vc_conn v, ValidateTask (url w) (uuid k) (website_id w))"
  by (fastforce simp add: plan_messages_def enumerate_eq_zip split: if_splits dest: set_zip_rightD)

lemma send_tasks_sent:
  "m \<in> set (sent (send_tasks wr ws vs h)) \<Longrightarrow>
   m \<in> set (sent h) \<or> (\<exists>c u cb w. m = (c, ValidateTask u cb (website_id w)) \<and> w \<in> set ws)"
  by (fastforce simp add: send_tasks_fold dispatch_fold_sent dest: plan_messages_set)

lemma monitoring_round_tasks:
  "m \<in> set (sent (monitoring_round f ks wr h)) \<Longrightarrow>
   m \<in> set (sent h) \<or> (\<exists>c u cb w. m = (c, ValidateTask u cb (website_id w)) \<and> w \<in> set (active_websites (hub_db h)))"
  by (auto simp add: monitoring_round_def Let_def split: if_splits dest: send_tasks_sent)

lemma latest_ticks_length: "length (latest_ticks d wid) \<le> 100"
  by (simp add: latest_ticks_def)

lemma latest_ticks_set:
  assumes "t \<in> set (latest_ticks d wid)"
  shows "t \<in> set (tick_rows d) \<and> tick_website_id t = wid"
proof -
  from assms have "t \<in> set (take 100 (rev (filter (\<lambda>t. tick_website_id t = wid) (tick_rows d))))"
    by (simp only: latest_ticks_def)
  then have "t \<in> set (filter (\<lambda>t. tick_website_id t = wid) (tick_rows d))"
    by (metis in_set_takeD set_rev)
  then show ?thesis by simp
qed

lemma CreateWebsite_created:
  assumes "CreateWebsite (Some uid) u b f s = (WebCreated i u', s')"
  shows "i = uuid (web_seed s) \<and> u' = u \<and> i \<notin> website_id ` set (website_rows (web_db s))
    \<and> website_rows (web_db s') =
        website_rows (web_db s) @ [\<lparr>website_id = i, url = u, user_id = uid, disabled = False\<rparr>]"
proof -
  have ok: "b \<and> u \<noteq> [] \<and> db_ok f 0 \<and> uuid (web_seed s) \<notin> website_id ` set (website_rows (web_db s))"
    using assms by (simp add: CreateWebsite_def Let_def split: if_splits)
  then have "CreateWebsite (Some uid) u b f s =
      (WebCreated (uuid (web_seed s)) u,
       s\<lparr>web_seed := Suc (web_seed s), web_db := (web_db s)\<lparr>website_rows := website_rows (web_db s) @
          [\<lparr>website_id = uuid (web_seed s), url = u, user_id = uid, disabled = False\<rparr>]\<rparr>\<rparr>)"
    by (simp add: CreateWebsite_def Let_def)
  with assms ok show ?thesis by simp
qed

lemma find_fresh_appended:
  "\<forall>x \<in> set xs. \<not> P x \<Longrightarrow> P y \<Longrightarrow> find P (xs @ [y]) = Some y"
  by (induction xs) auto

section \<open>Properties\<close>

text \<open>
  A delete through the protected route succeeds only for an authenticated user
  who owns a website with that id; it disables exactly that user's rows with that id,
  and leaves every other user's websites, and every other table, unchanged.
\<close>

theorem DeleteWebsite_owner_only:
  assumes "protected secret hdr now d (\<lambda>u. DeleteWebsite u wid f d) = (r, d')"
  shows "(\<exists>uid. AuthMiddleware secret hdr now = Authenticated uid
           \<and> filter (\<lambda>w. user_id w \<noteq> uid) (website_rows d') = filter (\<lambda>w. user_id w \<noteq> uid) (website_rows d)
           \<and> (r = WebDeleted \<longrightarrow> (\<exists>w \<in> set (website_rows d). website_id w = wid \<and> user_id w = uid)))
         \<or> d' = d"
proof (cases "AuthMiddleware secret hdr now")
  case (Unauthorized m)
  with assms show ?thesis by (simp add: protected_def)
next
  case (Authenticated uid)
  with assms have del: "DeleteWebsite (Some uid) wid f d = (r, d')" by (simp add: protected_def)
  have keep: "filter (\<lambda>w. user_id w \<noteq> uid)
      (map (\<lambda>w. if delete_matches wid uid w then w\<lparr>disabled := True\<rparr> else w) ws) =
    filter (\<lambda>w. user_id w \<noteq> uid) ws" for ws
    by (rule filter_map_keep) (auto simp add: delete_matches_def)
  from DeleteWebsite_cases [OF del] Authenticated keep show ?thesis
    by (auto simp add: delete_matches_def)
qed

text \<open>
  C33. Once a website is deleted, monitoring stops: when ids are unique and
  \<open>DeleteWebsite\<close> answers success, no later monitoring round of the hub over that
  ledger sends a task for the website.
\<close>

theorem deleted_website_not_monitored:
  assumes "distinct (map website_id (website_rows d))"
    and "DeleteWebsite (Some uid) wid f d = (WebDeleted, d')" and "hub_db h = d'"
    and "(c, ValidateTask u cb w) \<in> set (sent (monitoring_round f' ks wr h))"
    and "(c, ValidateTask u cb w) \<notin> set (sent h)"
  shows "w \<noteq> wid"
proof -
  from assms(2) obtain w0 where w0: "w0 \<in> set (website_rows d)" "website_id w0 = wid" "user_id w0 = uid"
    and d': "d' = d\<lparr>website_rows := map (\<lambda>x. if delete_matches wid uid x then x\<lparr>disabled := True\<rparr> else x)
                                     (website_rows d)\<rparr>"
    using DeleteWebsite_cases [OF assms(2)] by (auto simp add: delete_matches_def)
  obtain x where x: "x \<in> set (active_websites d')" and wx: "w = website_id x"
    using monitoring_round_tasks [OF assms(4)] assms(3,5) by auto
  from x d' obtain y where y: "y \<in> set (website_rows d)" and xy: "website_id x = website_id y"
    and active: "\<not> delete_matches wid uid y"
    by (auto simp add: active_websites_def split: if_splits)
  have "y = w0" if "website_id y = wid"
    using assms(1) y w0 that by (metis distinct_map inj_onD)
  with active w0 show ?thesis by (auto simp add: wx xy delete_matches_def)
qed

text \<open>
  C34. Round trip of a website: after \<open>CreateWebsite\<close> succeeds for a user, the same
  user's status query for the returned id finds exactly the new, enabled website, and
  it heads the user's list of websites.
\<close>

theorem CreateWebsite_status_roundtrip:
  assumes "CreateWebsite (Some uid) u b f s = (WebCreated i u', s')"
  shows "GetWebsiteStatus i (Some uid) None (web_db s') =
           WebStatus \<lparr>website_id = i, url = u, user_id = uid, disabled = False\<rparr> (latest_ticks (web_db s') i)
    \<and> (\<exists>xs n. GetWebsites (Some uid) None (web_db s') = WebList xs n
         \<and> fst (hd xs) = \<lparr>website_id = i, url = u, user_id = uid, disabled = False\<rparr>)"
proof -
  let ?w = "\<lparr>website_id = i, url = u, user_id = uid, disabled = False\<rparr>"
  have i: "i = uuid (web_seed s)" and u': "u' = u"
    and fresh: "i \<notin> website_id ` set (website_rows (web_db s))"
    and rows: "website_rows (web_db s') = website_rows (web_db s) @ [?w]"
    using CreateWebsite_created [OF assms] by blast+
  have "\<forall>x \<in> set (website_rows (web_db s)). \<not> (website_id x = i \<and> owned_active uid x)"
    using fresh by auto
  then have "find (\<lambda>w. website_id w = i \<and> owned_active uid w) (website_rows (web_db s) @ [?w]) = Some ?w"
    by (rule find_fresh_appended) (simp add: owned_active_def)
  moreover have "i \<noteq> []" using i by simp
  ultimately show ?thesis
    using rows by (simp add: GetWebsiteStatus_def GetWebsites_def owned_active_def Let_def)
qed

text \<open>
  C35. The list of websites a user gets holds exactly that user's enabled websites,
  newest first, and its count is their number; the ticks that come with them are the
  100 newest ticks of all those websites together, at most 100 in the whole answer
  (not 100 per website), each listed under its own website.
\<close>

theorem GetWebsites_listing:
  assumes "GetWebsites (Some uid) f d = WebList xs n"
    and "distinct (map website_id (website_rows d))"
  shows "map fst xs = rev (filter (owned_active uid) (website_rows d)) \<and> n = length xs
    \<and> length (concat (map snd xs)) \<le> 100
    \<and> (\<forall>p \<in> set xs. snd p = ticks_for (preload_ticks d (map fst xs)) (fst p))"
proof -
  let ?ws = "rev (filter (owned_active uid) (website_rows d))"
  have xs: "xs = map (\<lambda>w. (w, ticks_for (preload_ticks d ?ws) w)) ?ws"
    and n: "n = length ?ws"
    using assms(1) by (simp_all add: GetWebsites_def Let_def split: if_splits)
  have fst_xs: "map fst xs = ?ws" by (simp add: xs comp_def)
  have dist: "distinct (map website_id ?ws)"
    using distinct_map_filter [OF assms(2), of "owned_active uid"] by (simp add: rev_map [symmetric])
  have "length (concat (map snd xs)) =
      sum_list (map (\<lambda>k. length (filter (\<lambda>t. tick_website_id t = k) (preload_ticks d ?ws))) (map website_id ?ws))"
    by (simp add: xs length_concat ticks_for_def comp_def)
  also have "\<dots> = length (filter (\<lambda>t. tick_website_id t \<in> set (map website_id ?ws)) (preload_ticks d ?ws))"
    using dist by (rule sum_length_filter_distinct)
  also have "\<dots> \<le> length (preload_ticks d ?ws)" by (rule length_filter_le)
  also have "\<dots> \<le> 100" by (simp add: preload_ticks_def)
  finally have total: "length (concat (map snd xs)) \<le> 100" .
  show ?thesis using fst_xs total by (auto simp add: xs n)
qed

text \<open>
  C38. The shared limit starves websites: when another of the user's listed websites
  has at least 100 ticks newer than every tick of website \<open>w\<close>, \<open>w\<close> is listed with
  no ticks at all, however many it has.
\<close>

theorem GetWebsites_starves_sites:
  assumes "w \<in> set (website_rows d)" and "owned_active uid w"
    and "w' \<in> set (website_rows d)" and "owned_active uid w'"
    and "tick_rows d = older @ newer"
    and "100 \<le> length (filter (\<lambda>t. tick_website_id t = website_id w') newer)"
    and "\<forall>t \<in> set newer. tick_website_id t \<noteq> website_id w"
  shows "\<exists>xs n. GetWebsites (Some uid) None d = WebList xs n \<and> (w, []) \<in> set xs"
proof -
  let ?ws = "rev (filter (owned_active uid) (website_rows d))"
  let ?in = "\<lambda>t. tick_website_id t \<in> set (map website_id ?ws)"
  have w'_in: "website_id w' \<in> set (map website_id ?ws)" using assms(3,4) by auto
  have "100 \<le> length (filter (\<lambda>t. tick_website_id t = website_id w') newer)" by (fact assms(6))
  also have "\<dots> \<le> length (filter ?in newer)"
    using w'_in by (intro length_filter_le_mono) simp
  finally have big: "100 \<le> length (rev (filter ?in newer))" by simp
  have "preload_ticks d ?ws = take 100 (rev (filter ?in newer))"
    using big by (simp add: preload_ticks_def assms(5))
  then have "ticks_for (preload_ticks d ?ws) w = []"
    using assms(7) by (auto simp add: ticks_for_def filter_empty_conv dest: in_set_takeD)
  moreover have "w \<in> set ?ws" using assms(1,2) by simp
  ultimately have "(w, []) \<in> set (map (\<lambda>v. (v, ticks_for (preload_ticks d ?ws) v)) ?ws)" by force
  then show ?thesis by (simp add: GetWebsites_def Let_def)
qed

end
