(* ===== verification/Payout.thy ===== *)
theory Payout
  imports Ledger
begin

text \<open>
  The payout request of \<open>src/internal/handlers/user/handler.go\<close>
  (\<open>RequestPayout\<close>, lines 40--131): in one database transaction, lock the
  validator's row, and if its pending balance is positive publish a
  \<open>PayoutRequest\<close> for the whole balance on the RabbitMQ queue \<open>payout_queue\<close>,
  then set the balance to 0 and commit. The queue is a list of messages; publishing
  appends. Database calls: 0 the locked lookup, 1 the update, 2 the commit;
  \<open>publish_ok\<close> says whether \<open>Publish\<close> succeeds. \<open>json.Marshal\<close> of the request
  cannot fail (its only float is a finite \<open>decimal\<close>), so that branch is not
  modelled. The lemmas give the result of every branch and what each does to the
  sum of a validator's pending balance and its queued amounts.
\<close>

section \<open>State and results\<close>

record payout_request =
  req_validator_id :: string
  req_amount :: lamports
  req_public_key :: string

datatype payout_response = Cleared | Queued lamports

datatype api_error =
    ValidatorNotFound
  | DatabaseError
  | QueueError
  | UpdateError
  | CommitError

record api_state =
  api_db :: ledger
  payout_queue :: "payout_request list"

fun http_status :: "api_error \<Rightarrow> nat" where
  "http_status ValidatorNotFound = 404"
| "http_status DatabaseError = 500"
| "http_status QueueError = 500"
| "http_status UpdateError = 500"
| "http_status CommitError = 500"

section \<open>The handler\<close>

definition payout_request_of :: "validator \<Rightarrow> payout_request" where
  "payout_request_of v =
     \<lparr>req_validator_id = validator_id v, req_amount = pending_payouts v,
      req_public_key = public_key v\<rparr>"

definition RequestPayout ::
  "string \<Rightarrow> fault \<Rightarrow> bool \<Rightarrow> api_state \<Rightarrow> (api_error + payout_response) \<times> api_state" where
  "RequestPayout validatorID f publish_ok s =
     (if \<not> db_ok f 0 then (Inl DatabaseError, s)
      else case validator_by_id (api_db s) validatorID of
        None \<Rightarrow> (Inl ValidatorNotFound, s)
      | Some v \<Rightarrow>
          if pending_payouts v \<le> 0 then (Inr Cleared, s)
          else let req = payout_request_of v in
            if \<not> publish_ok then (Inl QueueError, s)
            else let s1 = s\<lparr>payout_queue := payout_queue s @ [req]\<rparr> in
              if \<not> db_ok f 1 then (Inl UpdateError, s1)
              else if \<not> db_ok f 2 then (Inl CommitError, s1)
              else (Inr (Queued (req_amount req)),
                    s1\<lparr>api_db := set_pending (validator_id v) 0 (api_db s)\<rparr>))"

text \<open>The amounts the queue holds for a validator.\<close>

definition queued_for :: "payout_request list \<Rightarrow> string \<Rightarrow> lamports" where
  "queued_for q i = sum_list (map req_amount (filter (\<lambda>r. req_validator_id r = i) q))"

section \<open>Lemmas\<close>

lemma queued_for_append [simp]:
  "queued_for (q @ [r]) i = queued_for q i + (if req_validator_id r = i then req_amount r else 0)"
  by (simp add: queued_for_def)

lemma queued_for_Nil [simp]: "queued_for [] i = 0"
  by (simp add: queued_for_def)

lemma validator_by_id_found:
  "validator_by_id d i = Some v \<Longrightarrow> validator_id v = i \<and> pending_of d i = pending_payouts v"
  by (simp add: pending_of_def validator_by_id_SomeD)

lemma payout_request_of_simps [simp]:
  "req_validator_id (payout_request_of v) = validator_id v"
  "req_amount (payout_request_of v) = pending_payouts v"
  "req_public_key (payout_request_of v) = public_key v"
  by (simp_all add: payout_request_of_def)

text \<open>The branches of \<open>RequestPayout\<close>, one lemma each.\<close>

lemma RequestPayout_lookup_fails:
  "\<not> db_ok f 0 \<Longrightarrow> RequestPayout i f p s = (Inl DatabaseError, s)"
  by (simp add: RequestPayout_def)

lemma RequestPayout_not_found:
  "db_ok f 0 \<Longrightarrow> validator_by_id (api_db s) i = None \<Longrightarrow> RequestPayout i f p s = (Inl ValidatorNotFound, s)"
  by (simp add: RequestPayout_def)

lemma RequestPayout_cleared:
  "db_ok f 0 \<Longrightarrow> validator_by_id (api_db s) i = Some v \<Longrightarrow> pending_payouts v \<le> 0 \<Longrightarrow>
   RequestPayout i f p s = (Inr Cleared, s)"
  by (simp add: RequestPayout_def)

lemma RequestPayout_publish_fails:
  "db_ok f 0 \<Longrightarrow> validator_by_id (api_db s) i = Some v \<Longrightarrow> 0 < pending_payouts v \<Longrightarrow>
   RequestPayout i f False s = (Inl QueueError, s)"
  by (simp add: RequestPayout_def)

lemma RequestPayout_after_publish:
  "db_ok f 0 \<Longrightarrow> validator_by_id (api_db s) i = Some v \<Longrightarrow> 0 < pending_payouts v \<Longrightarrow>
   RequestPayout i f True s =
     (let s1 = s\<lparr>payout_queue := payout_queue s @ [payout_request_of v]\<rparr> in
      if \<not> db_ok f 1 then (Inl UpdateError, s1)
      else if \<not> db_ok f 2 then (Inl CommitError, s1)
      else (Inr (Queued (pending_payouts v)), s1\<lparr>api_db := set_pending i 0 (api_db s)\<rparr>))"
  by (auto simp add: RequestPayout_def Let_def dest: validator_by_id_SomeD)

lemma pending_of_found_set_pending:
  "validator_by_id d i = Some v \<Longrightarrow> pending_of (set_pending i 0 d) = (pending_of d)(i := 0)"
  by (auto simp add: fun_eq_iff ledger_simps)

lemma RequestPayout_cases:
  "RequestPayout i f p s = (r, s') \<Longrightarrow>
     s' = s
   \<or> (\<exists>v. validator_by_id (api_db s) i = Some v \<and> 0 < pending_payouts v \<and> p \<and> db_ok f 0
        \<and> ((r \<in> {Inl UpdateError, Inl CommitError}
             \<and> s' = s\<lparr>payout_queue := payout_queue s @ [payout_request_of v]\<rparr>)
          \<or> (r = Inr (Queued (pending_payouts v))
             \<and> s' = \<lparr>api_db = set_pending i 0 (api_db s),
                     payout_queue = payout_queue s @ [payout_request_of v]\<rparr>)))"
  by (cases s) (auto simp add: RequestPayout_def Let_def split: option.splits if_splits
      dest: validator_by_id_SomeD)

section \<open>Properties\<close>

text \<open>
  C5. With the row found, its balance \<open>B > 0\<close>, the queue reachable and the
  database healthy, \<open>RequestPayout\<close> answers \<open>queued B\<close>, appends exactly one request
  for \<open>B\<close> to the validator's public key, and sets that validator's balance, and no
  other, to 0.
\<close>

theorem RequestPayout_queues_balance:
  assumes "validator_by_id (api_db s) i = Some v" and "0 < pending_payouts v"
  shows "fst (RequestPayout i None True s) = Inr (Queued (pending_payouts v))
    \<and> payout_queue (snd (RequestPayout i None True s)) =
        payout_queue s @ [\<lparr>req_validator_id = i, req_amount = pending_payouts v,
                           req_public_key = public_key v\<rparr>]
    \<and> pending_of (api_db (snd (RequestPayout i None True s))) = (pending_of (api_db s))(i := 0)"
  using assms RequestPayout_after_publish [OF _ assms, of None]
  by (simp add: pending_of_found_set_pending payout_request_of_def validator_by_id_found)

text \<open>
  C6. A request for a validator whose balance is not positive (or that has no row)
  changes nothing and enqueues nothing, whatever fails; when the row is found it
  answers \<open>cleared\<close>.
\<close>

theorem RequestPayout_cleared_noop:
  assumes "pending_of (api_db s) i \<le> 0"
  shows "snd (RequestPayout i f p s) = s
    \<and> (db_ok f 0 \<and> validator_by_id (api_db s) i \<noteq> None \<longrightarrow> fst (RequestPayout i f p s) = Inr Cleared)"
  using assms
  by (auto simp add: RequestPayout_def pending_of_def split: option.splits)

text \<open>
  C7. On every branch except a failed update or commit after the publish, the
  request moves the balance into the queue without creating or losing any: for every
  validator, pending balance plus queued amounts is unchanged.
\<close>

theorem RequestPayout_conserves:
  assumes "RequestPayout i f p s = (r, s')" and "r \<notin> {Inl UpdateError, Inl CommitError}"
  shows "pending_of (api_db s') j + queued_for (payout_queue s') j =
         pending_of (api_db s) j + queued_for (payout_queue s) j"
  using RequestPayout_cases [OF assms(1)] assms(2)
  by (auto simp add: ledger_simps validator_by_id_found dest: validator_by_id_found)

text \<open>
  C8. The zeroing and the enqueue are not one atomic unit: the request is published
  before the balance is set to 0, so when the update or the commit then fails the
  handler answers an error, the balance is unchanged and the request for it stays on
  the queue; a second request pays the same balance again.
\<close>

theorem RequestPayout_publish_not_atomic:
  assumes "validator_by_id (api_db s) i = Some v" and "0 < pending_payouts v"
    and "f = Some 1 \<or> f = Some 2" and "RequestPayout i f True s = (r, s')"
  shows "isl r \<and> api_db s' = api_db s
    \<and> payout_queue s' = payout_queue s @ [payout_request_of v]"
  using assms RequestPayout_after_publish [OF _ assms(1,2), of f]
  by (auto simp add: Let_def)

end
