(* ===== verification/Worker.thy ===== *)
theory Worker
  imports Payout
begin

text \<open>
  The payout worker of \<open>src/internal/models/models.go\<close> (package \<open>services\<close>,
  lines 83--348). \<open>processPayoutRequest\<close> handles one delivery of the queue: it
  records a \<open>processing\<close> payout row, runs \<open>executeSolanaTransfer\<close>, polls with
  \<open>waitForConfirmation\<close>, writes the outcome and acknowledges or rejects the
  delivery. Solana is an input (\<open>solana_rpc\<close>): whether the recipient key parses,
  the result of each RPC call, and the answer to each status poll. The transfers the
  worker has submitted are recorded in \<open>submitted\<close>, the external ledger's view.

  The confirmation loop waits on a 2-second ticker under a 30-second context: it polls
  at most \<open>CONFIRMATION_POLLS\<close> = 15 times, so it is a function by structural
  recursion on the number of polls left; the lemmas show it always returns and read
  only the first 15 answers.
\<close>

section \<open>Solana\<close>

datatype confirmation_status = Processed | Confirmed | Finalized

text \<open>
  One answer of \<open>GetSignatureStatuses\<close>: an RPC error, an empty or \<open>nil\<close> status,
  or a status with its confirmation level and its error (\<open>Err\<close>, \<open>None\<close> for a
  transaction that succeeded).
\<close>

datatype poll_result =
    PollError
  | NoStatus
  | SigStatus confirmation_status "string option"

datatype transfer_error =
    InvalidRecipient
  | BlockhashFailed
  | BuildFailed
  | SignFailed
  | SendFailed

record solana_rpc =
  rpc_key_valid :: "string \<Rightarrow> bool"
  rpc_blockhash_ok :: bool
  rpc_build_ok :: bool
  rpc_sign_ok :: bool
  rpc_send :: "string option"
  rpc_polls :: "nat \<Rightarrow> poll_result"

record transfer =
  tr_recipient :: string
  tr_lamports :: nat
  tr_signature :: string

fun transfer_error_message :: "transfer_error \<Rightarrow> string" where
  "transfer_error_message InvalidRecipient = ''invalid recipient public key''"
| "transfer_error_message BlockhashFailed = ''failed to get latest blockhash''"
| "transfer_error_message BuildFailed = ''failed to create transaction''"
| "transfer_error_message SignFailed = ''failed to sign transaction''"
| "transfer_error_message SendFailed = ''failed to send transaction''"

text \<open>\<open>executeSolanaTransfer\<close>: the signature of the sent transaction, or the first error.\<close>

definition executeSolanaTransfer :: "solana_rpc \<Rightarrow> string \<Rightarrow> nat \<Rightarrow> transfer_error + string" where
  "executeSolanaTransfer rpc recipientPublicKey lamports =
     (if \<not> rpc_key_valid rpc recipientPublicKey then Inl InvalidRecipient
      else if \<not> rpc_blockhash_ok rpc then Inl BlockhashFailed
      else if \<not> rpc_build_ok rpc then Inl BuildFailed
      else if \<not> rpc_sign_ok rpc then Inl SignFailed
      else case rpc_send rpc of None \<Rightarrow> Inl SendFailed | Some sig \<Rightarrow> Inr sig)"

definition CONFIRMATION_POLLS :: nat where
  "CONFIRMATION_POLLS = 30 div 2"

text \<open>
  The loop of \<open>waitForConfirmation\<close> from poll \<open>i\<close> with \<open>n\<close> ticks left before
  the context expires. A finalized status counts as confirmed before its error is
  looked at, as in the source.
\<close>

fun wait_polls :: "(nat \<Rightarrow> poll_result) \<Rightarrow> nat \<Rightarrow> nat \<Rightarrow> bool \<times> string option" where
  "wait_polls p i 0 = (False, Some ''confirmation timeout'')"
| "wait_polls p i (Suc n) =
     (case p i of
        PollError \<Rightarrow> wait_polls p (Suc i) n
      | NoStatus \<Rightarrow> wait_polls p (Suc i) n
      | SigStatus cs err \<Rightarrow>
          if cs = Finalized then (True, None)
          else (case err of
                  Some e \<Rightarrow> (False, Some (''transaction failed: '' @ e))
                | None \<Rightarrow> wait_polls p (Suc i) n))"

definition waitForConfirmation :: "solana_rpc \<Rightarrow> bool \<times> string option" where
  "waitForConfirmation rpc = wait_polls (rpc_polls rpc) 0 CONFIRMATION_POLLS"

section \<open>Processing one delivery\<close>

datatype delivery_ack = Ack | NackRequeue | NackDrop

record worker_state =
  w_db :: ledger
  w_seed :: nat
  submitted :: "transfer list"

definition mark_failed :: "string \<Rightarrow> payout_transaction \<Rightarrow> payout_transaction" where
  "mark_failed msg p = p\<lparr>ptx_status := Failed, error_message := msg\<rparr>"

definition mark_unconfirmed :: "string \<Rightarrow> payout_transaction \<Rightarrow> payout_transaction" where
  "mark_unconfirmed sig p =
     p\<lparr>ptx_status := Failed, error_message := ''Transaction confirmation timeout'', tx_signature := sig\<rparr>"

definition mark_completed :: "string \<Rightarrow> payout_transaction \<Rightarrow> payout_transaction" where
  "mark_completed sig p = p\<lparr>ptx_status := Completed, tx_signature := sig\<rparr>"

text \<open>
  \<open>processPayoutRequest\<close>: \<open>body\<close> is the decoded delivery (\<open>None\<close> when
  \<open>json.Unmarshal\<close> fails). Database calls: 0 the insert of the record, 1 the
  update of the record, 2 the refund. The last two are separate statements outside
  any transaction, and their errors are ignored, as in the source.
  \<open>uint64(req.Amount)\<close> is \<open>nat\<close> of the amount.
\<close>

definition processPayoutRequest ::
  "payout_request option \<Rightarrow> fault \<Rightarrow> solana_rpc \<Rightarrow> worker_state \<Rightarrow> delivery_ack \<times> worker_state" where
  "processPayoutRequest body f rpc s =
     (case body of
        None \<Rightarrow> (NackDrop, s)
      | Some req \<Rightarrow>
          let pid = uuid (w_seed s);
              txRecord = \<lparr>ptx_id = pid, ptx_validator_id = req_validator_id req,
                          amount = req_amount req, ptx_status = Processing,
                          tx_signature = [], error_message = []\<rparr>;
              s1 = s\<lparr>w_seed := Suc (w_seed s)\<rparr>
          in if \<not> db_ok f 0 then (NackRequeue, s1)
          else case insert_payout txRecord (w_db s) of
            None \<Rightarrow> (NackRequeue, s1)
          | Some d1 \<Rightarrow>
              (case executeSolanaTransfer rpc (req_public_key req) (nat (req_amount req)) of
                 Inl e \<Rightarrow>
                   let d2 = (if db_ok f 1 then update_payout pid (mark_failed (transfer_error_message e)) d1 else d1);
                       d3 = (if db_ok f 2 then add_pending (req_validator_id req) (req_amount req) d2 else d2)
                   in (NackDrop, s1\<lparr>w_db := d3\<rparr>)
               | Inr sig \<Rightarrow>
                   let s2 = s1\<lparr>submitted := submitted s @
                              [\<lparr>tr_recipient = req_public_key req, tr_lamports = nat (req_amount req),
                                tr_signature = sig\<rparr>]\<rparr>
                   in if \<not> fst (waitForConfirmation rpc)
                      then (NackDrop, s2\<lparr>w_db := (if db_ok f 1 then update_payout pid (mark_unconfirmed sig) d1 else d1)\<rparr>)
                      else (Ack, s2\<lparr>w_db := (if db_ok f 1 then update_payout pid (mark_completed sig) d1 else d1)\<rparr>)))"

text \<open>
  The consumer loop of \<open>Start\<close> with prefetch 1: the head of the queue is delivered;
  \<open>Ack\<close> and a rejection without requeue remove it, a requeue puts it back at the head.
\<close>

definition worker_step ::
  "fault \<Rightarrow> solana_rpc \<Rightarrow> payout_request list \<times> worker_state \<Rightarrow> payout_request list \<times> worker_state" where
  "worker_step f rpc qs =
     (case fst qs of
        [] \<Rightarrow> qs
      | req # rest \<Rightarrow>
          (case processPayoutRequest (Some req) f rpc (snd qs) of
             (NackRequeue, s') \<Rightarrow> (req # rest, s')
           | (_, s') \<Rightarrow> (rest, s')))"

text \<open>A poll answer that ends the loop without confirmation.\<close>

definition reports_failure :: "poll_result \<Rightarrow> bool" where
  "reports_failure r \<longleftrightarrow> (\<exists>cs e. r = SigStatus cs (Some e) \<and> cs \<noteq> Finalized)"

definition reports_finalized :: "poll_result \<Rightarrow> bool" where
  "reports_finalized r \<longleftrightarrow> (\<exists>e. r = SigStatus Finalized e)"

section \<open>Lemmas\<close>

lemma mark_ids [simp]:
  "ptx_id (mark_failed m p) = ptx_id p"
  "ptx_id (mark_unconfirmed sig p) = ptx_id p"
  "ptx_id (mark_completed sig p) = ptx_id p"
  by (simp_all add: mark_failed_def mark_unconfirmed_def mark_completed_def)

lemma mark_status [simp]:
  "ptx_status (mark_failed m p) = Failed"
  "ptx_status (mark_unconfirmed sig p) = Failed"
  "ptx_status (mark_completed sig p) = Completed"
  "tx_signature (mark_completed sig p) = sig"
  "tx_signature (mark_unconfirmed sig p) = sig"
  by (simp_all add: mark_failed_def mark_unconfirmed_def mark_completed_def)

text \<open>Only the first \<open>n\<close> answers from poll \<open>i\<close> on matter.\<close>

lemma wait_polls_prefix:
  "(\<And>j. i \<le> j \<Longrightarrow> j < i + n \<Longrightarrow> p j = p' j) \<Longrightarrow> wait_polls p i n = wait_polls p' i n"
proof (induction n arbitrary: i)
  case 0
  then show ?case by simp
next
  case (Suc n)
  have "p i = p' i" using Suc.prems by simp
  moreover have "wait_polls p (Suc i) n = wait_polls p' (Suc i) n"
    using Suc.prems by (intro Suc.IH) simp
  ultimately show ?case by (simp split: poll_result.splits option.splits)
qed

lemma wait_polls_confirmed_iff:
  "fst (wait_polls p i n) \<longleftrightarrow>
     (\<exists>k < n. reports_finalized (p (i + k)) \<and> (\<forall>j < k. \<not> reports_failure (p (i + j))))"
proof (induction n arbitrary: i)
  case 0
  then show ?case by simp
next
  case (Suc n)
  have shift: "(\<exists>k < Suc n. Q k) \<longleftrightarrow> Q 0 \<or> (\<exists>k < n. Q (Suc k))" for Q :: "nat \<Rightarrow> bool"
    by (metis less_Suc_eq_0_disj Suc_less_eq)
  have allshift: "(\<forall>j < Suc k. R j) \<longleftrightarrow> R 0 \<and> (\<forall>j < k. R (Suc j))" for R :: "nat \<Rightarrow> bool" and k
    by (metis less_Suc_eq_0_disj Suc_less_eq)
  show ?case
    using Suc.IH [of "Suc i"]
    by (cases "p i")
       (auto simp add: shift allshift reports_failure_def reports_finalized_def
          split: confirmation_status.splits option.splits)
qed

lemma executeSolanaTransfer_Inr:
  "executeSolanaTransfer rpc k n = Inr sig \<longleftrightarrow>
     rpc_key_valid rpc k \<and> rpc_blockhash_ok rpc \<and> rpc_build_ok rpc \<and> rpc_sign_ok rpc
     \<and> rpc_send rpc = Some sig"
  by (auto simp add: executeSolanaTransfer_def split: option.splits)

lemma process_transfer_failed:
  assumes row: "validator_by_id (w_db s) (req_validator_id req) \<noteq> None"
    and fresh: "\<forall>p \<in> set (payout_rows (w_db s)). ptx_id p \<noteq> uuid (w_seed s)"
    and tf: "executeSolanaTransfer rpc (req_public_key req) (nat (req_amount req)) = Inl e"
    and f0: "db_ok f 0"
  shows "processPayoutRequest (Some req) f rpc s =
    (let pid = uuid (w_seed s);
         d1 = (w_db s)\<lparr>payout_rows := payout_rows (w_db s) @
                [\<lparr>ptx_id = pid, ptx_validator_id = req_validator_id req, amount = req_amount req,
                  ptx_status = Processing, tx_signature = [], error_message = []\<rparr>]\<rparr>;
         d2 = (if db_ok f 1 then update_payout pid (mark_failed (transfer_error_message e)) d1 else d1)
     in (NackDrop, s\<lparr>w_seed := Suc (w_seed s),
           w_db := (if db_ok f 2 then add_pending (req_validator_id req) (req_amount req) d2 else d2)\<rparr>))"
  using row fresh tf f0 by (simp add: processPayoutRequest_def Let_def insert_payout_ok)

lemma process_transfer_sent:
  assumes row: "validator_by_id (w_db s) (req_validator_id req) \<noteq> None"
    and fresh: "\<forall>p \<in> set (payout_rows (w_db s)). ptx_id p \<noteq> uuid (w_seed s)"
    and tf: "executeSolanaTransfer rpc (req_public_key req) (nat (req_amount req)) = Inr sig"
    and f0: "db_ok f 0"
  shows "processPayoutRequest (Some req) f rpc s =
    (let pid = uuid (w_seed s);
         d1 = (w_db s)\<lparr>payout_rows := payout_rows (w_db s) @
                [\<lparr>ptx_id = pid, ptx_validator_id = req_validator_id req, amount = req_amount req,
                  ptx_status = Processing, tx_signature = [], error_message = []\<rparr>]\<rparr>;
         s2 = s\<lparr>w_seed := Suc (w_seed s), submitted := submitted s @
                [\<lparr>tr_recipient = req_public_key req, tr_lamports = nat (req_amount req),
                  tr_signature = sig\<rparr>]\<rparr>
     in if \<not> fst (waitForConfirmation rpc)
        then (NackDrop, s2\<lparr>w_db := (if db_ok f 1 then update_payout pid (mark_unconfirmed sig) d1 else d1)\<rparr>)
        else (Ack, s2\<lparr>w_db := (if db_ok f 1 then update_payout pid (mark_completed sig) d1 else d1)\<rparr>))"
  using row fresh tf f0 by (simp add: processPayoutRequest_def Let_def insert_payout_ok)

lemma new_record_updated:
  assumes "\<forall>p \<in> set (payout_rows d). ptx_id p \<noteq> pid" and "\<And>p. ptx_id (g p) = ptx_id p"
  shows "payout_by_id (update_payout pid g (d\<lparr>payout_rows := payout_rows d @ [r]\<rparr>)) pid =
           (if ptx_id r = pid then Some (g r) else None)"
proof (cases "ptx_id r = pid")
  case True
  have "payout_by_id (d\<lparr>payout_rows := payout_rows d @ [r]\<rparr>) (ptx_id r) = Some r"
    using assms(1) True by (intro payout_by_id_new) simp
  with True assms(2) show ?thesis by (simp add: payout_by_id_update)
next
  case False
  have "find (\<lambda>p. ptx_id p = pid) (payout_rows d) = None"
    using assms(1) by (simp add: find_None_iff)
  with False have "payout_by_id (d\<lparr>payout_rows := payout_rows d @ [r]\<rparr>) pid = None"
    by (simp add: payout_by_id_def find_append_eq)
  with False assms(2) show ?thesis by (simp add: payout_by_id_update)
qed


lemma waitForConfirmation_Suc:
  "waitForConfirmation rpc = wait_polls (rpc_polls rpc) 0 (Suc 14)"
  by (simp add: waitForConfirmation_def CONFIRMATION_POLLS_def)

lemma wait_polls_first:
  "p i = SigStatus Finalized e \<Longrightarrow> wait_polls p i (Suc n) = (True, None)"
  "cs \<noteq> Finalized \<Longrightarrow> p i = SigStatus cs (Some m) \<Longrightarrow>
     wait_polls p i (Suc n) = (False, Some (''transaction failed: '' @ m))"
  by simp_all

lemma wait_first_answer:
  "rpc_polls rpc 0 = SigStatus Finalized e \<Longrightarrow> waitForConfirmation rpc = (True, None)"
  "cs \<noteq> Finalized \<Longrightarrow> rpc_polls rpc 0 = SigStatus cs (Some m) \<Longrightarrow>
     waitForConfirmation rpc = (False, Some (''transaction failed: '' @ m))"
  by (simp_all only: waitForConfirmation_Suc wait_polls_first)

section \<open>Properties\<close>

text \<open>
  C9. The confirmation loop always returns, after reading at most the first
  \<open>CONFIRMATION_POLLS\<close> (15) status answers, and it reports the transfer confirmed
  exactly when one of those answers is finalized and no earlier answer reported a
  non-finalized failure.
\<close>

theorem waitForConfirmation_bounded:
  "(\<forall>j < CONFIRMATION_POLLS. rpc_polls rpc' j = rpc_polls rpc j) \<longrightarrow>
     waitForConfirmation rpc' = waitForConfirmation rpc
   \<and> (fst (waitForConfirmation rpc) \<longleftrightarrow>
       (\<exists>k < CONFIRMATION_POLLS. reports_finalized (rpc_polls rpc k)
          \<and> (\<forall>j < k. \<not> reports_failure (rpc_polls rpc j))))"
  unfolding waitForConfirmation_def
  using wait_polls_confirmed_iff [of "rpc_polls rpc" 0] wait_polls_prefix [of 0 _ "rpc_polls rpc'" "rpc_polls rpc"]
  by auto

text \<open>
  C10. When the transfer cannot be submitted and the database is healthy, the worker
  rejects the delivery without requeue, submits nothing, marks the payout record
  failed, and gives the validator back exactly the requested amount.
\<close>

theorem transfer_failure_refunds:
  assumes "validator_by_id (w_db s) (req_validator_id req) \<noteq> None"
    and "\<forall>p \<in> set (payout_rows (w_db s)). ptx_id p \<noteq> uuid (w_seed s)"
    and "executeSolanaTransfer rpc (req_public_key req) (nat (req_amount req)) = Inl e"
  shows "fst (processPayoutRequest (Some req) None rpc s) = NackDrop
    \<and> submitted (snd (processPayoutRequest (Some req) None rpc s)) = submitted s
    \<and> pending_of (w_db (snd (processPayoutRequest (Some req) None rpc s))) =
        (pending_of (w_db s))(req_validator_id req := pending_of (w_db s) (req_validator_id req) + req_amount req)
    \<and> map_option ptx_status (payout_by_id (w_db (snd (processPayoutRequest (Some req) None rpc s))) (uuid (w_seed s)))
        = Some Failed"
  using assms process_transfer_failed [OF assms, of None]
  by (simp add: Let_def pending_of_add_pending pending_of_update_payout validator_by_id_update_payout
      fun_eq_iff new_record_updated)

text \<open>
  C11. When the transfer is submitted and confirmed and the database is healthy, the
  worker acknowledges the delivery, records exactly one transfer of the amount to the
  requested key, marks the record completed with the transaction's signature, and
  credits nothing back.
\<close>

theorem confirmed_transfer_completes:
  assumes "validator_by_id (w_db s) (req_validator_id req) \<noteq> None"
    and "\<forall>p \<in> set (payout_rows (w_db s)). ptx_id p \<noteq> uuid (w_seed s)"
    and "executeSolanaTransfer rpc (req_public_key req) (nat (req_amount req)) = Inr sig"
    and "fst (waitForConfirmation rpc)"
  shows "fst (processPayoutRequest (Some req) None rpc s) = Ack
    \<and> submitted (snd (processPayoutRequest (Some req) None rpc s)) =
        submitted s @ [\<lparr>tr_recipient = req_public_key req, tr_lamports = nat (req_amount req), tr_signature = sig\<rparr>]
    \<and> pending_of (w_db (snd (processPayoutRequest (Some req) None rpc s))) = pending_of (w_db s)
    \<and> map_option (\<lambda>p. (ptx_status p, tx_signature p))
        (payout_by_id (w_db (snd (processPayoutRequest (Some req) None rpc s))) (uuid (w_seed s)))
        = Some (Completed, sig)"
  using assms(4) process_transfer_sent [OF assms(1-3), of None]
  by (simp add: Let_def pending_of_update_payout fun_eq_iff new_record_updated assms(2))

text \<open>
  C12. A status that is finalized is taken as success before its error is read: a
  transfer whose first status answer is finalized with an on-chain error is
  acknowledged and recorded completed, and the validator's balance is not restored,
  although the transfer failed.
\<close>

theorem finalized_error_recorded_completed:
  assumes "validator_by_id (w_db s) (req_validator_id req) \<noteq> None"
    and "\<forall>p \<in> set (payout_rows (w_db s)). ptx_id p \<noteq> uuid (w_seed s)"
    and "executeSolanaTransfer rpc (req_public_key req) (nat (req_amount req)) = Inr sig"
    and "rpc_polls rpc 0 = SigStatus Finalized (Some err)"
  shows "fst (processPayoutRequest (Some req) None rpc s) = Ack
    \<and> pending_of (w_db (snd (processPayoutRequest (Some req) None rpc s))) = pending_of (w_db s)
    \<and> map_option ptx_status
        (payout_by_id (w_db (snd (processPayoutRequest (Some req) None rpc s))) (uuid (w_seed s)))
        = Some Completed"
  using wait_first_answer(1) [OF assms(4)] process_transfer_sent [OF assms(1-3), of None]
  by (simp add: Let_def pending_of_update_payout fun_eq_iff new_record_updated assms(2))

text \<open>
  C13. When the chain reports that the submitted transfer failed (a non-finalized
  status with an error), the worker rejects the delivery, records the payout failed
  with the message of a timeout, and does not compensate: the amount the request
  took from the validator's balance is not restored.
\<close>

theorem onchain_failure_not_compensated:
  assumes "validator_by_id (w_db s) (req_validator_id req) \<noteq> None"
    and "\<forall>p \<in> set (payout_rows (w_db s)). ptx_id p \<noteq> uuid (w_seed s)"
    and "executeSolanaTransfer rpc (req_public_key req) (nat (req_amount req)) = Inr sig"
    and "cs \<noteq> Finalized" and "rpc_polls rpc 0 = SigStatus cs (Some err)"
  shows "fst (processPayoutRequest (Some req) None rpc s) = NackDrop
    \<and> pending_of (w_db (snd (processPayoutRequest (Some req) None rpc s))) = pending_of (w_db s)
    \<and> map_option (\<lambda>p. (ptx_status p, error_message p))
        (payout_by_id (w_db (snd (processPayoutRequest (Some req) None rpc s))) (uuid (w_seed s)))
        = Some (Failed, ''Transaction confirmation timeout'')"
  using wait_first_answer(2) [OF assms(4,5)] process_transfer_sent [OF assms(1-3), of None]
  by (simp add: Let_def pending_of_update_payout fun_eq_iff new_record_updated assms(2)
      mark_unconfirmed_def)

text \<open>
  C14. The worker does not recognise a redelivered request: processing the same
  request twice (as RabbitMQ may deliver it) submits the transfer twice.
\<close>

theorem duplicate_delivery_pays_twice:
  assumes "validator_by_id (w_db s) (req_validator_id req) \<noteq> None"
    and "\<forall>p \<in> set (payout_rows (w_db s)). ptx_id p \<noteq> uuid (w_seed s) \<and> ptx_id p \<noteq> uuid (Suc (w_seed s))"
    and "executeSolanaTransfer rpc (req_public_key req) (nat (req_amount req)) = Inr sig"
  shows "submitted (snd (processPayoutRequest (Some req) None rpc
             (snd (processPayoutRequest (Some req) None rpc s)))) =
         submitted s @ [\<lparr>tr_recipient = req_public_key req, tr_lamports = nat (req_amount req), tr_signature = sig\<rparr>,
                        \<lparr>tr_recipient = req_public_key req, tr_lamports = nat (req_amount req), tr_signature = sig\<rparr>]"
proof -
  have f1: "\<forall>p \<in> set (payout_rows (w_db s)). ptx_id p \<noteq> uuid (w_seed s)" using assms(2) by blast
  obtain a s1 where r1: "processPayoutRequest (Some req) None rpc s = (a, s1)" by fastforce
  have s1: "w_seed s1 = Suc (w_seed s)"
    "submitted s1 = submitted s @ [\<lparr>tr_recipient = req_public_key req, tr_lamports = nat (req_amount req), tr_signature = sig\<rparr>]"
    "validator_by_id (w_db s1) (req_validator_id req) \<noteq> None"
    "\<forall>p \<in> set (payout_rows (w_db s1)). ptx_id p \<noteq> uuid (w_seed s1)"
    using process_transfer_sent [OF assms(1) f1 assms(3), of None] r1 assms(1,2)
    by (auto simp add: Let_def validator_by_id_update_payout update_payout_def split: if_splits)
  show ?thesis
    using process_transfer_sent [OF s1(3,4) assms(3), of None] r1 s1(2)
    by (simp add: Let_def)
qed

text \<open>
  C15. The refund is a separate statement whose error is ignored: if it fails after
  the record was marked failed, the record says the payout failed but the amount is
  never given back.
\<close>

theorem refund_lost_on_db_error:
  assumes "validator_by_id (w_db s) (req_validator_id req) \<noteq> None"
    and "\<forall>p \<in> set (payout_rows (w_db s)). ptx_id p \<noteq> uuid (w_seed s)"
    and "executeSolanaTransfer rpc (req_public_key req) (nat (req_amount req)) = Inl e"
  shows "fst (processPayoutRequest (Some req) (Some 2) rpc s) = NackDrop
    \<and> pending_of (w_db (snd (processPayoutRequest (Some req) (Some 2) rpc s))) = pending_of (w_db s)
    \<and> map_option ptx_status
        (payout_by_id (w_db (snd (processPayoutRequest (Some req) (Some 2) rpc s))) (uuid (w_seed s)))
        = Some Failed"
  using process_transfer_failed [OF assms, of "Some 2"]
  by (simp add: Let_def pending_of_update_payout fun_eq_iff new_record_updated assms(2))

end
