(* ===== verification/Settlement.thy ===== *)
theory Settlement
  imports Worker
begin

text \<open>
  The settlement path composed: the API process (\<open>RequestPayout\<close>) and the payout
  worker (\<open>worker_step\<close>) share the ledger and the RabbitMQ queue \<open>payout_queue\<close>.
  A settlement state holds the ledger, the queue, the worker's id counter and the
  transfers submitted to Solana; an event is one request to the API or one delivery
  to the worker, each atomic (the handler runs in one database transaction with the
  validator row locked; the worker takes one message at a time), in any order. The
  lemmas show what every lamport owed to a validator becomes: with a healthy database
  it stays pending, queued, or recorded in a payout row that has not been refunded.
\<close>

section \<open>The composed state\<close>

record settlement =
  st_db :: ledger
  st_queue :: "payout_request list"
  st_seed :: nat
  st_submitted :: "transfer list"

datatype settlement_event =
    ApiRequest string fault bool
  | WorkerDelivery fault solana_rpc

fun settle_step :: "settlement \<Rightarrow> settlement_event \<Rightarrow> settlement" where
  "settle_step s (ApiRequest i f p) =
     (let a = snd (RequestPayout i f p \<lparr>api_db = st_db s, payout_queue = st_queue s\<rparr>)
      in s\<lparr>st_db := api_db a, st_queue := payout_queue a\<rparr>)"
| "settle_step s (WorkerDelivery f rpc) =
     (let (q, w) = worker_step f rpc (st_queue s, \<lparr>w_db = st_db s, w_seed = st_seed s, submitted = st_submitted s\<rparr>)
      in s\<lparr>st_queue := q, st_db := w_db w, st_seed := w_seed w, st_submitted := submitted w\<rparr>)"

definition settle_run :: "settlement \<Rightarrow> settlement_event list \<Rightarrow> settlement" where
  "settle_run s es = foldl settle_step s es"

text \<open>
  The consumer loop of \<open>Start\<close> (\<open>for d := range msgs\<close>): one delivery after
  another, each with the database faults and the Solana answers it meets.
\<close>

fun consume ::
  "(fault \<times> solana_rpc) list \<Rightarrow> payout_request list \<times> worker_state \<Rightarrow> payout_request list \<times> worker_state" where
  "consume [] qs = qs"
| "consume ((f, rpc) # ds) qs = consume ds (worker_step f rpc qs)"

section \<open>What a validator is owed\<close>

text \<open>
  A payout row still stands for its amount unless it failed before a transaction was
  sent (it then carries no signature, and the amount was refunded).
\<close>

definition counted :: "payout_transaction \<Rightarrow> bool" where
  "counted p \<longleftrightarrow> \<not> (ptx_status p = Failed \<and> tx_signature p = [])"

definition in_payouts :: "ledger \<Rightarrow> string \<Rightarrow> lamports" where
  "in_payouts d i = sum_list (map amount (filter (\<lambda>p. ptx_validator_id p = i \<and> counted p) (payout_rows d)))"

definition holdings :: "ledger \<Rightarrow> payout_request list \<Rightarrow> string \<Rightarrow> lamports" where
  "holdings d q i = pending_of d i + queued_for q i + in_payouts d i"

fun event_healthy :: "settlement_event \<Rightarrow> bool" where
  "event_healthy (ApiRequest i f p) = (f = None)"
| "event_healthy (WorkerDelivery f rpc) = (f = None \<and> (\<forall>sig. rpc_send rpc = Some sig \<longrightarrow> sig \<noteq> []))"

section \<open>Lemmas\<close>

lemma in_payouts_append:
  "in_payouts (d\<lparr>payout_rows := payout_rows d @ [r]\<rparr>) i =
     in_payouts d i + (if ptx_validator_id r = i \<and> counted r then amount r else 0)"
  by (simp add: in_payouts_def)

lemma in_payouts_validators [simp]:
  "in_payouts (add_pending j x d) i = in_payouts d i"
  "in_payouts (set_pending j x d) i = in_payouts d i"
  by (simp_all add: in_payouts_def add_pending_def set_pending_def)

lemma queued_for_Cons:
  "queued_for (r # q) i = (if req_validator_id r = i then req_amount r else 0) + queued_for q i"
  by (simp add: queued_for_def)

lemma update_new_row:
  "\<forall>p \<in> set (payout_rows d). ptx_id p \<noteq> ptx_id r \<Longrightarrow>
   update_payout (ptx_id r) g (d\<lparr>payout_rows := payout_rows d @ [r]\<rparr>) = d\<lparr>payout_rows := payout_rows d @ [g r]\<rparr>"
  by (simp add: update_payout_def map_idI)

lemma counted_marks:
  "tx_signature p = [] \<Longrightarrow> \<not> counted (mark_failed m p)"
  "sig \<noteq> [] \<Longrightarrow> counted (mark_unconfirmed sig p)"
  "counted (mark_completed sig p)"
  "amount (mark_failed m p) = amount p" "amount (mark_unconfirmed sig p) = amount p"
  "amount (mark_completed sig p) = amount p"
  "ptx_validator_id (mark_failed m p) = ptx_validator_id p"
  "ptx_validator_id (mark_unconfirmed sig p) = ptx_validator_id p"
  "ptx_validator_id (mark_completed sig p) = ptx_validator_id p"
  by (simp_all add: counted_def mark_failed_def mark_unconfirmed_def mark_completed_def)

lemma ledger_payout_rows_update [simp]:
  "pending_of (d\<lparr>payout_rows := x\<rparr>) j = pending_of d j"
  "validator_by_id (d\<lparr>payout_rows := x\<rparr>) j = validator_by_id d j"
  by (simp_all add: pending_of_def validator_by_id_def)

lemma insert_payout_SomeD:
  "insert_payout p d = Some d' \<Longrightarrow> d' = d\<lparr>payout_rows := payout_rows d @ [p]\<rparr>
     \<and> validator_by_id d (ptx_validator_id p) \<noteq> None \<and> (\<forall>p' \<in> set (payout_rows d). ptx_id p' \<noteq> ptx_id p)"
  by (auto simp add: insert_payout_def validator_by_id_None_iff split: if_splits) (metis imageI)

text \<open>
  One delivery to the worker with a healthy database: a requeue leaves the ledger as it
  was; every other outcome moves the request's amount into the ledger, as a payout row
  that counts or as a refund to the validator's balance.
\<close>

lemma process_holdings:
  assumes run: "processPayoutRequest (Some req) None rpc w = (a, w')"
    and sig: "\<forall>sig. rpc_send rpc = Some sig \<longrightarrow> sig \<noteq> []"
  shows "if a = NackRequeue then w_db w' = w_db w
         else pending_of (w_db w') j + in_payouts (w_db w') j =
           pending_of (w_db w) j + in_payouts (w_db w) j
           + (if req_validator_id req = j then req_amount req else 0)"
proof -
  define r where "r = \<lparr>ptx_id = uuid (w_seed w), ptx_validator_id = req_validator_id req,
    amount = req_amount req, ptx_status = Processing, tx_signature = [], error_message = []\<rparr>"
  have r: "tx_signature r = []" "amount r = req_amount req" "ptx_validator_id r = req_validator_id req"
    by (simp_all add: r_def)
  show ?thesis
  proof (cases "insert_payout r (w_db w)")
    case None
    with run show ?thesis by (auto simp add: processPayoutRequest_def Let_def r_def [symmetric])
  next
    case (Some d1)
    then have row: "validator_by_id (w_db w) (req_validator_id req) \<noteq> None"
      and fresh: "\<forall>p \<in> set (payout_rows (w_db w)). ptx_id p \<noteq> uuid (w_seed w)"
      using insert_payout_SomeD [OF Some] by (simp_all add: r_def)
    have upd: "update_payout (uuid (w_seed w)) g
        ((w_db w)\<lparr>payout_rows := payout_rows (w_db w) @ [r]\<rparr>) =
        (w_db w)\<lparr>payout_rows := payout_rows (w_db w) @ [g r]\<rparr>" for g
      using update_new_row [of "w_db w" r g] fresh by (simp add: r_def)
    show ?thesis
    proof (cases "executeSolanaTransfer rpc (req_public_key req) (nat (req_amount req))")
      case (Inl e)
      from run process_transfer_failed [OF row fresh Inl, of None]
      show ?thesis
        by (auto simp add: Let_def r_def [symmetric] upd in_payouts_append counted_marks r row
            ledger_simps)
    next
      case (Inr s)
      with sig have "s \<noteq> []" by (simp add: executeSolanaTransfer_Inr)
      with run process_transfer_sent [OF row fresh Inr, of None]
      show ?thesis
        by (auto simp add: Let_def r_def [symmetric] upd in_payouts_append counted_marks r
            split: if_splits)
    qed
  qed
qed

lemma ptx_ids_update_payout:
  "(\<And>p. ptx_id (g p) = ptx_id p) \<Longrightarrow>
   map ptx_id (payout_rows (update_payout i g d)) = map ptx_id (payout_rows d)"
  by (simp add: update_payout_def)

text \<open>
  With a healthy database, a delivery whose validator row exists and whose new payout id
  is fresh is never requeued: it adds one payout row with that id and keeps every
  validator row.
\<close>

lemma process_progress:
  assumes row: "validator_by_id (w_db w) (req_validator_id req) \<noteq> None"
    and fresh: "\<forall>p \<in> set (payout_rows (w_db w)). ptx_id p \<noteq> uuid (w_seed w)"
    and run: "processPayoutRequest (Some req) None rpc w = (a, w')"
  shows "a \<noteq> NackRequeue \<and> w_seed w' = Suc (w_seed w)
    \<and> (\<forall>k. validator_by_id (w_db w') k = None \<longleftrightarrow> validator_by_id (w_db w) k = None)
    \<and> map ptx_id (payout_rows (w_db w')) = map ptx_id (payout_rows (w_db w)) @ [uuid (w_seed w)]"
proof (cases "executeSolanaTransfer rpc (req_public_key req) (nat (req_amount req))")
  case (Inl e)
  from run process_transfer_failed [OF row fresh Inl, of None] show ?thesis
    by (auto simp add: Let_def ptx_ids_update_payout ledger_simps)
next
  case (Inr s)
  from run process_transfer_sent [OF row fresh Inr, of None] show ?thesis
    by (auto simp add: Let_def ptx_ids_update_payout ledger_simps split: if_splits)
qed

lemma worker_step_progress:
  assumes row: "validator_by_id (w_db w) (req_validator_id req) \<noteq> None"
    and fresh: "\<forall>n \<ge> w_seed w. \<forall>p \<in> set (payout_rows (w_db w)). ptx_id p \<noteq> uuid n"
  obtains w' where "worker_step None rpc (req # rest, w) = (rest, w')"
    and "\<forall>k. validator_by_id (w_db w') k = None \<longleftrightarrow> validator_by_id (w_db w) k = None"
    and "\<forall>n \<ge> w_seed w'. \<forall>p \<in> set (payout_rows (w_db w')). ptx_id p \<noteq> uuid n"
    and "length (payout_rows (w_db w')) = Suc (length (payout_rows (w_db w)))"
proof -
  obtain a w' where run: "processPayoutRequest (Some req) None rpc w = (a, w')" by fastforce
  have f0: "\<forall>p \<in> set (payout_rows (w_db w)). ptx_id p \<noteq> uuid (w_seed w)" using fresh by simp
  note pr = process_progress [OF row f0 run]
  have m: "map ptx_id (payout_rows (w_db w')) = map ptx_id (payout_rows (w_db w)) @ [uuid (w_seed w)]"
    using pr by blast
  have ids: "ptx_id ` set (payout_rows (w_db w')) =
      insert (uuid (w_seed w)) (ptx_id ` set (payout_rows (w_db w)))"
    using arg_cong [where f = set, OF m] by simp
  have len: "length (payout_rows (w_db w')) = Suc (length (payout_rows (w_db w)))"
    using arg_cong [where f = length, OF m] by simp
  have "\<forall>n \<ge> w_seed w'. \<forall>p \<in> set (payout_rows (w_db w')). ptx_id p \<noteq> uuid n"
  proof (intro allI impI ballI)
    fix n p
    assume n: "w_seed w' \<le> n" and p: "p \<in> set (payout_rows (w_db w'))"
    then have "ptx_id p \<in> insert (uuid (w_seed w)) (ptx_id ` set (payout_rows (w_db w)))"
      using ids by blast
    with n pr fresh show "ptx_id p \<noteq> uuid n" by auto
  qed
  moreover have "worker_step None rpc (req # rest, w) = (rest, w')"
    using pr run by (cases a) (simp_all add: worker_step_def)
  ultimately show ?thesis using that pr len by blast
qed

lemma RequestPayout_holdings:
  assumes "RequestPayout i None p a = (r, a')"
  shows "holdings (api_db a') (payout_queue a') j = holdings (api_db a) (payout_queue a) j"
proof (cases "validator_by_id (api_db a) i")
  case None
  with assms show ?thesis by (simp add: RequestPayout_def)
next
  case (Some v)
  then have v: "validator_id v = i" "pending_of (api_db a) i = pending_payouts v"
    by (simp_all add: validator_by_id_found)
  show ?thesis
  proof (cases "0 < pending_payouts v \<and> p")
    case False
    with assms Some show ?thesis by (auto simp add: RequestPayout_def Let_def split: if_splits)
  next
    case True
    with assms Some v have "a' = \<lparr>api_db = set_pending i 0 (api_db a),
        payout_queue = payout_queue a @ [payout_request_of v], \<dots> = api_state.more a\<rparr>"
      by (cases a) (auto simp add: RequestPayout_def Let_def)
    with Some v show ?thesis
      by (auto simp add: holdings_def ledger_simps)
  qed
qed

lemma worker_step_holdings:
  assumes "\<forall>sig. rpc_send rpc = Some sig \<longrightarrow> sig \<noteq> []"
  shows "holdings (w_db (snd (worker_step None rpc (q, w)))) (fst (worker_step None rpc (q, w))) j =
         holdings (w_db w) q j"
proof (cases q)
  case Nil
  then show ?thesis by (simp add: worker_step_def)
next
  case (Cons req rest)
  obtain a w' where run: "processPayoutRequest (Some req) None rpc w = (a, w')" by fastforce
  from process_holdings [OF run assms, of j] Cons run show ?thesis
    by (cases a) (simp_all add: worker_step_def holdings_def queued_for_Cons)
qed

lemma settle_step_holdings:
  "event_healthy e \<Longrightarrow>
   holdings (st_db (settle_step s e)) (st_queue (settle_step s e)) j = holdings (st_db s) (st_queue s) j"
proof (cases e)
  case (ApiRequest i f p)
  assume "event_healthy e"
  with ApiRequest have f: "f = None" by simp
  obtain r a' where run: "RequestPayout i None p \<lparr>api_db = st_db s, payout_queue = st_queue s\<rparr> = (r, a')"
    by fastforce
  from RequestPayout_holdings [OF run, of j] ApiRequest f run show ?thesis by simp
next
  case (WorkerDelivery f rpc)
  assume "event_healthy e"
  with WorkerDelivery have f: "f = None" and sig: "\<forall>sig. rpc_send rpc = Some sig \<longrightarrow> sig \<noteq> []"
    by simp_all
  let ?w = "\<lparr>w_db = st_db s, w_seed = st_seed s, submitted = st_submitted s\<rparr>"
  obtain q w' where run: "worker_step None rpc (st_queue s, ?w) = (q, w')" by fastforce
  from worker_step_holdings [OF sig, of "st_queue s" ?w j] WorkerDelivery f run show ?thesis
    by simp
qed

section \<open>Properties\<close>

text \<open>
  C36. Conservation of what validators are owed: in every interleaving of payout
  requests to the API and deliveries to the worker, with a healthy database and Solana
  signatures that are not empty, the lamports of each validator that are pending in its
  row, queued in RabbitMQ, or recorded in a payout row that was not refunded add up to
  the same total before and after. A failed transfer is refunded exactly once; nothing
  is created or lost between the two processes.
\<close>

theorem settlement_conserves:
  "\<forall>e \<in> set es. event_healthy e \<Longrightarrow>
   holdings (st_db (settle_run s es)) (st_queue (settle_run s es)) j = holdings (st_db s) (st_queue s) j"
proof (induction es arbitrary: s rule: rev_induct)
  case Nil
  then show ?case by (simp add: settle_run_def)
next
  case (snoc e es)
  then show ?case by (simp add: settle_run_def settle_step_holdings)
qed

text \<open>
  C37. The worker's queue drains: with a healthy database, when every queued request
  names an existing validator row and the payout ids the worker will draw are fresh,
  as many deliveries as there are requests empty the queue (none is requeued), and
  each request has become exactly one payout row.
\<close>

theorem consume_drains_queue:
  assumes "length ds = length q" and "\<forall>d \<in> set ds. fst d = None"
    and "\<forall>r \<in> set q. validator_by_id (w_db w) (req_validator_id r) \<noteq> None"
    and "\<forall>n \<ge> w_seed w. \<forall>p \<in> set (payout_rows (w_db w)). ptx_id p \<noteq> uuid n"
  shows "fst (consume ds (q, w)) = []
    \<and> length (payout_rows (w_db (snd (consume ds (q, w))))) = length (payout_rows (w_db w)) + length q"
  using assms
proof (induction ds arbitrary: q w)
  case Nil
  then show ?case by simp
next
  case (Cons d ds)
  obtain f rpc where d: "d = (f, rpc)" by fastforce
  with Cons.prems(2) have f: "f = None" by simp
  from Cons.prems(1) obtain req rest where q: "q = req # rest" by (cases q) auto
  obtain w' where step: "worker_step None rpc (req # rest, w) = (rest, w')"
    and rows: "\<forall>k. validator_by_id (w_db w') k = None \<longleftrightarrow> validator_by_id (w_db w) k = None"
    and fresh: "\<forall>n \<ge> w_seed w'. \<forall>p \<in> set (payout_rows (w_db w')). ptx_id p \<noteq> uuid n"
    and len: "length (payout_rows (w_db w')) = Suc (length (payout_rows (w_db w)))"
    using worker_step_progress [of w req rpc rest] Cons.prems(3,4) q by auto
  have "fst (consume ds (rest, w')) = []
    \<and> length (payout_rows (w_db (snd (consume ds (rest, w'))))) = length (payout_rows (w_db w')) + length rest"
    using Cons.prems q rows fresh by (intro Cons.IH) auto
  with d f q step len show ?case by simp
qed

end
