(* ===== verification/Api.thy ===== *)
theory Api
  imports UserApi Websites Settlement
begin

text \<open>
  The HTTP API server of \<open>src/cmd/api/main.go\<close> (lines 64--106): the Gin router with
  its route groups, the JWT middleware on the protected group, and the handlers of
  \<open>UserApi\<close>, \<open>Payout\<close> and \<open>Websites\<close> behind it, over one server state (the
  shared ledger, the \<open>User\<close> table, the RabbitMQ queue and the id counter of website
  rows). A route pattern is a list of path segments, a segment \<open>:name\<close> matching
  one non-empty segment and binding it; the router picks the route of the request's
  method whose pattern matches, which is unique (no two routes of the table overlap).
  Redirects for a trailing slash and the CORS middleware (not among the sources) only
  set headers or answer without running a handler; they are not modelled. What a
  request carries besides method, path and header is given after binding
  (\<open>request_body\<close>); database faults, the queue's answer, the hash's failure and
  the clock are the environment of one request (\<open>req_env\<close>).
\<close>

section \<open>Routes\<close>

datatype http_method = GET | POST | PUT | DELETE | PATCH | HEAD | OPTIONS

datatype endpoint =
    CreateWebsiteE | GetWebsitesE | GetWebsiteStatusE | DeleteWebsiteE
  | RequestPayoutE | GetValidatorBalanceE | SignupE | LoginE | HealthE

record route =
  route_method :: http_method
  route_path :: string
  route_auth :: bool
  route_endpoint :: endpoint

text \<open>The routes in the order \<open>main\<close> registers them.\<close>

definition api_routes :: "route list" where
  "api_routes =
     [\<lparr>route_method = POST, route_path = ''/api/v1/website'', route_auth = True, route_endpoint = CreateWebsiteE\<rparr>,
      \<lparr>route_method = GET, route_path = ''/api/v1/websites'', route_auth = True, route_endpoint = GetWebsitesE\<rparr>,
      \<lparr>route_method = GET, route_path = ''/api/v1/website/status'', route_auth = True, route_endpoint = GetWebsiteStatusE\<rparr>,
      \<lparr>route_method = DELETE, route_path = ''/api/v1/website'', route_auth = True, route_endpoint = DeleteWebsiteE\<rparr>,
      \<lparr>route_method = POST, route_path = ''/api/v1/payout/:validatorId'', route_auth = False, route_endpoint = RequestPayoutE\<rparr>,
      \<lparr>route_method = GET, route_path = ''/api/v1/validator/:validatorId/balance'', route_auth = False,
         route_endpoint = GetValidatorBalanceE\<rparr>,
      \<lparr>route_method = POST, route_path = ''/api/v1/auth/signup'', route_auth = False, route_endpoint = SignupE\<rparr>,
      \<lparr>route_method = POST, route_path = ''/api/v1/auth/login'', route_auth = False, route_endpoint = LoginE\<rparr>,
      \<lparr>route_method = GET, route_path = ''/health'', route_auth = False, route_endpoint = HealthE\<rparr>]"

text \<open>A path as its segments between slashes.\<close>

fun split_path :: "string \<Rightarrow> string list" where
  "split_path [] = [[]]"
| "split_path (c # cs) =
     (let ws = split_path cs in if c = CHR ''/'' then [] # ws else (c # hd ws) # tl ws)"

fun is_param :: "string \<Rightarrow> bool" where
  "is_param (c # cs) = (c = CHR '':'')"
| "is_param [] = False"

text \<open>Matching a pattern against a path: the bound parameters, or no match.\<close>

fun seg_match :: "string list \<Rightarrow> string list \<Rightarrow> (string \<times> string) list option" where
  "seg_match [] [] = Some []"
| "seg_match (p # ps) (s # ss) =
     (if is_param p then (if s = [] then None else map_option (\<lambda>m. (tl p, s) # m) (seg_match ps ss))
      else if p = s then seg_match ps ss else None)"
| "seg_match _ _ = None"

fun first_route ::
  "http_method \<Rightarrow> string list \<Rightarrow> route list \<Rightarrow> (route \<times> (string \<times> string) list) option" where
  "first_route m segs [] = None"
| "first_route m segs (r # rs) =
     (if route_method r = m then
        (case seg_match (split_path (route_path r)) segs of
           Some ps \<Rightarrow> Some (r, ps)
         | None \<Rightarrow> first_route m segs rs)
      else first_route m segs rs)"

definition route_request :: "http_method \<Rightarrow> string \<Rightarrow> (route \<times> (string \<times> string) list) option" where
  "route_request m path = first_route m (split_path path) api_routes"

text \<open>\<open>c.Param(name)\<close>: the bound value, the empty string when there is none.\<close>

definition param :: "(string \<times> string) list \<Rightarrow> string \<Rightarrow> string" where
  "param ps x = (case map_of ps x of Some v \<Rightarrow> v | None \<Rightarrow> [])"

section \<open>Requests and the server\<close>

datatype request_body =
    NoBody
  | WebsiteBody string bool
  | DeleteBody string
  | AccountBody signup_request

record api_request =
  rq_method :: http_method
  rq_path :: string
  rq_header :: auth_header
  rq_websiteId :: string
  rq_body :: request_body

record req_env =
  env_fault :: fault
  env_publish_ok :: bool
  env_hash_ok :: bool
  env_now :: int

record server =
  srv_db :: ledger
  srv_queue :: "payout_request list"
  srv_users :: user_store
  srv_web_seed :: nat
  srv_queue_declared :: bool

datatype api_response =
    WebResp web_response
  | UserResp http_response
  | PayoutResp "api_error + payout_response"
  | AuthError nat string
  | RouteNotFound
  | HealthResp string string

fun body_url :: "request_body \<Rightarrow> string \<times> bool" where
  "body_url (WebsiteBody u ok) = (u, ok)"
| "body_url _ = ([], False)"

fun body_website_id :: "request_body \<Rightarrow> string" where
  "body_website_id (DeleteBody w) = w"
| "body_website_id _ = []"

fun body_account :: "request_body \<Rightarrow> signup_request" where
  "body_account (AccountBody r) = r"
| "body_account _ = \<lparr>req_email = [], req_password = [], email_valid = False\<rparr>"

text \<open>
  The handler a route names, with the user id the middleware stored (\<open>None\<close> on a
  public route, where \<open>c.Get("userID")\<close> finds nothing). \<open>RequestPayout\<close>
  publishes to the default exchange with routing key \<open>payout_queue\<close> and
  \<open>mandatory = false\<close> (\<open>user/handler.go\<close>, line 94): the broker delivers the
  message to the queue when the queue exists (\<open>srv_queue_declared\<close>) and otherwise
  drops it silently, while \<open>Publish\<close> still returns no error. The API process never
  declares the queue; only the worker's \<open>Start\<close> does, and the queue is durable.
\<close>

fun run_endpoint ::
  "config \<Rightarrow> req_env \<Rightarrow> endpoint \<Rightarrow> string option \<Rightarrow> (string \<times> string) list \<Rightarrow> api_request \<Rightarrow>
   server \<Rightarrow> api_response \<times> server" where
  "run_endpoint cfg env CreateWebsiteE uid ps rq s =
     (let (r, w) = CreateWebsite uid (fst (body_url (rq_body rq))) (snd (body_url (rq_body rq)))
                     (env_fault env) \<lparr>web_db = srv_db s, web_seed = srv_web_seed s\<rparr>
      in (WebResp r, s\<lparr>srv_db := web_db w, srv_web_seed := web_seed w\<rparr>))"
| "run_endpoint cfg env GetWebsitesE uid ps rq s = (WebResp (GetWebsites uid (env_fault env) (srv_db s)), s)"
| "run_endpoint cfg env GetWebsiteStatusE uid ps rq s =
     (WebResp (GetWebsiteStatus (rq_websiteId rq) uid (env_fault env) (srv_db s)), s)"
| "run_endpoint cfg env DeleteWebsiteE uid ps rq s =
     (let (r, d) = DeleteWebsite uid (body_website_id (rq_body rq)) (env_fault env) (srv_db s)
      in (WebResp r, s\<lparr>srv_db := d\<rparr>))"
| "run_endpoint cfg env RequestPayoutE uid ps rq s =
     (let (r, a) = RequestPayout (param ps ''validatorId'') (env_fault env) (env_publish_ok env)
                     \<lparr>api_db = srv_db s, payout_queue = srv_queue s\<rparr>
      in (PayoutResp r, s\<lparr>srv_db := api_db a,
            srv_queue := (if srv_queue_declared s then payout_queue a else srv_queue s)\<rparr>))"
| "run_endpoint cfg env GetValidatorBalanceE uid ps rq s =
     (UserResp (GetValidatorBalance (param ps ''validatorId'') (env_fault env) (srv_db s)), s)"
| "run_endpoint cfg env SignupE uid ps rq s =
     (let (r, us) = Signup (body_account (rq_body rq)) (env_fault env) (env_hash_ok env)
                      (JWTSecret cfg) (env_now env) (srv_users s)
      in (UserResp r, s\<lparr>srv_users := us\<rparr>))"
| "run_endpoint cfg env LoginE uid ps rq s =
     (UserResp (Login (body_account (rq_body rq)) (env_fault env) (JWTSecret cfg) (env_now env) (srv_users s)), s)"
| "run_endpoint cfg env HealthE uid ps rq s = (HealthResp ''ok'' ''uptime-monitor-api'', s)"

text \<open>
  One request through the router: no route is a 404; a route of the protected group
  runs \<open>AuthMiddleware\<close> with the configured secret first, which aborts with 401 or
  hands the user id to the handler.
\<close>

definition serve :: "config \<Rightarrow> req_env \<Rightarrow> api_request \<Rightarrow> server \<Rightarrow> api_response \<times> server" where
  "serve cfg env rq s =
     (case route_request (rq_method rq) (rq_path rq) of
        None \<Rightarrow> (RouteNotFound, s)
      | Some (r, ps) \<Rightarrow>
          if route_auth r then
            (case AuthMiddleware (JWTSecret cfg) (rq_header rq) (env_now env) of
               Unauthorized m \<Rightarrow> (AuthError 401 m, s)
             | Authenticated uid \<Rightarrow> run_endpoint cfg env (route_endpoint r) (Some uid) ps rq s)
          else run_endpoint cfg env (route_endpoint r) None ps rq s)"

text \<open>Two patterns can match a common path only if they agree segment by segment.\<close>

fun patterns_overlap :: "string list \<Rightarrow> string list \<Rightarrow> bool" where
  "patterns_overlap [] [] = True"
| "patterns_overlap (p # ps) (q # qs) = ((is_param p \<or> is_param q \<or> p = q) \<and> patterns_overlap ps qs)"
| "patterns_overlap _ _ = False"

section \<open>Lemmas\<close>

lemma seg_match_overlap:
  "seg_match ps ss = Some a \<Longrightarrow> seg_match qs ss = Some b \<Longrightarrow> patterns_overlap ps qs"
proof (induction ps ss arbitrary: qs a b rule: seg_match.induct)
  case (2 p ps s ss)
  then obtain q qs' where qs: "qs = q # qs'" by (cases qs) auto
  from "2.prems" obtain a' b' where "seg_match ps ss = Some a'" and "seg_match qs' ss = Some b'"
    by (auto simp add: qs split: if_splits)
  with "2.IH" "2.prems" qs show ?case by (auto split: if_splits)
qed (auto elim: seg_match.elims)

lemma api_routes_no_overlap:
  "\<forall>r1 \<in> set api_routes. \<forall>r2 \<in> set api_routes.
     route_method r1 = route_method r2 \<and> patterns_overlap (split_path (route_path r1)) (split_path (route_path r2))
     \<longrightarrow> r1 = r2"
  by (simp add: api_routes_def)

lemma first_route_Some:
  "first_route m segs rs = Some (r, ps) \<Longrightarrow>
   r \<in> set rs \<and> route_method r = m \<and> seg_match (split_path (route_path r)) segs = Some ps"
  by (induction m segs rs rule: first_route.induct) (auto split: if_splits option.splits)

lemma first_route_None:
  "first_route m segs rs = None \<Longrightarrow> r \<in> set rs \<Longrightarrow> route_method r = m \<Longrightarrow>
   seg_match (split_path (route_path r)) segs = None"
  by (induction m segs rs rule: first_route.induct) (auto split: if_splits option.splits)

lemma CreateWebsite_rows:
  "CreateWebsite uid u b f s = (r, s') \<Longrightarrow>
   website_rows (web_db s') = website_rows (web_db s)
   \<or> (\<exists>v w. uid = Some v \<and> user_id w = v \<and> website_rows (web_db s') = website_rows (web_db s) @ [w])"
  by (auto simp add: CreateWebsite_def Let_def split: option.splits if_splits)

lemma RequestPayout_website_rows:
  "RequestPayout i f p a = (r, a') \<Longrightarrow> website_rows (api_db a') = website_rows (api_db a)"
  by (auto simp add: RequestPayout_def Let_def split: option.splits if_splits)

lemma DeleteWebsite_other_rows:
  assumes "DeleteWebsite uid wid f d = (r, d')" and "uid \<noteq> Some u"
  shows "filter (\<lambda>w. user_id w = u) (website_rows d') = filter (\<lambda>w. user_id w = u) (website_rows d)"
proof (cases uid)
  case None
  with assms show ?thesis by (auto simp add: DeleteWebsite_def split: if_splits)
next
  case (Some v)
  with assms(2) have "v \<noteq> u" by simp
  then have keep: "filter (\<lambda>w. user_id w = u)
      (map (\<lambda>w. if delete_matches wid v w then w\<lparr>disabled := True\<rparr> else w) ws) =
    filter (\<lambda>w. user_id w = u) ws" for ws
    by (intro filter_map_keep) (auto simp add: delete_matches_def)
  from DeleteWebsite_cases [of v wid f d r d'] assms(1) Some keep show ?thesis by auto
qed

text \<open>A handler run for another user id, or for none, leaves a user's websites alone.\<close>

lemma run_endpoint_other_user:
  assumes "run_endpoint cfg env e uid ps rq s = (resp, s')" and "uid \<noteq> Some u"
  shows "filter (\<lambda>w. user_id w = u) (website_rows (srv_db s')) = filter (\<lambda>w. user_id w = u) (website_rows (srv_db s))"
proof (cases e)
  case CreateWebsiteE
  obtain r w where c: "CreateWebsite uid (fst (body_url (rq_body rq))) (snd (body_url (rq_body rq)))
      (env_fault env) \<lparr>web_db = srv_db s, web_seed = srv_web_seed s\<rparr> = (r, w)" by fastforce
  from CreateWebsite_rows [OF c] assms c CreateWebsiteE show ?thesis by (auto split: if_splits)
next
  case DeleteWebsiteE
  obtain r d where c: "DeleteWebsite uid (body_website_id (rq_body rq)) (env_fault env) (srv_db s) = (r, d)"
    by fastforce
  from DeleteWebsite_other_rows [OF c assms(2)] assms(1) c DeleteWebsiteE show ?thesis by auto
next
  case RequestPayoutE
  obtain r a where c: "RequestPayout (param ps ''validatorId'') (env_fault env) (env_publish_ok env)
      \<lparr>api_db = srv_db s, payout_queue = srv_queue s\<rparr> = (r, a)" by fastforce
  from RequestPayout_website_rows [OF c] assms(1) c RequestPayoutE show ?thesis by auto
next
  case SignupE
  with assms(1) show ?thesis by (auto split: prod.splits)
qed (use assms(1) in auto)

lemma route_match_unique:
  assumes "r1 \<in> set api_routes" "r2 \<in> set api_routes" "route_method r1 = route_method r2"
    and "seg_match (split_path (route_path r1)) segs = Some a"
    and "seg_match (split_path (route_path r2)) segs = Some b"
  shows "r1 = r2"
  using api_routes_no_overlap assms seg_match_overlap [OF assms(4,5)] by blast

lemma split_path_nonempty [simp]: "split_path xs \<noteq> []"
  by (induction xs) (auto simp add: Let_def)

lemma split_path_no_slash: "CHR ''/'' \<notin> set xs \<Longrightarrow> split_path xs = [xs]"
  by (induction xs) (auto simp add: Let_def)

section \<open>Properties\<close>

text \<open>
  The route table is well formed: two routes of the same method never match a
  common path, and a matching route binds its parameters in one way only. Gin refuses a
  path registered twice at start-up; with no overlap at all, the route a request reaches
  never depends on Gin's priority of static segments over parameters, and the
  first-match router relies on it.
\<close>

lemma api_routes_unambiguous:
  assumes "r1 \<in> set api_routes" "r2 \<in> set api_routes" "route_method r1 = route_method r2"
    and "seg_match (split_path (route_path r1)) segs = Some a"
    and "seg_match (split_path (route_path r2)) segs = Some b"
  shows "r1 = r2 \<and> a = b"
proof -
  have "r1 = r2" by (rule route_match_unique [OF assms])
  with assms(4,5) show ?thesis by simp
qed

text \<open>
  The router taking the first route of the table that matches is the router of
  the specification: a request is routed to a route with given parameters exactly when
  that route is in the table, has the request's method and its pattern matches the
  path binding those parameters.
\<close>

lemma route_request_iff:
  "route_request m path = Some (r, ps) \<longleftrightarrow>
     r \<in> set api_routes \<and> route_method r = m \<and> seg_match (split_path (route_path r)) (split_path path) = Some ps"
proof
  assume "route_request m path = Some (r, ps)"
  then show "r \<in> set api_routes \<and> route_method r = m \<and> seg_match (split_path (route_path r)) (split_path path) = Some ps"
    by (simp add: route_request_def first_route_Some)
next
  assume r: "r \<in> set api_routes \<and> route_method r = m \<and> seg_match (split_path (route_path r)) (split_path path) = Some ps"
  show "route_request m path = Some (r, ps)"
  proof (cases "first_route m (split_path path) api_routes")
    case None
    with r first_route_None show ?thesis by fastforce
  next
    case (Some x)
    then obtain r' ps' where x: "first_route m (split_path path) api_routes = Some (r', ps')"
      by (cases x) simp
    note r' = first_route_Some [OF x]
    have "r' = r" using route_match_unique [of r' r] r r' by blast
    with r r' x show ?thesis by (simp add: route_request_def)
  qed
qed

text \<open>
  C39. Only the owner changes a user's websites: whatever request the server handles,
  if the list of websites of user \<open>u\<close> is different afterwards, the request carried
  a token that \<open>AuthMiddleware\<close> accepts for \<open>u\<close> under the configured secret.
  Public routes (payouts, balances, accounts, health) never touch the website table.
\<close>

theorem serve_websites_owner_only:
  assumes "serve cfg env rq s = (resp, s')"
    and "filter (\<lambda>w. user_id w = u) (website_rows (srv_db s')) \<noteq> filter (\<lambda>w. user_id w = u) (website_rows (srv_db s))"
  shows "AuthMiddleware (JWTSecret cfg) (rq_header rq) (env_now env) = Authenticated u"
proof (cases "route_request (rq_method rq) (rq_path rq)")
  case None
  with assms show ?thesis by (simp add: serve_def)
next
  case (Some x)
  obtain r ps where x: "x = (r, ps)" by fastforce
  show ?thesis
  proof (cases "route_auth r")
    case True
    show ?thesis
    proof (cases "AuthMiddleware (JWTSecret cfg) (rq_header rq) (env_now env)")
      case (Unauthorized m)
      with assms Some x True show ?thesis by (simp add: serve_def)
    next
      case (Authenticated uid)
      with assms(1) Some x True
      have "run_endpoint cfg env (route_endpoint r) (Some uid) ps rq s = (resp, s')"
        by (simp add: serve_def)
      with run_endpoint_other_user [of cfg env "route_endpoint r" "Some uid" ps rq s resp s' u] assms(2)
      have "uid = u" by auto
      with Authenticated show ?thesis by simp
    qed
  next
    case False
    with assms(1) Some x have "run_endpoint cfg env (route_endpoint r) None ps rq s = (resp, s')"
      by (simp add: serve_def)
    with run_endpoint_other_user [of cfg env "route_endpoint r" None ps rq s resp s' u] assms(2)
    show ?thesis by simp
  qed
qed

text \<open>
  The payout route is public: a \<open>POST\<close> to \<open>/api/v1/payout/<id>\<close> with any
  header, or none, runs \<open>RequestPayout\<close> for validator \<open>id\<close>, so any client can turn
  any validator's pending balance into a settlement request.
\<close>

theorem payout_route_public:
  assumes "vid \<noteq> []" and "CHR ''/'' \<notin> set vid"
  shows "serve cfg env \<lparr>rq_method = POST, rq_path = ''/api/v1/payout/'' @ vid, rq_header = hdr,
            rq_websiteId = q, rq_body = b\<rparr> s =
    (let (r, a) = RequestPayout vid (env_fault env) (env_publish_ok env)
                    \<lparr>api_db = srv_db s, payout_queue = srv_queue s\<rparr>
     in (PayoutResp r, s\<lparr>srv_db := api_db a,
           srv_queue := (if srv_queue_declared s then payout_queue a else srv_queue s)\<rparr>))"
proof -
  have "split_path (''/api/v1/payout/'' @ vid) = [[], ''api'', ''v1'', ''payout'', vid]"
    using assms(2) by (simp add: Let_def split_path_no_slash)
  with assms(1) have "route_request POST (''/api/v1/payout/'' @ vid) =
      Some (api_routes ! 4, [(''validatorId'', vid)])"
    by (simp add: route_request_def api_routes_def)
  then show ?thesis by (simp add: serve_def api_routes_def param_def)
qed

end
