(* ===== verification/ApiDocs.thy ===== *)
theory ApiDocs
  imports Api
begin

text \<open>
  The API documentation of the repository (\<open>src/unnamed/part_000\<close>, "API Routes
  Documentation") as a table of documented endpoints: method, URL, whether the
  \<open>Authorization: Bearer\<close> header is required, and the status of the documented
  success response. The status of every response the server writes
  (\<open>utils.SuccessResponse\<close> and \<open>utils.ErrorResponse\<close> of the handlers) is
  \<open>api_status\<close>. The lemmas show that the server implements the documented API:
  every successful answer comes from a documented endpoint, with the documented
  status, and after the documented authentication.
\<close>

section \<open>The documented API\<close>

record doc_endpoint =
  doc_name :: string
  doc_method :: http_method
  doc_url :: string
  doc_auth :: bool
  doc_status :: nat

definition documented_api :: "doc_endpoint list" where
  "documented_api =
     [\<lparr>doc_name = ''Signup'', doc_method = POST, doc_url = ''/api/v1/auth/signup'', doc_auth = False, doc_status = 201\<rparr>,
      \<lparr>doc_name = ''Login'', doc_method = POST, doc_url = ''/api/v1/auth/login'', doc_auth = False, doc_status = 200\<rparr>,
      \<lparr>doc_name = ''Create Website'', doc_method = POST, doc_url = ''/api/v1/website'', doc_auth = True, doc_status = 201\<rparr>,
      \<lparr>doc_name = ''List Websites'', doc_method = GET, doc_url = ''/api/v1/websites'', doc_auth = True, doc_status = 200\<rparr>,
      \<lparr>doc_name = ''Get Website Status'', doc_method = GET, doc_url = ''/api/v1/website/status'', doc_auth = True,
         doc_status = 200\<rparr>,
      \<lparr>doc_name = ''Delete Website'', doc_method = DELETE, doc_url = ''/api/v1/website'', doc_auth = True, doc_status = 200\<rparr>,
      \<lparr>doc_name = ''Request Payout'', doc_method = POST, doc_url = ''/api/v1/payout/:validatorId'', doc_auth = False,
         doc_status = 200\<rparr>,
      \<lparr>doc_name = ''Get Validator Balance'', doc_method = GET, doc_url = ''/api/v1/validator/:validatorId/balance'',
         doc_auth = False, doc_status = 200\<rparr>,
      \<lparr>doc_name = ''Health Check'', doc_method = GET, doc_url = ''/health'', doc_auth = False, doc_status = 200\<rparr>]"

section \<open>Response statuses\<close>

fun web_status :: "web_response \<Rightarrow> nat" where
  "web_status (WebError n m) = n"
| "web_status (WebCreated i u) = 201"
| "web_status (WebList ws n) = 200"
| "web_status (WebStatus w ts) = 200"
| "web_status WebDeleted = 200"

fun api_status :: "api_response \<Rightarrow> nat" where
  "api_status (WebResp r) = web_status r"
| "api_status (UserResp r) = status_of r"
| "api_status (PayoutResp (Inl e)) = http_status e"
| "api_status (PayoutResp (Inr p)) = 200"
| "api_status (AuthError n m) = n"
| "api_status RouteNotFound = 404"
| "api_status (HealthResp s n) = 200"

text \<open>The success status each handler writes.\<close>

fun endpoint_status :: "endpoint \<Rightarrow> nat" where
  "endpoint_status CreateWebsiteE = 201"
| "endpoint_status SignupE = 201"
| "endpoint_status _ = 200"

section \<open>Lemmas\<close>

lemma http_status_error: "400 \<le> http_status e"
  by (cases e) simp_all

lemma web_success:
  "CreateWebsite uid u b f ws = (r, ws') \<Longrightarrow> web_status r < 300 \<Longrightarrow> web_status r = 201"
  "web_status (GetWebsites uid f d) < 300 \<Longrightarrow> web_status (GetWebsites uid f d) = 200"
  "web_status (GetWebsiteStatus wid uid f d) < 300 \<Longrightarrow> web_status (GetWebsiteStatus wid uid f d) = 200"
  "DeleteWebsite uid wid f d = (r, d') \<Longrightarrow> web_status r < 300 \<Longrightarrow> web_status r = 200"
  by (auto simp add: CreateWebsite_def GetWebsites_def GetWebsiteStatus_def DeleteWebsite_def Let_def
      split: option.splits if_splits)

lemma user_success:
  "Signup req f h sec now us = (r, us') \<Longrightarrow> status_of r < 300 \<Longrightarrow> status_of r = 201"
  "status_of (Login req f sec now us) < 300 \<Longrightarrow> status_of (Login req f sec now us) = 200"
  "status_of (GetValidatorBalance i f d) < 300 \<Longrightarrow> status_of (GetValidatorBalance i f d) = 200"
  by (auto simp add: Signup_def Login_def GetValidatorBalance_def Let_def split: option.splits if_splits)

lemma payout_success:
  assumes "api_status (PayoutResp r) < 300"
  shows "api_status (PayoutResp r) = 200"
proof (cases r)
  case (Inl e)
  with assms http_status_error [of e] show ?thesis by simp
qed simp

text \<open>A handler that answers with a success status answers with its own.\<close>

lemma run_endpoint_success:
  assumes "run_endpoint cfg env e uid ps rq s = (resp, s')" and "api_status resp < 300"
  shows "api_status resp = endpoint_status e"
  using assms
  by (cases e) (auto simp add: web_success(2,3) user_success(2,3) split: prod.splits
      dest: web_success(1,4) user_success(1) payout_success)

lemma api_routes_documented:
  "\<forall>r \<in> set api_routes. \<exists>d \<in> set documented_api.
     doc_method d = route_method r \<and> doc_url d = route_path r \<and> doc_auth d = route_auth r
     \<and> doc_status d = endpoint_status (route_endpoint r)"
  by (simp add: api_routes_def documented_api_def)

section \<open>Properties\<close>

text \<open>
  C23. The server implements its documentation: every request it answers with a
  success status reached an endpoint of the API documentation with the request's
  method and a URL pattern matching its path, the status is the documented one, and
  when the documentation requires the \<open>Authorization\<close> header the request carried a
  token the middleware accepted.
\<close>

theorem serve_implements_docs:
  assumes "serve cfg env rq s = (resp, s')" and "api_status resp < 300"
  shows "\<exists>d \<in> set documented_api. doc_method d = rq_method rq
    \<and> seg_match (split_path (doc_url d)) (split_path (rq_path rq)) \<noteq> None
    \<and> api_status resp = doc_status d
    \<and> (doc_auth d \<longrightarrow> (\<exists>u. AuthMiddleware (JWTSecret cfg) (rq_header rq) (env_now env) = Authenticated u))"
proof (cases "route_request (rq_method rq) (rq_path rq)")
  case None
  with assms show ?thesis by (simp add: serve_def)
next
  case (Some x)
  obtain r ps where x: "x = (r, ps)" by fastforce
  with Some have r: "r \<in> set api_routes" "route_method r = rq_method rq"
    "seg_match (split_path (route_path r)) (split_path (rq_path rq)) = Some ps"
    by (simp_all add: route_request_def first_route_Some)
  from r(1) api_routes_documented obtain d where d: "d \<in> set documented_api"
    "doc_method d = route_method r" "doc_url d = route_path r" "doc_auth d = route_auth r"
    "doc_status d = endpoint_status (route_endpoint r)" by blast
  show ?thesis
  proof (cases "route_auth r")
    case True
    show ?thesis
    proof (cases "AuthMiddleware (JWTSecret cfg) (rq_header rq) (env_now env)")
      case (Unauthorized m)
      with assms Some x True show ?thesis by (auto simp add: serve_def)
    next
      case (Authenticated u)
      with assms(1) Some x True
      have "run_endpoint cfg env (route_endpoint r) (Some u) ps rq s = (resp, s')" by (simp add: serve_def)
      from run_endpoint_success [OF this assms(2)] d r Authenticated show ?thesis by auto
    qed
  next
    case False
    with assms(1) Some x have "run_endpoint cfg env (route_endpoint r) None ps rq s = (resp, s')"
      by (simp add: serve_def)
    from run_endpoint_success [OF this assms(2)] d r False show ?thesis by auto
  qed
qed

end
