(* ===== verification/Agent.thy ===== *)
theory Agent
  imports Hub "HOL-Library.Multiset"
begin

text \<open>
  The validator agent of \<open>src/cmd/api/main.go\<close> (lines 116--352, \<open>ValidatorClient\<close>):
  it signs up with the hub under its public key, learns its validator id from the
  hub's reply, and for every task it receives starts a probe (a goroutine) that ends
  with a signed reply carrying the task's callback id, the result of an HTTP GET and
  the validator id the agent holds at that moment. The messages are those of
  \<open>Hub\<close>: the agent writes \<open>frame\<close>s and reads \<open>outgoing_message\<close>s. Signing is the
  keypair's function \<open>agent_sign\<close>, an input; the HTTP outcome and the measured
  latency of a probe are inputs of the event that ends it. A failed write during
  \<open>signup\<close> makes \<open>Connect\<close> return an error and \<open>main\<close> exit (\<open>None\<close>); a failed
  write of a reply is only logged. A read error ends the listener goroutine.
\<close>

section \<open>State\<close>

datatype agent_callback = SignupCallback

record validate_data =
  vd_url :: string
  vd_callback_id :: string
  vd_website_id :: string

datatype http_outcome = HttpError | HttpStatus nat

record agent =
  agent_public_key :: string
  agent_sign :: "string \<Rightarrow> string"
  agent_validator_id :: string
  agent_callbacks :: "string \<rightharpoonup> agent_callback"
  agent_probes :: "validate_data list"
  agent_out :: "frame list"
  agent_listening :: bool
  agent_seed :: nat

definition NewValidatorClient :: "string \<Rightarrow> (string \<Rightarrow> string) \<Rightarrow> agent" where
  "NewValidatorClient pk sign =
     \<lparr>agent_public_key = pk, agent_sign = sign, agent_validator_id = [],
      agent_callbacks = Map.empty, agent_probes = [], agent_out = [], agent_listening = True,
      agent_seed = 0\<rparr>"

section \<open>Operations\<close>

definition signup_message :: "string \<Rightarrow> string \<Rightarrow> string" where
  "signup_message cb pk = ''Signed message for '' @ cb @ '', '' @ pk"

definition reply_message :: "string \<Rightarrow> string" where
  "reply_message cb = ''Replying to '' @ cb"

text \<open>\<open>signup\<close>: register the one-shot handler, then write the signup frame.\<close>

definition agent_signup :: "bool \<Rightarrow> agent \<Rightarrow> agent option" where
  "agent_signup writable a =
     (let cb = uuid (agent_seed a);
          sig = agent_sign a (signup_message cb (agent_public_key a));
          a1 = a\<lparr>agent_seed := Suc (agent_seed a),
                 agent_callbacks := (agent_callbacks a)(cb \<mapsto> SignupCallback)\<rparr>;
          su = \<lparr>su_ip = ''127.0.0.1'', su_public_key = agent_public_key a,
                su_signed_message = sig, su_callback_id = cb\<rparr>
      in if writable then Some (a1\<lparr>agent_out := agent_out a1 @ [Frame ''signup'' (JSignup su)]\<rparr>)
         else None)"

definition handleSignupResponse :: "string \<Rightarrow> string \<Rightarrow> agent \<Rightarrow> agent" where
  "handleSignupResponse vid cb a =
     (case agent_callbacks a cb of
        Some SignupCallback \<Rightarrow>
          a\<lparr>agent_validator_id := vid, agent_callbacks := (agent_callbacks a)(cb := None)\<rparr>
      | None \<Rightarrow> a)"

definition handleValidateRequest :: "string \<Rightarrow> string \<Rightarrow> string \<Rightarrow> agent \<Rightarrow> agent" where
  "handleValidateRequest u cb wid a =
     a\<lparr>agent_probes := agent_probes a @
         [\<lparr>vd_url = u, vd_callback_id = cb, vd_website_id = wid\<rparr>]\<rparr>"

text \<open>\<open>listen\<close>: one frame read from the hub, dispatched by its type.\<close>

fun agent_listen :: "outgoing_message \<Rightarrow> agent \<Rightarrow> agent" where
  "agent_listen (SignupReply vid cb) a = handleSignupResponse vid cb a"
| "agent_listen (ValidateTask u cb wid) a = handleValidateRequest u cb wid a"

definition probe_status :: "http_outcome \<Rightarrow> string" where
  "probe_status r = (if r = HttpStatus 200 then ''Good'' else ''Bad'')"

definition validate_reply :: "agent \<Rightarrow> validate_data \<Rightarrow> http_outcome \<Rightarrow> int \<Rightarrow> validate_incoming" where
  "validate_reply a d r latency =
     \<lparr>vi_callback_id = vd_callback_id d, vi_status = probe_status r, vi_latency = latency,
      vi_validator_id = agent_validator_id a, vi_website_id = vd_website_id d,
      vi_signed_message = agent_sign a (reply_message (vd_callback_id d))\<rparr>"

text \<open>
  \<open>validateWebsite\<close>: the \<open>i\<close>-th running probe ends with outcome \<open>r\<close> after
  \<open>latency\<close> ms, and its reply is written when the connection accepts it. An index
  beyond the running probes names no goroutine: nothing happens.
\<close>

definition validateWebsite :: "nat \<Rightarrow> http_outcome \<Rightarrow> int \<Rightarrow> bool \<Rightarrow> agent \<Rightarrow> agent" where
  "validateWebsite i r latency writable a =
     (if length (agent_probes a) \<le> i then a
      else let d = agent_probes a ! i;
               a1 = a\<lparr>agent_probes := take i (agent_probes a) @ drop (Suc i) (agent_probes a)\<rparr>
           in if writable
              then a1\<lparr>agent_out := agent_out a1 @ [Frame ''validate'' (JValidate (validate_reply a d r latency))]\<rparr>
              else a1)"

datatype agent_event =
    FromHub outgoing_message
  | HubReadError
  | ProbeDone nat http_outcome int bool

fun agent_step :: "agent \<Rightarrow> agent_event \<Rightarrow> agent" where
  "agent_step a (FromHub m) = (if agent_listening a then agent_listen m a else a)"
| "agent_step a HubReadError = a\<lparr>agent_listening := False\<rparr>"
| "agent_step a (ProbeDone i r latency writable) = validateWebsite i r latency writable a"

definition agent_run :: "agent \<Rightarrow> agent_event list \<Rightarrow> agent" where
  "agent_run a es = foldl agent_step a es"

text \<open>The callback ids an agent has been asked to answer, is answering, and has answered.\<close>

fun event_task_cb :: "agent_event \<Rightarrow> string list" where
  "event_task_cb (FromHub (ValidateTask u cb wid)) = [cb]"
| "event_task_cb _ = []"

fun frame_reply_cb :: "frame \<Rightarrow> string list" where
  "frame_reply_cb (Frame t (JValidate vi)) = (if t = ''validate'' then [vi_callback_id vi] else [])"
| "frame_reply_cb _ = []"

definition reply_cbs :: "frame list \<Rightarrow> string list" where
  "reply_cbs fs = concat (map frame_reply_cb fs)"

definition owed :: "agent \<Rightarrow> string multiset" where
  "owed a = mset (map vd_callback_id (agent_probes a)) + mset (reply_cbs (agent_out a))"

section \<open>Lemmas\<close>

lemma mset_remove_at:
  "i < length xs \<Longrightarrow> mset (map f (take i xs @ drop (Suc i) xs)) + {#f (xs ! i)#} = mset (map f xs)"
proof -
  assume "i < length xs"
  then have "xs = take i xs @ xs ! i # drop (Suc i) xs" by (rule id_take_nth_drop)
  then have "mset (map f xs) = mset (map f (take i xs @ xs ! i # drop (Suc i) xs))" by simp
  then show ?thesis by simp
qed

lemma reply_cbs_append [simp]: "reply_cbs (fs @ gs) = reply_cbs fs @ reply_cbs gs"
  by (simp add: reply_cbs_def)

lemma reply_cbs_validate [simp]:
  "reply_cbs [Frame ''validate'' (JValidate vi)] = [vi_callback_id vi]"
  by (simp add: reply_cbs_def)

lemma reply_cbs_signup [simp]: "reply_cbs [Frame ''signup'' (JSignup su)] = []"
  by (simp add: reply_cbs_def)

lemma validateWebsite_owed:
  "owed (validateWebsite i r l w a) \<subseteq># owed a"
proof (cases "i < length (agent_probes a)")
  case True
  let ?P = "mset (map vd_callback_id (agent_probes a))"
  let ?P' = "mset (map vd_callback_id (take i (agent_probes a) @ drop (Suc i) (agent_probes a)))"
  let ?R = "mset (reply_cbs (agent_out a))"
  have m: "?P' + {#vd_callback_id (agent_probes a ! i)#} = ?P"
    using True by (rule mset_remove_at)
  then have sub: "?P' + ?R \<subseteq># ?P + ?R"
    by (metis subset_mset.add_right_mono mset_subset_eq_add_left)
  show ?thesis
  proof (cases w)
    case True
    with \<open>i < length (agent_probes a)\<close> m show ?thesis
      by (simp add: validateWebsite_def owed_def validate_reply_def Let_def ac_simps)
  next
    case False
    with \<open>i < length (agent_probes a)\<close> sub show ?thesis
      by (simp add: validateWebsite_def owed_def Let_def)
  qed
next
  case False
  then show ?thesis by (simp add: validateWebsite_def)
qed

lemma agent_step_owed:
  "owed (agent_step a e) \<subseteq># owed a + mset (event_task_cb e)"
proof (cases e)
  case (FromHub m)
  then show ?thesis
    by (cases m) (auto simp add: owed_def handleSignupResponse_def handleValidateRequest_def
        split: option.splits agent_callback.splits)
next
  case HubReadError
  then show ?thesis by (simp add: owed_def)
next
  case (ProbeDone i r l w)
  then show ?thesis
    using validateWebsite_owed [of i r l w a] by (simp add: subset_mset.add_increasing2)
qed

lemma agent_run_owed:
  "owed (agent_run a es) \<subseteq># owed a + mset (concat (map event_task_cb es))"
proof (induction es rule: rev_induct)
  case Nil
  then show ?case by (simp add: agent_run_def)
next
  case (snoc e es)
  have "owed (agent_run a (es @ [e])) \<subseteq># owed (agent_run a es) + mset (event_task_cb e)"
    using agent_step_owed [of "agent_run a es" e] by (simp add: agent_run_def)
  also have "\<dots> \<subseteq># owed a + mset (concat (map event_task_cb es)) + mset (event_task_cb e)"
    using snoc.IH by (rule subset_mset.add_right_mono)
  finally show ?case by (simp add: ac_simps)
qed

lemma agent_signup_Some:
  "agent_signup True a =
     Some (a\<lparr>agent_seed := Suc (agent_seed a),
             agent_callbacks := (agent_callbacks a)(uuid (agent_seed a) \<mapsto> SignupCallback),
             agent_out := agent_out a @
               [Frame ''signup'' (JSignup \<lparr>su_ip = ''127.0.0.1'', su_public_key = agent_public_key a,
                  su_signed_message = agent_sign a (signup_message (uuid (agent_seed a)) (agent_public_key a)),
                  su_callback_id = uuid (agent_seed a)\<rparr>)]\<rparr>)"
  by (simp add: agent_signup_def Let_def)

section \<open>Properties\<close>

text \<open>
  C22. The agent never answers a task it was not sent, and answers each task at most as
  often as it was sent: from a state with no running probe and no reply written, over
  any run (any interleaving of frames from the hub, read errors and probe completions,
  with any failed writes), the callback ids of the replies written form a sub-multiset
  of the callback ids of the tasks received.
\<close>

theorem agent_replies_answer_tasks:
  assumes "agent_probes a = []" and "reply_cbs (agent_out a) = []"
  shows "mset (reply_cbs (agent_out (agent_run a es))) \<subseteq># mset (concat (map event_task_cb es))"
proof -
  have "mset (reply_cbs (agent_out (agent_run a es))) \<subseteq># owed (agent_run a es)"
    by (simp add: owed_def)
  also have "\<dots> \<subseteq># owed a + mset (concat (map event_task_cb es))" by (rule agent_run_owed)
  finally show ?thesis using assms by (simp add: owed_def)
qed

text \<open>
  When a running probe ends and the write succeeds, the agent writes exactly one
  reply, for that probe's task: its callback id and website id, status \<open>Good\<close> exactly
  on an HTTP 200, the measured latency, the validator id the agent holds at that moment,
  and its signature over \<open>Replying to <callback id>\<close>; the probe is no longer running.
\<close>

theorem validateWebsite_reply:
  assumes "i < length (agent_probes a)" and "agent_probes a ! i = d"
  shows "agent_out (validateWebsite i r l True a) = agent_out a @
           [Frame ''validate'' (JValidate
              \<lparr>vi_callback_id = vd_callback_id d, vi_status = (if r = HttpStatus 200 then ''Good'' else ''Bad''),
               vi_latency = l, vi_validator_id = agent_validator_id a, vi_website_id = vd_website_id d,
               vi_signed_message = agent_sign a (''Replying to '' @ vd_callback_id d)\<rparr>)]
    \<and> mset (agent_probes (validateWebsite i r l True a)) + {#d#} = mset (agent_probes a)"
  using assms mset_remove_at [OF assms(1), of id]
  by (simp add: validateWebsite_def validate_reply_def probe_status_def reply_message_def Let_def)

text \<open>
  The handshake: \<open>signup\<close> writes one signup frame with the agent's key and its
  signature over \<open>Signed message for <callback id>, <key>\<close>; the hub's reply carrying that
  callback id sets the agent's validator id, and any later reply with the same id changes
  nothing.
\<close>

theorem agent_signup_handshake:
  assumes "agent_signup True a = Some a'" and "cb = uuid (agent_seed a)"
  shows "agent_out a' = agent_out a @
           [Frame ''signup'' (JSignup \<lparr>su_ip = ''127.0.0.1'', su_public_key = agent_public_key a,
              su_signed_message = agent_sign a (''Signed message for '' @ cb @ '', '' @ agent_public_key a),
              su_callback_id = cb\<rparr>)]
    \<and> agent_validator_id (handleSignupResponse vid cb a') = vid
    \<and> handleSignupResponse vid' cb (handleSignupResponse vid cb a') = handleSignupResponse vid cb a'"
  using assms by (auto simp add: agent_signup_Some signup_message_def handleSignupResponse_def)

end
