(* ===== verification/System.thy ===== *)
theory System
  imports Agent
begin

text \<open>
  The hub and one validator agent composed over the websocket between them. The
  agent writes frames (\<open>agent_out\<close>) that the hub reads in order on connection
  \<open>c\<close>; the hub writes messages (\<open>sent\<close>, those addressed to \<open>c\<close>) that the agent
  reads in order; two cursors say how far each side has read. Every step of either
  side may interleave with any other: a frame read by the hub, a message read by the
  agent, a probe of the agent ending, and any event of the hub that does not concern
  connection \<open>c\<close> (other validators' frames and disconnects, monitoring rounds). The
  lemmas show that an honest agent's identity and every reply it writes name the row of
  its own public key, so the credit the hub gives for its replies goes to that row.
\<close>

section \<open>The composed system\<close>

record sys =
  sys_hub :: hub
  sys_agent :: agent
  hub_read :: nat
  agent_read :: nat

definition to_agent :: "conn \<Rightarrow> hub \<Rightarrow> outgoing_message list" where
  "to_agent c h = map snd (filter (\<lambda>m. fst m = c) (sent h))"

fun event_conn :: "hub_event \<Rightarrow> conn option" where
  "event_conn (Receive c' fr f) = Some c'"
| "event_conn (ReadFailed c' ks) = Some c'"
| "event_conn (MonitorTick f ks) = None"

datatype sys_event =
    HubReceive fault
  | AgentReceive
  | AgentProbe nat http_outcome int bool
  | HubOther hub_event

fun sys_step :: "conn \<Rightarrow> (conn \<Rightarrow> bool) \<Rightarrow> sys \<Rightarrow> sys_event \<Rightarrow> sys" where
  "sys_step c wr s (HubReceive f) =
     (if hub_read s < length (agent_out (sys_agent s))
      then s\<lparr>sys_hub := hub_step wr (sys_hub s) (Receive c (agent_out (sys_agent s) ! hub_read s) f),
             hub_read := Suc (hub_read s)\<rparr>
      else s)"
| "sys_step c wr s AgentReceive =
     (if agent_read s < length (to_agent c (sys_hub s))
      then s\<lparr>sys_agent := agent_step (sys_agent s) (FromHub (to_agent c (sys_hub s) ! agent_read s)),
             agent_read := Suc (agent_read s)\<rparr>
      else s)"
| "sys_step c wr s (AgentProbe i r l w) =
     s\<lparr>sys_agent := agent_step (sys_agent s) (ProbeDone i r l w)\<rparr>"
| "sys_step c wr s (HubOther e) =
     (if event_conn e = Some c then s else s\<lparr>sys_hub := hub_step wr (sys_hub s) e\<rparr>)"

definition sys_run :: "conn \<Rightarrow> (conn \<Rightarrow> bool) \<Rightarrow> sys \<Rightarrow> sys_event list \<Rightarrow> sys" where
  "sys_run c wr s es = foldl (sys_step c wr) s es"

text \<open>The states reachable from \<open>s0\<close> by any interleaving of the steps.\<close>

inductive sys_reach :: "conn \<Rightarrow> (conn \<Rightarrow> bool) \<Rightarrow> sys \<Rightarrow> sys \<Rightarrow> bool" for c wr s0 where
  sys_reach_init: "sys_reach c wr s0 s0"
| sys_reach_step: "sys_reach c wr s0 s \<Longrightarrow> sys_reach c wr s0 (sys_step c wr s e)"

text \<open>
  The start: a hub with its invariant and nothing yet written to \<open>c\<close>, and an agent
  that has just signed up under key \<open>pk\<close>.
\<close>

definition sys_init :: "hub \<Rightarrow> string \<Rightarrow> (string \<Rightarrow> string) \<Rightarrow> sys option" where
  "sys_init h pk sign =
     map_option (\<lambda>a. \<lparr>sys_hub = h, sys_agent = a, hub_read = 0, agent_read = 0\<rparr>)
       (agent_signup True (NewValidatorClient pk sign))"

section \<open>The invariant\<close>

definition key_id :: "ledger \<Rightarrow> string \<Rightarrow> string option" where
  "key_id d k = map_option validator_id (validator_by_key d k)"

fun frame_ok :: "string \<Rightarrow> string option \<Rightarrow> frame \<Rightarrow> bool" where
  "frame_ok pk kid (Frame t (JSignup su)) = (t = ''signup'' \<and> su_public_key su = pk)"
| "frame_ok pk kid (Frame t (JValidate vi)) =
     (t = ''validate'' \<and> (vi_validator_id vi = [] \<or> kid = Some (vi_validator_id vi)))"
| "frame_ok pk kid _ = False"

definition sys_ok :: "conn \<Rightarrow> string \<Rightarrow> sys \<Rightarrow> bool" where
  "sys_ok c pk s \<longleftrightarrow>
     hub_inv (sys_hub s) \<and> agent_public_key (sys_agent s) = pk
     \<and> (\<forall>vid cb. SignupReply vid cb \<in> set (to_agent c (sys_hub s)) \<longrightarrow>
          key_id (hub_db (sys_hub s)) pk = Some vid)
     \<and> (agent_validator_id (sys_agent s) \<noteq> [] \<longrightarrow>
          key_id (hub_db (sys_hub s)) pk = Some (agent_validator_id (sys_agent s)))
     \<and> (\<forall>fr \<in> set (agent_out (sys_agent s)). frame_ok pk (key_id (hub_db (sys_hub s)) pk) fr)"

section \<open>Identities of keys are stable\<close>

lemma key_id_map_rows:
  "(\<And>v. validator_id (g v) = validator_id v) \<Longrightarrow> (\<And>v. public_key (g v) = public_key v) \<Longrightarrow>
   map_option validator_id (find (\<lambda>v. public_key v = k) (map g vs)) =
     map_option validator_id (find (\<lambda>v. public_key v = k) vs)"
  by (induction vs) auto

lemma key_id_add_pending [simp]: "key_id (add_pending i x d) k = key_id d k"
  by (simp add: key_id_def validator_by_key_def add_pending_def key_id_map_rows)

lemma key_id_ticks [simp]: "key_id (d\<lparr>tick_rows := ts\<rparr>) k = key_id d k"
  by (simp add: key_id_def validator_by_key_def)

lemma key_id_record_tick [simp]: "key_id (record_tick t f d) k = key_id d k"
  using record_tick_cases [of t f d] by auto

lemma key_id_insert_validator:
  "insert_validator v d = Some d' \<Longrightarrow>
   key_id d' k = (if k = public_key v then Some (validator_id v) else key_id d k)"
  by (auto simp add: key_id_def validator_by_key_def find_append_eq
      dest!: insert_validator_Some split: option.splits)

text \<open>Once a key has a row, no handler changes the id that key resolves to.\<close>

definition key_stable :: "string option \<Rightarrow> string option \<Rightarrow> bool" where
  "key_stable kid kid' \<longleftrightarrow> (\<forall>x. kid = Some x \<longrightarrow> kid' = Some x)"

lemma key_stable_refl [simp]: "key_stable kid kid"
  by (simp add: key_stable_def)

lemma handleSignup_key_stable:
  "key_stable (key_id (hub_db h) k) (key_id (hub_db (handleSignup c data f wr h)) k)"
  by (auto simp add: key_stable_def handleSignup_def key_id_insert_validator Let_def
      split: option.splits dest: insert_validator_Some) (auto simp add: key_id_def)

lemma run_callback_key_id [simp]:
  "key_id (hub_db (run_callback cb data f h)) k = key_id (hub_db h) k"
  by (cases cb) (simp add: validate_callback_def Let_def split: option.splits)

lemma handleValidate_key_id [simp]:
  "key_id (hub_db (handleValidate data f h)) k = key_id (hub_db h) k"
  by (simp add: handleValidate_def Let_def split: option.splits)

lemma hub_step_key_stable:
  "key_stable (key_id (hub_db h) k) (key_id (hub_db (hub_step wr h e)) k)"
proof (cases e)
  case (Receive c fr f)
  then show ?thesis
    using handleSignup_key_stable by (cases fr) simp_all
qed simp_all

section \<open>What the hub writes to the agent's connection\<close>

lemma to_agent_append [simp]:
  "to_agent c (h\<lparr>sent := sent h @ ms\<rparr>) = to_agent c h @ map snd (filter (\<lambda>m. fst m = c) ms)"
  by (simp add: to_agent_def)

lemma handleValidate_sent [simp]: "sent (handleValidate data f h) = sent h"
  by (simp add: handleValidate_def Let_def split: option.splits)

lemma monitoring_round_sent:
  "\<exists>ms. sent (monitoring_round f ks wr h) = sent h @ ms \<and> (\<forall>m \<in> set ms. \<exists>u cb w. snd m = ValidateTask u cb w)"
proof -
  have tasks: "\<exists>ms. sent (send_tasks wr ws vs h) = sent h @ ms
      \<and> (\<forall>m \<in> set ms. \<exists>u cb w. snd m = ValidateTask u cb w)" for ws vs
    by (auto simp add: send_tasks_fold dispatch_fold_sent plan_messages_def split: if_splits)
  show ?thesis
  proof (cases "\<not> db_ok f 0 \<or> active_websites (hub_db h) = [] \<or> List.map_filter (validators h) ks = []")
    case True
    then have "monitoring_round f ks wr h = h" by (auto simp add: monitoring_round_def Let_def)
    then show ?thesis by (intro exI [of _ "[]"]) simp
  next
    case False
    then have "monitoring_round f ks wr h =
        send_tasks wr (active_websites (hub_db h)) (List.map_filter (validators h) ks) h"
      by (simp add: monitoring_round_def Let_def)
    with tasks show ?thesis by presburger
  qed
qed

lemma monitoring_round_signup_replies:
  assumes "SignupReply vid cb \<in> set (to_agent c (monitoring_round f ks wr h))"
  shows "SignupReply vid cb \<in> set (to_agent c h)"
proof -
  obtain ms where ms: "sent (monitoring_round f ks wr h) = sent h @ ms"
    and tasks: "\<forall>m \<in> set ms. \<exists>u cb w. snd m = ValidateTask u cb w"
    using monitoring_round_sent by blast
  have "SignupReply vid cb \<notin> snd ` set ms" using tasks by fastforce
  with assms ms show ?thesis by (auto simp add: to_agent_def)
qed

lemma handleSignup_sent:
  "sent (handleSignup c data f wr h) = sent h
   \<or> (\<exists>su vid. decode_signup data = Some su
        \<and> key_id (hub_db (handleSignup c data f wr h)) (su_public_key su) = Some vid
        \<and> sent (handleSignup c data f wr h) =
            sent h @ (if wr c then [(c, SignupReply vid (su_callback_id su))] else []))"
proof (cases "decode_signup data")
  case None
  then show ?thesis by (simp add: handleSignup_def)
next
  case (Some su)
  show ?thesis
  proof (cases "db_ok f 0")
    case False
    with Some show ?thesis by (simp add: handleSignup_def)
  next
    case ok0: True
    show ?thesis
    proof (cases "validator_by_key (hub_db h) (su_public_key su)")
      case (Some v)
      with \<open>decode_signup data = Some su\<close> ok0 show ?thesis
        by (simp add: handleSignup_def register_connection_def key_id_def)
    next
      case None
      let ?v = "\<lparr>validator_id = uuid (seed h), public_key = su_public_key su,
                 location = ''unknown'', ip = su_ip su, pending_payouts = 0\<rparr>"
      show ?thesis
      proof (cases "db_ok f 1 \<and> insert_validator ?v (hub_db h) \<noteq> None")
        case False
        with \<open>decode_signup data = Some su\<close> ok0 None show ?thesis
          by (auto simp add: handleSignup_def Let_def)
      next
        case True
        then obtain d where ins: "insert_validator ?v (hub_db h) = Some d" by blast
        with True \<open>decode_signup data = Some su\<close> ok0 None show ?thesis
          by (simp add: handleSignup_def Let_def register_connection_def key_id_insert_validator)
      qed
    qed
  qed
qed

lemma handleSignup_replies:
  assumes "SignupReply vid cb \<in> set (to_agent c (handleSignup c' data f wr h))"
  shows "SignupReply vid cb \<in> set (to_agent c h)
    \<or> (c' = c \<and> (\<exists>su. decode_signup data = Some su
         \<and> key_id (hub_db (handleSignup c' data f wr h)) (su_public_key su) = Some vid))"
  using handleSignup_sent [of c' data f wr h] assms
  by (auto simp add: to_agent_def split: if_splits)

lemma hub_step_signup_replies:
  assumes "SignupReply vid cb \<in> set (to_agent c (hub_step wr h e))"
  shows "SignupReply vid cb \<in> set (to_agent c h)
    \<or> (\<exists>data f su. e = Receive c (Frame ''signup'' data) f \<and> decode_signup data = Some su
         \<and> key_id (hub_db (hub_step wr h e)) (su_public_key su) = Some vid)"
proof (cases e)
  case (Receive c' fr f)
  show ?thesis
  proof (cases fr)
    case (Frame ty data)
    show ?thesis
    proof (cases "ty = ''signup''")
      case True
      with assms Receive Frame show ?thesis
        using handleSignup_replies [of vid cb c c' data f wr h] by auto
    next
      case False
      with assms Receive Frame show ?thesis by (auto simp add: to_agent_def split: if_splits)
    qed
  next
    case Unparsable
    with assms Receive show ?thesis by simp
  qed
next
  case (ReadFailed c' ks)
  with assms show ?thesis by (simp add: removeValidator_def to_agent_def)
next
  case (MonitorTick f ks)
  with assms show ?thesis by (simp add: monitoring_round_signup_replies)
qed

section \<open>The composed system keeps its invariant\<close>

lemma frame_ok_stable:
  "frame_ok pk kid fr \<Longrightarrow> key_stable kid kid' \<Longrightarrow> frame_ok pk kid' fr"
  by (induction pk kid fr rule: frame_ok.induct) (auto simp add: key_stable_def)

lemma sys_ok_hub_step:
  assumes ok: "sys_ok c pk s"
    and new: "\<And>data f su vid. e = Receive c (Frame ''signup'' data) f \<Longrightarrow> decode_signup data = Some su \<Longrightarrow>
                su_public_key su = pk"
  shows "sys_ok c pk (s\<lparr>sys_hub := hub_step wr (sys_hub s) e\<rparr>)"
proof -
  let ?h = "sys_hub s" and ?h' = "hub_step wr (sys_hub s) e"
  have st: "key_stable (key_id (hub_db ?h) pk) (key_id (hub_db ?h') pk)"
    by (rule hub_step_key_stable)
  have replies: "key_id (hub_db ?h') pk = Some vid" if "SignupReply vid cb \<in> set (to_agent c ?h')" for vid cb
    using hub_step_signup_replies [OF that] ok st new
    by (auto simp add: sys_ok_def key_stable_def)
  show ?thesis
    using ok st replies hub_step_inv [of ?h wr e] frame_ok_stable [OF _ st]
    by (auto simp add: sys_ok_def key_stable_def)
qed

lemma sys_ok_cursors [simp]:
  "sys_ok c pk (s\<lparr>hub_read := n\<rparr>) = sys_ok c pk s"
  "sys_ok c pk (s\<lparr>agent_read := n\<rparr>) = sys_ok c pk s"
  by (simp_all add: sys_ok_def)

lemma frame_ok_signup:
  "frame_ok pk kid (Frame ''signup'' data) \<Longrightarrow> decode_signup data = Some su \<Longrightarrow> su_public_key su = pk"
  by (cases data) auto

lemma sys_ok_agent_listen:
  assumes ok: "sys_ok c pk s" and m: "m \<in> set (to_agent c (sys_hub s))"
  shows "sys_ok c pk (s\<lparr>sys_agent := agent_step (sys_agent s) (FromHub m)\<rparr>)"
proof (cases m)
  case (SignupReply vid cb)
  with ok m have "key_id (hub_db (sys_hub s)) pk = Some vid" by (auto simp add: sys_ok_def)
  with ok SignupReply show ?thesis
    by (auto simp add: sys_ok_def handleSignupResponse_def split: option.splits agent_callback.splits)
next
  case (ValidateTask u cb wid)
  with ok show ?thesis by (simp add: sys_ok_def handleValidateRequest_def)
qed

lemma sys_ok_probe:
  assumes ok: "sys_ok c pk s"
  shows "sys_ok c pk (s\<lparr>sys_agent := agent_step (sys_agent s) (ProbeDone i r l w)\<rparr>)"
  using ok
  by (auto simp add: sys_ok_def validateWebsite_def validate_reply_def Let_def
      dest: in_set_takeD in_set_dropD)

lemma sys_step_ok: "sys_ok c pk s \<Longrightarrow> sys_ok c pk (sys_step c wr s e)"
proof (cases e)
  case (HubReceive f)
  assume ok: "sys_ok c pk s"
  show ?thesis
  proof (cases "hub_read s < length (agent_out (sys_agent s))")
    case True
    then have "frame_ok pk (key_id (hub_db (sys_hub s)) pk) (agent_out (sys_agent s) ! hub_read s)"
      using ok by (simp add: sys_ok_def)
    then have "sys_ok c pk (s\<lparr>sys_hub := hub_step wr (sys_hub s)
                 (Receive c (agent_out (sys_agent s) ! hub_read s) f)\<rparr>)"
      by (intro sys_ok_hub_step [OF ok]) (auto dest: frame_ok_signup)
    with True HubReceive show ?thesis by simp
  next
    case False
    with ok HubReceive show ?thesis by simp
  qed
next
  case AgentReceive
  assume ok: "sys_ok c pk s"
  then show ?thesis
    using AgentReceive sys_ok_agent_listen [OF ok nth_mem] by simp
next
  case (AgentProbe i r l w)
  assume "sys_ok c pk s"
  with AgentProbe show ?thesis using sys_ok_probe by simp
next
  case (HubOther e')
  assume "sys_ok c pk s"
  moreover have "event_conn e' \<noteq> Some c \<Longrightarrow> sys_ok c pk (s\<lparr>sys_hub := hub_step wr (sys_hub s) e'\<rparr>)"
    by (rule sys_ok_hub_step [OF \<open>sys_ok c pk s\<close>]) auto
  ultimately show ?thesis using HubOther by simp
qed

lemma sys_run_reach: "sys_reach c wr s0 (sys_run c wr s0 es)"
proof (induction es rule: rev_induct)
  case Nil
  then show ?case by (simp add: sys_run_def sys_reach_init)
next
  case (snoc e es)
  then show ?case by (simp add: sys_run_def sys_reach_step)
qed

lemma sys_init_ok:
  assumes "hub_inv h" and "to_agent c h = []" and "sys_init h pk sign = Some s0"
  shows "sys_ok c pk s0"
  using assms
  by (auto simp add: sys_init_def agent_signup_Some NewValidatorClient_def sys_ok_def)

lemma handleValidate_pending_other:
  "decode_validate data = Some vi \<Longrightarrow> j \<noteq> vi_validator_id vi \<Longrightarrow>
   pending_of (hub_db (handleValidate data f h)) j = pending_of (hub_db h) j"
proof -
  assume dec: "decode_validate data = Some vi" and j: "j \<noteq> vi_validator_id vi"
  have cb: "pending_of (hub_db (run_callback cb data f h)) j = pending_of (hub_db h) j" for cb
  proof (cases cb)
    case (ValidateCallback wid key)
    let ?t = "\<lparr>tick_id = uuid (seed h), tick_website_id = wid, tick_validator_id = vi_validator_id vi,
               tick_status = vi_status vi, tick_latency = vi_latency vi\<rparr>"
    have "pending_of (record_tick ?t f (hub_db h)) j = pending_of (hub_db h) j"
      using record_tick_cases [of ?t f "hub_db h"] j by (auto simp add: ledger_simps)
    with ValidateCallback dec show ?thesis by (simp add: validate_callback_def Let_def)
  qed
  with dec show ?thesis by (simp add: handleValidate_def Let_def split: option.splits)
qed

lemma sys_reach_ok:
  assumes "hub_inv h" and "to_agent c h = []" and "sys_init h pk sign = Some s0"
    and "sys_reach c wr s0 s"
  shows "sys_ok c pk s"
  using assms(4)
proof (induction rule: sys_reach.induct)
  case sys_reach_init
  show ?case using assms(1-3) by (rule sys_init_ok)
next
  case (sys_reach_step s e)
  from sys_reach_step.IH show ?case by (rule sys_step_ok)
qed

section \<open>Properties\<close>

text \<open>
  C25. In every state the composed system reaches from a hub with its invariant and
  an agent that has just signed up under key \<open>pk\<close>, under any interleaving of the two
  sides, other validators' traffic, monitoring rounds, database faults and failed
  writes: the hub keeps its invariant, and every signup reply in flight to the agent
  and the validator id the agent holds name the id of the row of \<open>pk\<close>.
\<close>

theorem sys_invariant_holds:
  assumes "hub_inv h" and "to_agent c h = []" and "sys_init h pk sign = Some s0"
    and "sys_reach c wr s0 s"
  shows "hub_inv (sys_hub s)
    \<and> (\<forall>vid cb. SignupReply vid cb \<in> set (to_agent c (sys_hub s)) \<longrightarrow>
         key_id (hub_db (sys_hub s)) pk = Some vid)
    \<and> (agent_validator_id (sys_agent s) \<noteq> [] \<longrightarrow>
         key_id (hub_db (sys_hub s)) pk = Some (agent_validator_id (sys_agent s)))"
  using sys_reach_ok [OF assms] by (simp add: sys_ok_def)

text \<open>
  C26. When the hub reads a reply of the honest agent that carries a validator id,
  that id is the id of the row of the agent's own key, and handling the reply changes
  no other validator's balance: an honest agent is credited on its own row, whatever
  the interleaving.
\<close>

theorem honest_reply_credits_own_row:
  assumes "hub_inv h" and "to_agent c h = []" and "sys_init h pk sign = Some s0"
    and "sys_reach c wr s0 s"
    and "hub_read s < length (agent_out (sys_agent s))"
    and "agent_out (sys_agent s) ! hub_read s = Frame t (JValidate vi)"
    and "vi_validator_id vi \<noteq> []"
  shows "key_id (hub_db (sys_hub s)) pk = Some (vi_validator_id vi)
    \<and> (\<forall>j. j \<noteq> vi_validator_id vi \<longrightarrow>
         pending_of (hub_db (sys_hub (sys_step c wr s (HubReceive f)))) j = pending_of (hub_db (sys_hub s)) j)"
proof -
  have ok: "sys_ok c pk s" using assms(1-4) by (rule sys_reach_ok)
  have "frame_ok pk (key_id (hub_db (sys_hub s)) pk) (Frame t (JValidate vi))"
    using ok assms(5,6) nth_mem [OF assms(5)] by (auto simp add: sys_ok_def)
  then have t: "t = ''validate''" and kid: "key_id (hub_db (sys_hub s)) pk = Some (vi_validator_id vi)"
    using assms(7) by auto
  show ?thesis
    using kid assms(5,6) t handleValidate_pending_other [of "JValidate vi" vi] by simp
qed

end
