(* ===== verification/Startup.thy ===== *)
theory Startup
  imports Api System
begin

text \<open>
  The start-up of the three processes: \<open>main\<close> of the API server
  (\<open>src/cmd/api/main.go\<close>, lines 16--114), of the hub (\<open>src/cmd/hub/main.go\<close>,
  lines 322--350) and of the validator agent (\<open>src/cmd/api/main.go\<close>, lines 330--353,
  with \<open>NewValidatorClient\<close> and \<open>Connect\<close>), with \<open>database.Connect\<close> and
  \<open>AutoMigrate\<close> (\<open>src/internal/config/config.go\<close>, lines 55--103) and the payout
  worker's \<open>NewPayoutWorker\<close> and the set-up part of \<open>Start\<close>
  (\<open>src/internal/models/models.go\<close>, lines 114--171). Every call to the outside
  world is an input (\<open>startup_io\<close>); every \<open>log.Fatal\<close> is a value
  \<open>Inl e\<close> of \<open>startup_error\<close> (the process exits); a process that comes up is
  \<open>Inr\<close> of what runs. The worker goroutine's \<open>log.Fatal\<close> ends the whole API
  process, so a worker that cannot start is a start-up failure of the API server.
\<close>

section \<open>The environment at start-up\<close>

record startup_io =
  io_db_open :: bool
  io_db_handle :: bool
  io_migrate :: bool
  io_amqp_dial :: bool
  io_amqp_channel :: bool
  io_keypair :: "string \<Rightarrow> (string \<times> (string \<Rightarrow> string)) option"
  io_queue_declare :: bool
  io_qos :: bool
  io_consume :: bool
  io_listen :: bool
  io_hub_dial :: "string \<Rightarrow> bool"
  io_hub_writable :: bool
  io_queue_exists :: bool

datatype startup_error =
    DatabaseConnectionFailed
  | MigrationFailed
  | RabbitMQConnectionFailed
  | RabbitMQChannelFailed
  | InvalidPlatformKey
  | QueueDeclareFailed
  | QosFailed
  | ConsumeFailed
  | ServerStopped
  | PrivateKeyRequired
  | InvalidValidatorKey
  | HubConnectionFailed

section \<open>Database\<close>

record pool_settings =
  max_idle_conns :: nat
  max_open_conns :: nat
  conn_max_lifetime :: nat

text \<open>\<open>database.Connect\<close>: open, take the pool, configure it (lifetime in seconds).\<close>

definition Connect :: "startup_io \<Rightarrow> string \<Rightarrow> startup_error + pool_settings" where
  "Connect io databaseURL =
     (if \<not> io_db_open io then Inl DatabaseConnectionFailed
      else if \<not> io_db_handle io then Inl DatabaseConnectionFailed
      else Inr \<lparr>max_idle_conns = 10, max_open_conns = 100, conn_max_lifetime = 60 * 60\<rparr>)"

definition AutoMigrate :: "startup_io \<Rightarrow> startup_error + unit" where
  "AutoMigrate io = (if io_migrate io then Inr () else Inl MigrationFailed)"

section \<open>The payout worker\<close>

definition NewPayoutWorker :: "startup_io \<Rightarrow> string \<Rightarrow> startup_error + string" where
  "NewPayoutWorker io platformPrivateKey =
     (case io_keypair io platformPrivateKey of
        None \<Rightarrow> Inl InvalidPlatformKey
      | Some (pk, sign) \<Rightarrow> Inr pk)"

text \<open>The set-up of \<open>Start\<close>: declare the durable queue, prefetch 1, consume.\<close>

definition Start_setup :: "startup_io \<Rightarrow> startup_error + unit" where
  "Start_setup io =
     (if \<not> io_queue_declare io then Inl QueueDeclareFailed
      else if \<not> io_qos io then Inl QosFailed
      else if \<not> io_consume io then Inl ConsumeFailed
      else Inr ())"

section \<open>The API server\<close>

record api_process =
  ap_config :: config
  ap_pool :: pool_settings
  ap_worker :: "string option"
  ap_queue_declared :: bool

text \<open>
  \<open>main\<close> of the API server: the worker runs, with the platform wallet's public key,
  only when \<open>PLATFORM_PRIVATE_KEY\<close> is set; then the router serves on
  \<open>cfg.Port\<close> until \<open>r.Run\<close> fails. Only the worker's \<open>Start\<close> declares
  \<open>payout_queue\<close>; the queue is durable, so it exists on the broker when a worker
  declared it now or in an earlier run (\<open>io_queue_exists\<close>), and not otherwise
  (\<open>ap_queue_declared\<close>).
\<close>

definition api_main :: "(string \<rightharpoonup> string) \<Rightarrow> startup_io \<Rightarrow> startup_error + api_process" where
  "api_main env io =
     (let cfg = Load env in
      case Connect io (DatabaseURL cfg) of
        Inl e \<Rightarrow> Inl e
      | Inr pool \<Rightarrow>
          if AutoMigrate io \<noteq> Inr () then Inl MigrationFailed
          else if \<not> io_amqp_dial io then Inl RabbitMQConnectionFailed
          else if \<not> io_amqp_channel io then Inl RabbitMQChannelFailed
          else let worker =
                 (if PlatformPrivateKey cfg \<noteq> []
                  then (case NewPayoutWorker io (PlatformPrivateKey cfg) of
                          Inl e \<Rightarrow> Inl e
                        | Inr pk \<Rightarrow> (case Start_setup io of Inl e \<Rightarrow> Inl e | Inr u \<Rightarrow> Inr (Some pk)))
                  else Inr None)
               in case worker of
                    Inl e \<Rightarrow> Inl e
                  | Inr w \<Rightarrow> if \<not> io_listen io then Inl ServerStopped
                             else Inr \<lparr>ap_config = cfg, ap_pool = pool, ap_worker = w,
                                       ap_queue_declared = (io_queue_exists io \<or> w \<noteq> None)\<rparr>)"

section \<open>The hub\<close>

definition hub_main :: "(string \<rightharpoonup> string) \<Rightarrow> startup_io \<Rightarrow> ledger \<Rightarrow> startup_error + hub" where
  "hub_main env io d =
     (let cfg = Load env in
      case Connect io (DatabaseURL cfg) of
        Inl e \<Rightarrow> Inl e
      | Inr pool \<Rightarrow>
          (case AutoMigrate io of
             Inl e \<Rightarrow> Inl e
           | Inr u \<Rightarrow> if \<not> io_listen io then Inl ServerStopped else Inr (new_hub d)))"

section \<open>The validator agent\<close>

text \<open>
  \<open>ValidatorClient.Connect\<close>: dial the hub, start the listener, sign up; a failed
  dial or a failed write of the signup frame is the error \<open>main\<close> dies of.
\<close>

definition validator_Connect :: "startup_io \<Rightarrow> string \<Rightarrow> agent \<Rightarrow> startup_error + agent" where
  "validator_Connect io hubURL a =
     (if \<not> io_hub_dial io hubURL then Inl HubConnectionFailed
      else case agent_signup (io_hub_writable io) a of
        None \<Rightarrow> Inl HubConnectionFailed
      | Some a' \<Rightarrow> Inr a')"

definition validator_main :: "(string \<rightharpoonup> string) \<Rightarrow> startup_io \<Rightarrow> startup_error + agent" where
  "validator_main env io =
     (let cfg = Load env;
          privateKey = (case env ''PRIVATE_KEY'' of Some k \<Rightarrow> k | None \<Rightarrow> [])
      in if privateKey = [] then Inl PrivateKeyRequired
         else case io_keypair io privateKey of
           None \<Rightarrow> Inl InvalidValidatorKey
         | Some (pk, sign) \<Rightarrow>
             validator_Connect io (HubURL cfg) (NewValidatorClient pk sign))"

section \<open>Lemmas\<close>

lemma api_main_worker:
  "api_main env io = Inr p \<Longrightarrow>
   ap_worker p = None \<longleftrightarrow> PlatformPrivateKey (Load env) = []"
  by (auto simp add: api_main_def Let_def NewPayoutWorker_def Start_setup_def
      split: sum.splits option.splits if_splits)

lemma api_main_queue:
  "api_main env io = Inr p \<Longrightarrow> ap_queue_declared p \<longleftrightarrow> io_queue_exists io \<or> ap_worker p \<noteq> None"
  by (auto simp add: api_main_def Let_def split: sum.splits option.splits if_splits)

lemma hub_main_Inr: "hub_main env io d = Inr h \<Longrightarrow> h = new_hub d"
  by (auto simp add: hub_main_def Let_def split: sum.splits if_splits)

lemma validator_main_Inr:
  "validator_main env io = Inr a \<Longrightarrow>
   \<exists>pk sign. io_keypair io (the (env ''PRIVATE_KEY'')) = Some (pk, sign)
     \<and> agent_signup True (NewValidatorClient pk sign) = Some a"
  by (auto simp add: validator_main_def validator_Connect_def Let_def agent_signup_def
      split: option.splits if_splits prod.splits)

text \<open>
  A hub and a validator agent that both came up form the initial state of the
  composed system of \<open>System\<close>; from there every reachable state keeps
  \<open>sys_ok\<close>, provided the hub's ledger satisfies the hub invariant.
\<close>

lemma started_system_ok:
  assumes "hub_main env io d = Inr h" and "validator_main env' io' = Inr a"
    and "hub_inv (new_hub d)"
  obtains pk sign where "sys_init h pk sign = Some \<lparr>sys_hub = h, sys_agent = a, hub_read = 0, agent_read = 0\<rparr>"
    and "\<And>c wr s. sys_reach c wr \<lparr>sys_hub = h, sys_agent = a, hub_read = 0, agent_read = 0\<rparr> s \<Longrightarrow> sys_ok c pk s"
proof -
  from validator_main_Inr [OF assms(2)] obtain pk sign
    where "agent_signup True (NewValidatorClient pk sign) = Some a" by blast
  then have init: "sys_init h pk sign = Some \<lparr>sys_hub = h, sys_agent = a, hub_read = 0, agent_read = 0\<rparr>"
    by (simp add: sys_init_def)
  have h: "h = new_hub d" by (rule hub_main_Inr [OF assms(1)])
  have "to_agent c h = []" for c by (simp add: h to_agent_def new_hub_def)
  with assms(3) h init have "sys_reach c wr \<lparr>sys_hub = h, sys_agent = a, hub_read = 0, agent_read = 0\<rparr> s
      \<Longrightarrow> sys_ok c pk s" for c wr s
    by (blast intro: sys_reach_ok)
  with init that show ?thesis by blast
qed

section \<open>Properties\<close>

text \<open>
  C24. Payouts are lost without a worker: when \<open>PLATFORM_PRIVATE_KEY\<close> is unset and
  no earlier worker declared \<open>payout_queue\<close>, the API server still comes up, with no
  payout worker and no queue. A payout request for a validator with a positive
  balance is answered \<open>Queued\<close> and zeroes the balance, but the broker drops the
  unroutable message: the queue is unchanged and the lamports are paid to no one.
\<close>

theorem payouts_lost_without_worker:
  assumes "api_main env io = Inr p" and "env ''PLATFORM_PRIVATE_KEY'' = None"
    and "\<not> io_queue_exists io" and "srv_queue_declared s = ap_queue_declared p"
    and "validator_by_id (srv_db s) vid = Some v" and "0 < pending_payouts v"
    and "vid \<noteq> []" and "CHR ''/'' \<notin> set vid"
  shows "ap_worker p = None \<and> \<not> ap_queue_declared p
    \<and> serve (ap_config p) \<lparr>env_fault = None, env_publish_ok = True, env_hash_ok = hk, env_now = t\<rparr>
        \<lparr>rq_method = POST, rq_path = ''/api/v1/payout/'' @ vid, rq_header = hdr, rq_websiteId = q, rq_body = b\<rparr> s
      = (PayoutResp (Inr (Queued (pending_payouts v))), s\<lparr>srv_db := set_pending vid 0 (srv_db s)\<rparr>)"
proof -
  have "PlatformPrivateKey (Load env) = []"
    using assms(2) by (simp add: Load_def getEnv_unset)
  with api_main_worker [OF assms(1)] have w: "ap_worker p = None" by simp
  with api_main_queue [OF assms(1)] assms(3) have nq: "\<not> ap_queue_declared p" by simp
  have rp: "RequestPayout vid None True \<lparr>api_db = srv_db s, payout_queue = srv_queue s\<rparr> =
      (Inr (Queued (pending_payouts v)),
       \<lparr>api_db = set_pending vid 0 (srv_db s), payout_queue = srv_queue s @ [payout_request_of v]\<rparr>)"
    using RequestPayout_after_publish [of None "\<lparr>api_db = srv_db s, payout_queue = srv_queue s\<rparr>" vid v]
      assms(5,6) by simp
  have "serve (ap_config p) \<lparr>env_fault = None, env_publish_ok = True, env_hash_ok = hk, env_now = t\<rparr>
        \<lparr>rq_method = POST, rq_path = ''/api/v1/payout/'' @ vid, rq_header = hdr, rq_websiteId = q, rq_body = b\<rparr> s
      = (PayoutResp (Inr (Queued (pending_payouts v))), s\<lparr>srv_db := set_pending vid 0 (srv_db s)\<rparr>)"
    using payout_route_public [OF assms(7,8)] rp assms(4) nq by simp
  with w nq show ?thesis by simp
qed

end
