(* ===== verification/Spec2Isabelle.thy ===== *)
theory Spec2Isabelle
  imports Correlation ApiDocs Startup
begin

text \<open>
  \<^bold>\<open>A verification model of goper-uptime-decent.\<close>

  The repository is an uptime monitor paid in lamports. A hub (\<open>src/cmd/hub/main.go\<close>)
  keeps a websocket to every validator agent, sends each active website to each
  connected validator once a minute, and, when a validator replies, records a tick and
  credits the validator \<open>COST_PER_VALIDATION\<close> in one database transaction. A
  validator agent (\<open>src/cmd/api/main.go\<close>, lines 116--352) signs up, probes the URLs
  it is sent and replies. The HTTP API (\<open>src/internal/handlers/user/handler.go\<close>)
  turns a validator's pending balance into a message on a RabbitMQ queue and zeroes
  it; the payout worker (\<open>src/internal/models/models.go\<close>, lines 83--348) executes
  the Solana transfer, polls for finality and records the outcome. All components
  share the relational store of \<open>models.go\<close> (lines 1--82).

  \<^bold>\<open>Theories.\<close>
  \<^item> \<open>Prelude\<close>: type names, database faults as an input (\<open>fault\<close>: which database
    call of a handler fails), \<open>uuid.New()\<close> as a counter printed in decimal (with its
    parse/print round trip, so fresh ids are distinct), Go map iteration order as an
    input list.
  \<^item> \<open>Ledger\<close>: the tables as lists of rows and the SQL operations the core uses, with
    primary keys, the unique index on public keys and the tick foreign keys enforced.
  \<^item> \<open>Hub\<close>: the hub's state (\<open>hub\<close>: ledger, registry, callback table, messages
    written, uuid counter), one definition per handler (\<open>handleSignup\<close>,
    \<open>handleValidate\<close>, \<open>removeValidator\<close>, a round of \<open>startMonitoring\<close> as
    \<open>monitoring_round\<close>, the closure of \<open>createValidateCallback\<close> as
    \<open>validate_callback\<close>/\<open>record_tick\<close>), and the read loop as \<open>hub_step\<close>/\<open>hub_run\<close>.
    Its lemmas: every handler keeps \<open>hub_inv\<close>; no handler changes \<open>withdrawn\<close>
    (earned minus pending), so from an empty ledger pending balance is exactly the reward
    times the tick count (C1); the callback transaction is atomic (C2); a reply id is
    handled at most once by one read loop (C3); a monitoring round refines the flat
    dispatch plan \<open>plan_callbacks\<close>/\<open>plan_messages\<close> over \<open>List.product\<close> of websites
    and validators (C16) and is a no-op on its three early exits. Findings: a
    reply credits the validator it names, not the one asked (C18); signup signatures are
    never read (C19); a disconnect leaves a stale entry when a connection holds two
    identities (C20), and removes exactly the entry otherwise (C21).
  \<^item> \<open>Payout\<close>: \<open>RequestPayout\<close> of \<open>handler.go\<close> on an \<open>api_state\<close> (ledger and
    the list of messages on \<open>payout_queue\<close>), every branch an \<open>api_error + payout_response\<close>
    value; its lemmas give each branch (C5, C6), conservation of pending plus queued
    (C7) and the publish-before-zero window (C8).
  \<^item> \<open>Worker\<close>: \<open>processPayoutRequest\<close>, \<open>executeSolanaTransfer\<close> and
    \<open>waitForConfirmation\<close> of the payout worker, with the Solana RPC as an input
    record \<open>solana_rpc\<close>; the confirmation loop is \<open>wait_polls\<close> with fuel 15 (C9),
    and the lemmas cover the refund on a failed submission (C10), completion (C11) and
    the divergences in C12--C15.
  \<^item> \<open>Correlation\<close>: \<open>handleValidate\<close> split into its three critical sections
    (lookup under the read lock, the handler outside any lock, delete under the write
    lock), one program counter per read loop (\<open>corr_step\<close>/\<open>corr_run\<close>). Run
    alone, the steps are the atomic \<open>handleValidate\<close> (\<open>handleValidate_steps\<close>);
    interleaved across two connections, one callback id runs its handler twice (C17).
  \<^item> \<open>Agent\<close>: the validator client \<open>ValidatorClient\<close> of \<open>src/cmd/api/main.go\<close>
    (\<open>signup\<close>, \<open>listen\<close>, \<open>handleSignupResponse\<close>, \<open>handleValidateRequest\<close>,
    \<open>validateWebsite\<close>): running probe goroutines are a list, ended by events that
    carry the HTTP outcome and the latency; a run is \<open>agent_run\<close>. Its lemmas: replies
    answer received tasks, each at most once (C22, a multiset invariant over any run);
    the reply's content and the signup handshake.
  \<^item> \<open>System\<close>: the hub and one agent composed over their websocket, two FIFO
    channels read through cursors, with every interleaving of the two sides and of the
    hub's other traffic (\<open>sys_step\<close>, reachability \<open>sys_reach\<close> as an inductive
    relation). Its lemmas: the invariant \<open>sys_ok\<close> holds in every reachable state
    (C25), so the credit for an honest agent's reply goes to the row of its own key
    (C26); the divergence of C18 needs a dishonest agent.
  \<^item> \<open>Jwt\<close>: \<open>Load\<close>/\<open>getEnv\<close> of \<open>config.go\<close>, \<open>GenerateJWT\<close> and \<open>VerifyJWT\<close>
    of \<open>jwt.go\<close> (ideal HMAC, the \<open>jwt/v5\<close> default time checks) and
    \<open>AuthMiddleware\<close>: token round trip and lifetime (C27), authentication only by the
    server secret (C28), the secret written in the source accepted when
    \<open>JWT_SECRET\<close> is unset (C29).
  \<^item> \<open>UserApi\<close>: \<open>Signup\<close>, \<open>Login\<close> and \<open>GetValidatorBalance\<close> of the user handler
    over the \<open>User\<close> table: signup/login round trip (C30), unique ids and emails
    (C31), tokens only for matching credentials (C32).
  \<^item> \<open>Websites\<close>: the website handlers behind the protected routes: deletes only by
    the owner, a deleted website is no longer monitored by the hub (C33, across
    the shared ledger), create/status round trip (C34). The listing preloads ticks with
    one query whose \<open>Limit(100)\<close> is global (\<open>preload_ticks\<close>, then \<open>ticks_for\<close>
    per website), so at most 100 ticks are listed in all (C35), and a website checked
    less recently than another site's last 100 ticks is listed with none (C38, a
    finding); the status page takes a site's own 100 latest (\<open>latest_ticks\<close>).
  \<^item> \<open>Settlement\<close>: \<open>RequestPayout\<close> and the payout worker composed over the
    shared ledger and \<open>payout_queue\<close> (\<open>settle_step\<close>/\<open>settle_run\<close>, each request
    and each delivery atomic, in any order), and the consumer loop of \<open>Start\<close> as
    \<open>consume\<close>. What a validator is owed is \<open>holdings\<close>: its pending balance, its
    queued requests and its payout rows that were not refunded (\<open>counted\<close>: not failed
    before a signature). Its lemmas: with a healthy database every interleaving keeps
    each validator's holdings (C36); deliveries drain the queue, one payout row per
    request, when the rows exist and the payout ids are fresh (C37).
  \<^item> \<open>Api\<close>: the API server of \<open>src/cmd/api/main.go\<close>: the Gin route table
    \<open>api_routes\<close> with its protected group, path matching (\<open>split_path\<close>,
    \<open>seg_match\<close>, \<open>route_request\<close>) and one request through router, middleware
    and handler (\<open>serve\<close>/\<open>run_endpoint\<close>) over the server state (ledger, queue,
    \<open>User\<close> table, whether \<open>payout_queue\<close> exists on the broker). A publish to an
    undeclared queue (\<open>mandatory = false\<close>) is dropped without an error. Its lemmas:
    the table has no conflicting routes, so the first-match router is the declarative
    one; a user's websites change only by a request authenticated as that user (C39);
    the payout route is public.
  \<^item> \<open>ApiDocs\<close>: the repository's API documentation (\<open>src/unnamed/part_000\<close>)
    as a table \<open>documented_api\<close> of endpoints (method, URL, authentication, success
    status), and the status of every response (\<open>api_status\<close>). The server refines
    the documentation: a successful answer comes from a documented endpoint with the
    documented status and authentication (C23).
  \<^item> \<open>Startup\<close>: \<open>main\<close> of the API server, the hub and the validator agent,
    \<open>database.Connect\<close>/\<open>AutoMigrate\<close>, \<open>NewPayoutWorker\<close> and the set-up of
    \<open>Start\<close>, every external call an input and every \<open>log.Fatal\<close> an
    \<open>Inl\<close> of \<open>startup_error\<close>. A hub and an agent that came up form the
    initial state of \<open>System\<close> (\<open>started_system_ok\<close>); without
    \<open>PLATFORM_PRIVATE_KEY\<close> the API server runs with no payout worker, so nothing
    declares \<open>payout_queue\<close> (unless an earlier worker did): its public payout route
    answers \<open>Queued\<close> and zeroes the balance while the broker drops the message (C24).
  \<^item> This theory: the header, example data from the specification's scenarios and the
    witnesses of the claims.

  \<^bold>\<open>Environment and bounds.\<close> Database failures, failed websocket writes, the order of
  map iteration, RabbitMQ publishing and Solana RPC results are inputs of the handlers,
  so each theorem covers every behaviour of the environment. The monitoring loop's
  60-second ticker is an event; the payout worker's confirmation loop (a 2-second
  ticker under a 30-second context) is bounded by its 15 polls.

  \<^bold>\<open>Plan.\<close> Modelled: Ledger, Hub, Payout, Worker, Agent, System, Jwt, UserApi,
  Websites, Settlement, Api, Correlation, ApiDocs, Startup. Next: the whole system in
  one interleaving (hub rewards feeding the settlement path), with a bound of the
  lamports transferred by the total reward earned.

  \<^bold>\<open>Not modelled.\<close> The CORS middleware (response headers only; its source is not
  among the files) and Gin's trailing-slash redirects; \<open>godotenv.Load\<close> (the
  environment is taken after the optional \<open>.env\<close> file), logging, and the bodies of
  the driver calls behind \<open>database.Connect\<close>, the RabbitMQ dial and the HTTP
  listeners, whose outcomes are inputs; the React front end (\<open>src/web\<close>), a
  presentation layer with no state of the system; JSON encoding beyond which fields a
  decoded object carries; cryptography, which is ideal: agent signatures are opaque
  strings (the hub never verifies them), HMAC and bcrypt are free constructors, a
  Solana key parses or not (an input); the e-mail and URL format validators of request
  binding, whose verdict is an input.
\<close>

section \<open>Example data\<close>

definition example_ledger :: ledger where
  "example_ledger = empty_ledger\<lparr>website_rows :=
     [\<lparr>website_id = ''T1'', url = ''https://t1.example'', user_id = ''U1'', disabled = False\<rparr>]\<rparr>"

definition example_signup :: signup_incoming where
  "example_signup = \<lparr>su_ip = ''127.0.0.1'', su_public_key = ''PK1'',
     su_signed_message = ''sig-signup'', su_callback_id = ''c0''\<rparr>"

definition example_reply :: validate_incoming where
  "example_reply = \<lparr>vi_callback_id = uuid 1, vi_status = ''Good'', vi_latency = 120,
     vi_validator_id = uuid 0, vi_website_id = ''T1'', vi_signed_message = ''sig-reply''\<rparr>"

text \<open>
  The specification's first scenario: \<open>V1\<close> signs up (it becomes row \<open>uuid 0\<close>),
  one monitoring round sends \<open>T1\<close> to it under callback \<open>uuid 1\<close>, and it replies
  \<open>Good\<close> with latency 120.
\<close>

definition example_events :: "hub_event list" where
  "example_events =
     [Receive 1 (Frame ''signup'' (JSignup example_signup)) None,
      MonitorTick None [uuid 0],
      Receive 1 (Frame ''validate'' (JValidate example_reply)) None]"

definition example_hub :: hub where
  "example_hub = hub_run (\<lambda>_. True) (new_hub example_ledger) example_events"

definition example_row :: validator where
  "example_row = \<lparr>validator_id = uuid 0, public_key = ''PK1'', location = ''unknown'',
     ip = ''127.0.0.1'', pending_payouts = 100\<rparr>"


text \<open>
  The settlement examples: \<open>V1\<close>'s row with balance 100, and Solana environments
  in which the send fails, the transfer is finalized, finalized with an error, or
  confirmed with an error.
\<close>

definition example_api :: api_state where
  "example_api = \<lparr>api_db = example_ledger\<lparr>validator_rows := [example_row]\<rparr>, payout_queue = []\<rparr>"

definition example_request :: payout_request where
  "example_request = \<lparr>req_validator_id = uuid 0, req_amount = 100, req_public_key = ''PK1''\<rparr>"

definition example_worker :: worker_state where
  "example_worker = \<lparr>w_db = example_ledger\<lparr>validator_rows := [example_row\<lparr>pending_payouts := 0\<rparr>]\<rparr>,
     w_seed = 0, submitted = []\<rparr>"

definition rpc_with :: "string option \<Rightarrow> poll_result \<Rightarrow> solana_rpc" where
  "rpc_with snd_result answer = \<lparr>rpc_key_valid = (\<lambda>_. True), rpc_blockhash_ok = True,
     rpc_build_ok = True, rpc_sign_ok = True, rpc_send = snd_result, rpc_polls = (\<lambda>_. answer)\<rparr>"

text \<open>
  The registry examples: a hub whose ledger has \<open>V1\<close> (row \<open>uuid 0\<close>, key \<open>PK1\<close>) and
  \<open>V2\<close> (row \<open>uuid 1\<close>, key \<open>PK2\<close>), with \<open>V1\<close> connected on connection 1.
\<close>

definition example_site :: website where
  "example_site = \<lparr>website_id = ''T1'', url = ''https://t1.example'', user_id = ''U1'', disabled = False\<rparr>"

definition example_vc :: validator_connection where
  "example_vc = \<lparr>vc_validator_id = uuid 0, vc_public_key = ''PK1'', vc_conn = 1\<rparr>"

definition example_two :: hub where
  "example_two = (new_hub (example_ledger\<lparr>validator_rows :=
       [example_row, example_row\<lparr>validator_id := uuid 1, public_key := ''PK2''\<rparr>]\<rparr>))
     \<lparr>validators := [uuid 0 \<mapsto> example_vc], seed := 2\<rparr>"

text \<open>The agent example: \<open>V1\<close>'s agent with key \<open>PK1\<close> and a signing function.\<close>

definition example_agent :: agent where
  "example_agent = NewValidatorClient ''PK1'' (\<lambda>m. ''sig:'' @ m)"

definition example_agent_events :: "agent_event list" where
  "example_agent_events =
     [FromHub (SignupReply (uuid 0) (uuid 0)),
      FromHub (ValidateTask ''https://t1.example'' (uuid 1) ''T1''),
      ProbeDone 0 (HttpStatus 200) 120 True,
      ProbeDone 0 (HttpStatus 200) 130 True]"

text \<open>
  The composed example: \<open>V1\<close>'s agent (key \<open>PK1\<close>, row \<open>uuid 0\<close>) connects on
  connection 3 to the registry example, signs up, receives its id, is sent \<open>T1\<close> by a
  monitoring round and answers it.
\<close>

definition example_sys :: sys where
  "example_sys = \<lparr>sys_hub = example_two, sys_agent = the (agent_signup True example_agent),
     hub_read = 0, agent_read = 0\<rparr>"

definition example_sys_events :: "sys_event list" where
  "example_sys_events =
     [HubReceive None, AgentReceive, HubOther (MonitorTick None [uuid 0]), AgentReceive,
      AgentProbe 0 (HttpStatus 200) 120 True]"

text \<open>
  The API examples: an empty user table and Alice's signup; the website table with
  \<open>T1\<close> of user \<open>U1\<close> and \<open>T2\<close> of user \<open>U2\<close>; the server secret \<open>k\<close>.
\<close>

definition example_store :: user_store where
  "example_store = \<lparr>users = [], api_seed = 0\<rparr>"

definition example_user_req :: signup_request where
  "example_user_req = \<lparr>req_email = ''alice@example.com'', req_password = ''password123'', email_valid = True\<rparr>"

definition example_site2 :: website where
  "example_site2 = \<lparr>website_id = ''T2'', url = ''https://t2.example'', user_id = ''U2'', disabled = False\<rparr>"

definition example_sites :: ledger where
  "example_sites = example_ledger\<lparr>website_rows := [example_site, example_site2]\<rparr>"

text \<open>
  The listing example: \<open>U1\<close> owns both \<open>T1\<close> and \<open>T2\<close>; \<open>T1\<close> was checked once,
  and \<open>T2\<close> a hundred times since.
\<close>

definition example_tick :: "string \<Rightarrow> website_tick" where
  "example_tick wid = \<lparr>tick_id = ''K'' @ wid, tick_website_id = wid, tick_validator_id = uuid 0,
     tick_status = ''Good'', tick_latency = 20\<rparr>"

definition example_starve :: ledger where
  "example_starve = example_ledger\<lparr>website_rows := [example_site, example_site2\<lparr>user_id := ''U1''\<rparr>],
     tick_rows := [example_tick ''T1''] @ replicate 100 (example_tick ''T2'')\<rparr>"

text \<open>
  The settlement example: \<open>V1\<close>'s row with balance 100 and an empty queue; the API
  queues the balance and the worker's send fails, so the amount is refunded.
\<close>

definition example_settle :: settlement where
  "example_settle = \<lparr>st_db = api_db example_api, st_queue = [], st_seed = 0, st_submitted = []\<rparr>"

definition example_settle_events :: "settlement_event list" where
  "example_settle_events = [ApiRequest (uuid 0) None True, WorkerDelivery None (rpc_with None NoStatus)]"

text \<open>
  The API server example: the two websites of \<open>example_sites\<close>, no user, an empty
  queue, the default configuration, and a request of \<open>U1\<close> with a token issued at
  time 0 that creates a website.
\<close>

definition example_server :: server where
  "example_server = \<lparr>srv_db = example_sites, srv_queue = [], srv_users = example_store, srv_web_seed = 0,
     srv_queue_declared = True\<rparr>"

definition example_env :: req_env where
  "example_env = \<lparr>env_fault = None, env_publish_ok = True, env_hash_ok = True, env_now = 0\<rparr>"

definition example_create_rq :: api_request where
  "example_create_rq = \<lparr>rq_method = POST, rq_path = ''/api/v1/website'',
     rq_header = Authorization ''Bearer '' (GenerateJWT ''U1'' (JWTSecret (Load Map.empty)) 0),
     rq_websiteId = [], rq_body = WebsiteBody ''https://t3.example'' True\<rparr>"

text \<open>
  The correlation example: \<open>V1\<close>'s row with balance 0, and the handler of callback
  \<open>uuid 1\<close> for \<open>T1\<close> registered; the reply \<open>example_reply\<close> arrives on
  connections 1 and 2.
\<close>

definition example_corr :: corr where
  "example_corr = \<lparr>corr_hub = (new_hub (example_ledger\<lparr>validator_rows := [example_row\<lparr>pending_payouts := 0\<rparr>]\<rparr>))
       \<lparr>callbacks := [uuid 1 \<mapsto> ValidateCallback ''T1'' ''PK1''], seed := 2\<rparr>,
     loops = (\<lambda>_. HvIdle)\<rparr>"

text \<open>
  The start-up example: every call to the outside world succeeds, every key parses,
  and \<open>PLATFORM_PRIVATE_KEY\<close> is unset; the API server then runs without a worker
  over \<open>V1\<close>'s row with balance 100.
\<close>

definition example_io :: startup_io where
  "example_io = \<lparr>io_db_open = True, io_db_handle = True, io_migrate = True, io_amqp_dial = True,
     io_amqp_channel = True, io_keypair = (\<lambda>k. Some (''PK1'', \<lambda>m. ''sig'')), io_queue_declare = True,
     io_qos = True, io_consume = True, io_listen = True, io_hub_dial = (\<lambda>u. True), io_hub_writable = True,
     io_queue_exists = False\<rparr>"

definition example_proc :: api_process where
  "example_proc = \<lparr>ap_config = Load Map.empty,
     ap_pool = \<lparr>max_idle_conns = 10, max_open_conns = 100, conn_max_lifetime = 3600\<rparr>, ap_worker = None,
     ap_queue_declared = False\<rparr>"

definition example_payout_server :: server where
  "example_payout_server = \<lparr>srv_db = api_db example_api, srv_queue = [], srv_users = example_store, srv_web_seed = 0,
     srv_queue_declared = False\<rparr>"

section \<open>Evaluation of the examples\<close>

lemmas example_defs = example_ledger_def example_signup_def example_reply_def
  example_events_def example_hub_def example_row_def example_api_def example_request_def
  example_worker_def rpc_with_def empty_ledger_def example_site_def example_vc_def example_two_def
  example_agent_def example_agent_events_def NewValidatorClient_def
  example_sys_def example_sys_events_def
  example_store_def example_user_req_def example_site2_def example_sites_def
  example_tick_def example_starve_def
  example_settle_def example_settle_events_def
  example_server_def example_env_def example_create_rq_def example_corr_def
  example_io_def example_proc_def example_payout_server_def

lemma example_hub_db:
  "hub_db example_hub =
     example_ledger\<lparr>validator_rows := [example_row],
       tick_rows := [\<lparr>tick_id = uuid 2, tick_website_id = ''T1'', tick_validator_id = uuid 0,
                      tick_status = ''Good'', tick_latency = 120\<rparr>]\<rparr>"
  by (simp add: example_defs hub_eval)

lemma example_hub_callbacks: "callbacks example_hub = Map.empty"
  by (simp add: example_defs hub_eval)

section \<open>Witnesses\<close>

theorem pending_equals_reward_count_witness:
  "validator_rows example_ledger = [] \<and> tick_rows example_ledger = []
   \<and> validator_by_id (hub_db (hub_run (\<lambda>_. True) (new_hub example_ledger) example_events)) (uuid 0)
       = Some example_row
   \<and> pending_payouts example_row =
       COST_PER_VALIDATION * int (ticks_of (hub_db (hub_run (\<lambda>_. True) (new_hub example_ledger) example_events)) (uuid 0))"
proof -
  have e1: "validator_rows example_ledger = []" and e2: "tick_rows example_ledger = []"
    by (simp_all add: example_ledger_def empty_ledger_def)
  have e3: "validator_by_id (hub_db (hub_run (\<lambda>_. True) (new_hub example_ledger) example_events)) (uuid 0)
       = Some example_row"
    using example_hub_db by (simp add: example_hub_def validator_by_id_def example_row_def)
  show ?thesis
    using e1 e2 e3 Hub.pending_equals_reward_count [OF e1 e2 e3] by simp
qed

theorem handleValidate_once_witness:
  "decode_validate (JValidate example_reply) = Some example_reply
   \<and> callbacks (new_hub example_ledger\<lparr>callbacks := [uuid 1 \<mapsto> ValidateCallback ''T1'' ''PK1'']\<rparr>)
       (vi_callback_id example_reply) = Some (ValidateCallback ''T1'' ''PK1'')
   \<and> handleValidate (JValidate example_reply) None
       (handleValidate (JValidate example_reply) None
         (new_hub example_ledger\<lparr>callbacks := [uuid 1 \<mapsto> ValidateCallback ''T1'' ''PK1'']\<rparr>))
     = handleValidate (JValidate example_reply) None
         (new_hub example_ledger\<lparr>callbacks := [uuid 1 \<mapsto> ValidateCallback ''T1'' ''PK1'']\<rparr>)"
proof -
  let ?h = "new_hub example_ledger\<lparr>callbacks := [uuid 1 \<mapsto> ValidateCallback ''T1'' ''PK1'']\<rparr>"
  have a: "decode_validate (JValidate example_reply) = Some example_reply" by simp
  have b: "callbacks ?h (vi_callback_id example_reply) = Some (ValidateCallback ''T1'' ''PK1'')"
    by (simp add: example_reply_def)
  have c: "handleValidate (JValidate example_reply) None (handleValidate (JValidate example_reply) None ?h)
      = handleValidate (JValidate example_reply) None ?h"
    using Hub.handleValidate_once [OF a b a refl, of None None] by (rule conjunct2)
  from a b c show ?thesis by blast
qed

theorem hub_invariant_holds_witness:
  "validator_rows example_ledger = [] \<and> tick_rows example_ledger = []
   \<and> hub_inv (hub_run (\<lambda>_. True) (new_hub example_ledger) example_events)"
proof -
  have e1: "validator_rows example_ledger = []" and e2: "tick_rows example_ledger = []"
    by (simp_all add: example_ledger_def empty_ledger_def)
  show ?thesis using e1 e2 Hub.hub_invariant_holds [OF e1 e2] by simp
qed

theorem RequestPayout_queues_balance_witness:
  "validator_by_id (api_db example_api) (uuid 0) = Some example_row \<and> 0 < pending_payouts example_row
   \<and> fst (RequestPayout (uuid 0) None True example_api) = Inr (Queued (pending_payouts example_row))
   \<and> payout_queue (snd (RequestPayout (uuid 0) None True example_api)) =
       payout_queue example_api @ [\<lparr>req_validator_id = uuid 0, req_amount = pending_payouts example_row,
                                  req_public_key = public_key example_row\<rparr>]
   \<and> pending_of (api_db (snd (RequestPayout (uuid 0) None True example_api))) =
       (pending_of (api_db example_api))(uuid 0 := 0)"
proof -
  have h1: "validator_by_id (api_db example_api) (uuid 0) = Some example_row"
    by (simp add: example_defs validator_by_id_def)
  have h2: "0 < pending_payouts example_row" by (simp add: example_row_def)
  from h1 h2 Payout.RequestPayout_queues_balance [OF h1 h2] show ?thesis by blast
qed

theorem RequestPayout_cleared_noop_witness:
  "pending_of (api_db (example_api\<lparr>api_db := set_pending (uuid 0) 0 (api_db example_api)\<rparr>)) (uuid 0) \<le> 0
   \<and> snd (RequestPayout (uuid 0) None True (example_api\<lparr>api_db := set_pending (uuid 0) 0 (api_db example_api)\<rparr>))
       = example_api\<lparr>api_db := set_pending (uuid 0) 0 (api_db example_api)\<rparr>
   \<and> fst (RequestPayout (uuid 0) None True (example_api\<lparr>api_db := set_pending (uuid 0) 0 (api_db example_api)\<rparr>))
       = Inr Cleared"
proof -
  let ?s = "example_api\<lparr>api_db := set_pending (uuid 0) 0 (api_db example_api)\<rparr>"
  have h: "pending_of (api_db ?s) (uuid 0) \<le> 0"
    by (simp add: example_defs pending_of_def validator_by_id_def set_pending_def)
  have row: "db_ok None 0 \<and> validator_by_id (api_db ?s) (uuid 0) \<noteq> None"
    by (simp add: example_defs validator_by_id_def set_pending_def)
  from h row Payout.RequestPayout_cleared_noop [OF h, of None True] show ?thesis by blast
qed

lemma example_request_queued:
  "RequestPayout (uuid 0) None True example_api =
     (Inr (Queued 100), \<lparr>api_db = set_pending (uuid 0) 0 (api_db example_api),
                         payout_queue = [example_request]\<rparr>)"
  by (simp add: RequestPayout_def example_defs validator_by_id_def payout_request_of_def)

lemma example_request_update_fails:
  "RequestPayout (uuid 0) (Some 1) True example_api =
     (Inl UpdateError, example_api\<lparr>payout_queue := [example_request]\<rparr>)"
  by (simp add: RequestPayout_def example_defs validator_by_id_def payout_request_of_def)

theorem RequestPayout_conserves_witness:
  "RequestPayout (uuid 0) None True example_api =
     (Inr (Queued 100), \<lparr>api_db = set_pending (uuid 0) 0 (api_db example_api), payout_queue = [example_request]\<rparr>)
   \<and> Inr (Queued 100) \<notin> {Inl UpdateError, Inl CommitError}
   \<and> pending_of (set_pending (uuid 0) 0 (api_db example_api)) (uuid 0) + queued_for [example_request] (uuid 0)
       = pending_of (api_db example_api) (uuid 0) + queued_for (payout_queue example_api) (uuid 0)"
proof -
  have h2: "(Inr (Queued 100) :: api_error + payout_response) \<notin> {Inl UpdateError, Inl CommitError}" by simp
  from example_request_queued h2
    Payout.RequestPayout_conserves [OF example_request_queued h2, of "uuid 0"]
  show ?thesis by simp
qed

theorem RequestPayout_publish_not_atomic_witness:
  "validator_by_id (api_db example_api) (uuid 0) = Some example_row \<and> 0 < pending_payouts example_row
   \<and> (Some 1 = Some (1::nat) \<or> Some 1 = Some (2::nat))
   \<and> RequestPayout (uuid 0) (Some 1) True example_api = (Inl UpdateError, example_api\<lparr>payout_queue := [example_request]\<rparr>)
   \<and> api_db (example_api\<lparr>payout_queue := [example_request]\<rparr>) = api_db example_api
   \<and> payout_queue (example_api\<lparr>payout_queue := [example_request]\<rparr>) =
       payout_queue example_api @ [payout_request_of example_row]"
proof -
  have h1: "validator_by_id (api_db example_api) (uuid 0) = Some example_row"
    by (simp add: example_defs validator_by_id_def)
  have h2: "0 < pending_payouts example_row" by (simp add: example_row_def)
  have h3: "Some 1 = Some (1::nat) \<or> Some 1 = Some (2::nat)" by simp
  from h1 h2 h3 example_request_update_fails
    Payout.RequestPayout_publish_not_atomic [OF h1 h2 h3 example_request_update_fails]
  show ?thesis by blast
qed

lemma example_worker_facts:
  "validator_by_id (w_db example_worker) (req_validator_id example_request) \<noteq> None"
  "\<forall>p \<in> set (payout_rows (w_db example_worker)). ptx_id p \<noteq> uuid (w_seed example_worker)"
  "\<forall>p \<in> set (payout_rows (w_db example_worker)).
     ptx_id p \<noteq> uuid (w_seed example_worker) \<and> ptx_id p \<noteq> uuid (Suc (w_seed example_worker))"
  "executeSolanaTransfer (rpc_with None NoStatus) (req_public_key example_request)
     (nat (req_amount example_request)) = Inl SendFailed"
  "executeSolanaTransfer (rpc_with (Some ''SIG1'') a) (req_public_key example_request)
     (nat (req_amount example_request)) = Inr ''SIG1''"
  by (simp_all add: example_defs validator_by_id_def executeSolanaTransfer_def)

theorem waitForConfirmation_bounded_witness:
  "waitForConfirmation ((rpc_with (Some ''SIG1'') (SigStatus Finalized None))
      \<lparr>rpc_polls := (\<lambda>j. if j < 15 then SigStatus Finalized None else PollError)\<rparr>)
     = waitForConfirmation (rpc_with (Some ''SIG1'') (SigStatus Finalized None))
   \<and> fst (waitForConfirmation (rpc_with (Some ''SIG1'') (SigStatus Finalized None)))"
proof -
  let ?r = "rpc_with (Some ''SIG1'') (SigStatus Finalized None)"
  let ?r' = "?r\<lparr>rpc_polls := (\<lambda>j. if j < 15 then SigStatus Finalized None else PollError)\<rparr>"
  have same: "\<forall>j < CONFIRMATION_POLLS. rpc_polls ?r' j = rpc_polls ?r j"
    by (simp add: rpc_with_def CONFIRMATION_POLLS_def)
  have fin: "reports_finalized (rpc_polls ?r 0)"
    by (simp add: rpc_with_def reports_finalized_def)
  have "0 < CONFIRMATION_POLLS" by (simp add: CONFIRMATION_POLLS_def)
  with fin have ex: "\<exists>k < CONFIRMATION_POLLS. reports_finalized (rpc_polls ?r k)
      \<and> (\<forall>j < k. \<not> reports_failure (rpc_polls ?r j))" by blast
  from same ex Worker.waitForConfirmation_bounded [of ?r' ?r] show ?thesis by blast
qed

theorem transfer_failure_refunds_witness:
  "fst (processPayoutRequest (Some example_request) None (rpc_with None NoStatus) example_worker) = NackDrop
   \<and> pending_of (w_db (snd (processPayoutRequest (Some example_request) None (rpc_with None NoStatus) example_worker)))
       (uuid 0) = 100"
proof -
  note h = example_worker_facts(1,2,4)
  have "pending_of (w_db example_worker) (uuid 0) = 0"
    by (simp add: example_defs pending_of_def validator_by_id_def)
  with Worker.transfer_failure_refunds [OF h] show ?thesis by (simp add: example_request_def)
qed

theorem confirmed_transfer_completes_witness:
  "fst (processPayoutRequest (Some example_request) None (rpc_with (Some ''SIG1'') (SigStatus Finalized None))
      example_worker) = Ack
   \<and> submitted (snd (processPayoutRequest (Some example_request) None
        (rpc_with (Some ''SIG1'') (SigStatus Finalized None)) example_worker))
       = [\<lparr>tr_recipient = ''PK1'', tr_lamports = 100, tr_signature = ''SIG1''\<rparr>]"
proof -
  note h = example_worker_facts(1,2) example_worker_facts(5) [of "SigStatus Finalized None"]
  have c: "fst (waitForConfirmation (rpc_with (Some ''SIG1'') (SigStatus Finalized None)))"
    using wait_first_answer(1) [of "rpc_with (Some ''SIG1'') (SigStatus Finalized None)" None]
    by (simp add: rpc_with_def)
  from Worker.confirmed_transfer_completes [OF h c] show ?thesis
    by (simp add: example_request_def example_worker_def)
qed

theorem finalized_error_recorded_completed_witness:
  "fst (processPayoutRequest (Some example_request) None
      (rpc_with (Some ''SIG1'') (SigStatus Finalized (Some ''InstructionError''))) example_worker) = Ack
   \<and> map_option ptx_status (payout_by_id (w_db (snd (processPayoutRequest (Some example_request) None
      (rpc_with (Some ''SIG1'') (SigStatus Finalized (Some ''InstructionError''))) example_worker))) (uuid 0))
     = Some Completed"
proof -
  note h = example_worker_facts(1,2) example_worker_facts(5) [of "SigStatus Finalized (Some ''InstructionError'')"]
  have p: "rpc_polls (rpc_with (Some ''SIG1'') (SigStatus Finalized (Some ''InstructionError''))) 0
      = SigStatus Finalized (Some ''InstructionError'')" by (simp add: rpc_with_def)
  from Worker.finalized_error_recorded_completed [OF h p] show ?thesis
    by (simp add: example_worker_def)
qed

theorem onchain_failure_not_compensated_witness:
  "fst (processPayoutRequest (Some example_request) None
      (rpc_with (Some ''SIG1'') (SigStatus Confirmed (Some ''InstructionError''))) example_worker) = NackDrop
   \<and> pending_of (w_db (snd (processPayoutRequest (Some example_request) None
      (rpc_with (Some ''SIG1'') (SigStatus Confirmed (Some ''InstructionError''))) example_worker)))
     = pending_of (w_db example_worker)"
proof -
  note h = example_worker_facts(1,2) example_worker_facts(5) [of "SigStatus Confirmed (Some ''InstructionError'')"]
  have cs: "Confirmed \<noteq> Finalized" by simp
  have p: "rpc_polls (rpc_with (Some ''SIG1'') (SigStatus Confirmed (Some ''InstructionError''))) 0
      = SigStatus Confirmed (Some ''InstructionError'')" by (simp add: rpc_with_def)
  from Worker.onchain_failure_not_compensated [OF h cs p] show ?thesis by simp
qed

theorem duplicate_delivery_pays_twice_witness:
  "submitted (snd (processPayoutRequest (Some example_request) None (rpc_with (Some ''SIG1'') NoStatus)
     (snd (processPayoutRequest (Some example_request) None (rpc_with (Some ''SIG1'') NoStatus) example_worker))))
   = [\<lparr>tr_recipient = ''PK1'', tr_lamports = 100, tr_signature = ''SIG1''\<rparr>,
      \<lparr>tr_recipient = ''PK1'', tr_lamports = 100, tr_signature = ''SIG1''\<rparr>]"
proof -
  note h = example_worker_facts(1,3) example_worker_facts(5) [of NoStatus]
  from Worker.duplicate_delivery_pays_twice [OF h] show ?thesis
    by (simp add: example_request_def example_worker_def)
qed

theorem refund_lost_on_db_error_witness:
  "fst (processPayoutRequest (Some example_request) (Some 2) (rpc_with None NoStatus) example_worker) = NackDrop
   \<and> pending_of (w_db (snd (processPayoutRequest (Some example_request) (Some 2) (rpc_with None NoStatus)
       example_worker))) (uuid 0) = 0"
proof -
  note h = example_worker_facts(1,2,4)
  have "pending_of (w_db example_worker) (uuid 0) = 0"
    by (simp add: example_defs pending_of_def validator_by_id_def)
  with Worker.refund_lost_on_db_error [OF h] show ?thesis by simp
qed

lemma example_two_inv: "hub_inv example_two"
  by (simp add: example_defs hub_inv_def ledger_wf_def registry_ok_def fresh_ids_def
      validator_by_id_def new_hub_def)

lemma example_two_sites: "active_websites (hub_db example_two) = [example_site]"
  by (simp add: example_defs active_websites_def new_hub_def)

lemma example_two_connected: "List.map_filter (validators example_two) [uuid 0] = [example_vc]"
  by (simp add: example_two_def map_filter_simps)

theorem monitoring_round_fan_out_witness:
  "monitoring_round None [uuid 0] (\<lambda>_. True) example_two =
     example_two\<lparr>seed := 3, callbacks := callbacks example_two ++ [uuid 2 \<mapsto> ValidateCallback ''T1'' ''PK1''],
       sent := [(1, ValidateTask ''https://t1.example'' (uuid 2) ''T1'')]\<rparr>"
proof -
  have "monitoring_round None [uuid 0] (\<lambda>_. True) example_two =
     example_two\<lparr>seed := seed example_two + length [example_site] * length [example_vc],
       callbacks := callbacks example_two ++ map_of (plan_callbacks (seed example_two)
                      (List.product [example_site] [example_vc])),
       sent := sent example_two @ plan_messages (\<lambda>_. True) (seed example_two)
                 (List.product [example_site] [example_vc])\<rparr>"
    by (rule Hub.monitoring_round_fan_out [OF db_ok_None example_two_sites _ example_two_connected]) simp_all
  then show ?thesis
    by (simp add: plan_callbacks_def plan_messages_def example_defs new_hub_def)
qed

theorem monitoring_round_skips_witness:
  "monitoring_round None [uuid 1] (\<lambda>_. True) example_two = example_two"
  by (rule Hub.monitoring_round_skips) (simp add: example_two_def map_filter_simps)

theorem validate_credits_reply_validator_witness:
  "pending_of (hub_db (run_callback (ValidateCallback ''T1'' ''PK1'')
       (JValidate (example_reply\<lparr>vi_validator_id := uuid 1\<rparr>)) None example_two)) (uuid 1) = 200
   \<and> pending_of (hub_db (run_callback (ValidateCallback ''T1'' ''PK1'')
       (JValidate (example_reply\<lparr>vi_validator_id := uuid 1\<rparr>)) None example_two)) (uuid 0) = 100"
proof -
  have a: "decode_validate (JValidate (example_reply\<lparr>vi_validator_id := uuid 1\<rparr>)) =
             Some (example_reply\<lparr>vi_validator_id := uuid 1\<rparr>)" by simp
  have b: "''T1'' \<in> website_id ` set (website_rows (hub_db example_two))"
    by (simp add: example_defs new_hub_def)
  have c: "validator_by_id (hub_db example_two) (vi_validator_id (example_reply\<lparr>vi_validator_id := uuid 1\<rparr>)) \<noteq> None"
    by (simp add: example_defs new_hub_def validator_by_id_def)
  from Hub.validate_credits_reply_validator [OF example_two_inv a b c, of "''PK1''" None "''PK1''"]
  show ?thesis
    by (simp add: example_defs new_hub_def pending_of_def validator_by_id_def COST_PER_VALIDATION_def)
qed

theorem handleSignup_ignores_signature_witness:
  "validators (handleSignup 2 (JSignup (example_signup\<lparr>su_public_key := ''PK3'', su_signed_message := ''forged''\<rparr>))
      None (\<lambda>_. True) example_two) (uuid 2) =
     Some \<lparr>vc_validator_id = uuid 2, vc_public_key = ''PK3'', vc_conn = 2\<rparr>"
proof -
  let ?su = "example_signup\<lparr>su_public_key := ''PK3''\<rparr>"
  have k: "validator_by_key (hub_db example_two) (su_public_key ?su) = None"
    by (simp add: example_defs new_hub_def validator_by_key_def)
  from Hub.handleSignup_ignores_signature [OF example_two_inv k, of 2 "\<lambda>_. True" "''forged''" None]
  show ?thesis by (simp add: example_two_def new_hub_def)
qed

theorem removeValidator_leaves_stale_witness:
  "validators (removeValidator 1 [uuid 0, uuid 1]
      (example_two\<lparr>validators := [uuid 0 \<mapsto> example_vc,
         uuid 1 \<mapsto> \<lparr>vc_validator_id = uuid 1, vc_public_key = ''PK2'', vc_conn = 1\<rparr>]\<rparr>)) (uuid 1)
   = Some \<lparr>vc_validator_id = uuid 1, vc_public_key = ''PK2'', vc_conn = 1\<rparr>
   \<and> (\<exists>k v. validators (removeValidator 1 [uuid 0, uuid 1]
      (example_two\<lparr>validators := [uuid 0 \<mapsto> example_vc,
         uuid 1 \<mapsto> \<lparr>vc_validator_id = uuid 1, vc_public_key = ''PK2'', vc_conn = 1\<rparr>]\<rparr>)) k = Some v
       \<and> vc_conn v = 1)"
proof -
  let ?h = "example_two\<lparr>validators := [uuid 0 \<mapsto> example_vc,
         uuid 1 \<mapsto> \<lparr>vc_validator_id = uuid 1, vc_public_key = ''PK2'', vc_conn = 1\<rparr>]\<rparr>"
  have "\<exists>k v. validators (removeValidator 1 [uuid 0, uuid 1] ?h) k = Some v \<and> vc_conn v = 1"
    by (rule Hub.removeValidator_leaves_stale [of ?h "uuid 0" example_vc "uuid 1"
          "\<lparr>vc_validator_id = uuid 1, vc_public_key = ''PK2'', vc_conn = 1\<rparr>"])
       (simp_all add: example_vc_def)
  then show ?thesis by (simp add: removeValidator_def example_vc_def)
qed

theorem removeValidator_disconnects_witness:
  "validators (removeValidator 1 [uuid 0] example_two) = Map.empty"
proof -
  have "validators (removeValidator 1 [uuid 0] example_two) = (validators example_two)(uuid 0 := None)"
    by (rule Hub.removeValidator_disconnects [of "[uuid 0]" example_two "uuid 0" example_vc])
       (simp_all add: example_two_def iteration_order_def example_vc_def)
  then show ?thesis by (simp add: example_two_def)
qed

theorem agent_replies_answer_tasks_witness:
  "reply_cbs (agent_out (agent_run example_agent example_agent_events)) = [uuid 1]
   \<and> mset (reply_cbs (agent_out (agent_run example_agent example_agent_events)))
       \<subseteq># mset (concat (map event_task_cb example_agent_events))"
proof -
  have a: "agent_probes example_agent = []" and b: "reply_cbs (agent_out example_agent) = []"
    by (simp_all add: example_defs reply_cbs_def)
  have "reply_cbs (agent_out (agent_run example_agent example_agent_events)) = [uuid 1]"
    by (simp add: example_defs agent_run_def handleSignupResponse_def handleValidateRequest_def
        validateWebsite_def validate_reply_def)
  with Agent.agent_replies_answer_tasks [OF a b, of example_agent_events] show ?thesis by simp
qed

theorem validateWebsite_reply_witness:
  "agent_out (validateWebsite 0 HttpError 10000 True
      (handleValidateRequest ''https://t1.example'' (uuid 1) ''T1'' example_agent)) =
     [Frame ''validate'' (JValidate
        \<lparr>vi_callback_id = uuid 1, vi_status = ''Bad'', vi_latency = 10000, vi_validator_id = [],
         vi_website_id = ''T1'', vi_signed_message = ''sig:Replying to '' @ uuid 1\<rparr>)]"
proof -
  let ?a = "handleValidateRequest ''https://t1.example'' (uuid 1) ''T1'' example_agent"
  let ?d = "\<lparr>vd_url = ''https://t1.example'', vd_callback_id = uuid 1, vd_website_id = ''T1''\<rparr>"
  have i: "0 < length (agent_probes ?a)" and d: "agent_probes ?a ! 0 = ?d"
    by (simp_all add: handleValidateRequest_def example_defs)
  from Agent.validateWebsite_reply [OF i d, of HttpError 10000] show ?thesis
    by (simp add: handleValidateRequest_def example_defs)
qed

theorem agent_signup_handshake_witness:
  "agent_validator_id (handleSignupResponse (uuid 0) (uuid 0) (the (agent_signup True example_agent))) = uuid 0
   \<and> handleSignupResponse ''other'' (uuid 0) (handleSignupResponse (uuid 0) (uuid 0) (the (agent_signup True example_agent)))
     = handleSignupResponse (uuid 0) (uuid 0) (the (agent_signup True example_agent))"
proof -
  have s: "agent_signup True example_agent = Some (the (agent_signup True example_agent))"
    by (simp add: agent_signup_def Let_def)
  have c: "uuid 0 = uuid (agent_seed example_agent)" by (simp add: example_defs)
  from Agent.agent_signup_handshake [OF s c, of "uuid 0" "''other''"] show ?thesis by blast
qed

lemma example_sys_start:
  "hub_inv example_two \<and> to_agent 3 example_two = []
   \<and> sys_init example_two ''PK1'' (\<lambda>m. ''sig:'' @ m) = Some example_sys"
  by (simp add: example_two_inv) (simp add: example_defs to_agent_def new_hub_def sys_init_def
      agent_signup_def Let_def)

lemma example_sys_run:
  "agent_validator_id (sys_agent (sys_run 3 (\<lambda>_. True) example_sys example_sys_events)) = uuid 0
   \<and> hub_read (sys_run 3 (\<lambda>_. True) example_sys example_sys_events) = 1
   \<and> agent_out (sys_agent (sys_run 3 (\<lambda>_. True) example_sys example_sys_events)) ! 1 =
       Frame ''validate'' (JValidate \<lparr>vi_callback_id = uuid 2, vi_status = ''Good'', vi_latency = 120,
         vi_validator_id = uuid 0, vi_website_id = ''T1'', vi_signed_message = ''sig:Replying to '' @ uuid 2\<rparr>)
   \<and> 1 < length (agent_out (sys_agent (sys_run 3 (\<lambda>_. True) example_sys example_sys_events)))"
  by (simp add: example_defs sys_run_def to_agent_def hub_eval agent_signup_def
      handleSignupResponse_def handleValidateRequest_def validateWebsite_def validate_reply_def
      probe_status_def reply_message_def map_filter_simps send_tasks.simps)

theorem sys_invariant_holds_witness:
  "agent_validator_id (sys_agent (sys_run 3 (\<lambda>_. True) example_sys example_sys_events)) = uuid 0
   \<and> key_id (hub_db (sys_hub (sys_run 3 (\<lambda>_. True) example_sys example_sys_events))) ''PK1'' = Some (uuid 0)"
proof -
  from example_sys_start have a: "hub_inv example_two" and b: "to_agent 3 example_two = []"
    and c: "sys_init example_two ''PK1'' (\<lambda>m. ''sig:'' @ m) = Some example_sys" by blast+
  have "key_id (hub_db (sys_hub (sys_run 3 (\<lambda>_. True) example_sys example_sys_events))) ''PK1''
          = Some (agent_validator_id (sys_agent (sys_run 3 (\<lambda>_. True) example_sys example_sys_events)))"
    using System.sys_invariant_holds [OF a b c sys_run_reach] example_sys_run by simp
  with example_sys_run show ?thesis by simp
qed

theorem honest_reply_credits_own_row_witness:
  "key_id (hub_db (sys_hub (sys_run 3 (\<lambda>_. True) example_sys example_sys_events))) ''PK1'' = Some (uuid 0)
   \<and> pending_of (hub_db (sys_hub (sys_step 3 (\<lambda>_. True)
        (sys_run 3 (\<lambda>_. True) example_sys example_sys_events) (HubReceive None)))) (uuid 1)
     = pending_of (hub_db (sys_hub (sys_run 3 (\<lambda>_. True) example_sys example_sys_events))) (uuid 1)"
proof -
  let ?s = "sys_run 3 (\<lambda>_. True) example_sys example_sys_events"
  from example_sys_start have a: "hub_inv example_two" and b: "to_agent 3 example_two = []"
    and c: "sys_init example_two ''PK1'' (\<lambda>m. ''sig:'' @ m) = Some example_sys" by blast+
  from example_sys_run have l: "hub_read ?s < length (agent_out (sys_agent ?s))"
    and fr: "agent_out (sys_agent ?s) ! hub_read ?s =
       Frame ''validate'' (JValidate \<lparr>vi_callback_id = uuid 2, vi_status = ''Good'', vi_latency = 120,
         vi_validator_id = uuid 0, vi_website_id = ''T1'', vi_signed_message = ''sig:Replying to '' @ uuid 2\<rparr>)"
    by simp_all
  have n: "vi_validator_id \<lparr>vi_callback_id = uuid 2, vi_status = ''Good'', vi_latency = 120,
         vi_validator_id = uuid 0, vi_website_id = ''T1'', vi_signed_message = ''sig:Replying to '' @ uuid 2\<rparr> \<noteq> []"
    by simp
  note th = System.honest_reply_credits_own_row [OF a b c sys_run_reach l fr n, of None]
  have "uuid 1 \<noteq> uuid 0" by (simp only: uuid_inj)
  with th show ?thesis by (simp only: validate_incoming.select_convs) blast
qed

theorem AuthMiddleware_authenticates_witness:
  "AuthMiddleware ''k'' (Authorization ''Bearer '' (GenerateJWT ''U1'' ''k'' 0)) 10 = Authenticated ''U1''
   \<and> (\<exists>p alg cl. Authorization ''Bearer '' (GenerateJWT ''U1'' ''k'' 0) = Authorization p (Token alg cl (Mac ''k'' alg cl))
       \<and> (p = ''Bearer '' \<or> p = []) \<and> is_hmac alg \<and> time_claims_ok cl 10 \<and> claim_sub cl = Some ''U1'')"
proof -
  have a: "AuthMiddleware ''k'' (Authorization ''Bearer '' (GenerateJWT ''U1'' ''k'' 0)) 10 = Authenticated ''U1''"
    by (simp add: AuthMiddleware_def GenerateJWT_def time_claims_ok_def TOKEN_LIFETIME_def Let_def)
  from a Jwt.AuthMiddleware_authenticates [OF a] show ?thesis by blast
qed

theorem default_secret_forgeable_witness:
  "AuthMiddleware (JWTSecret (Load Map.empty))
     (Authorization ''Bearer '' (GenerateJWT ''U2'' ''super-secret-key-change-me'' 0)) 100 = Authenticated ''U2''"
  by (rule Jwt.default_secret_forgeable) (simp_all add: TOKEN_LIFETIME_def)

lemma example_signup_created:
  "Signup example_user_req None True ''k'' 0 example_store =
     (TokenResponse 201 (GenerateJWT (uuid 0) ''k'' 0) (uuid 0) ''alice@example.com'',
      \<lparr>users = [\<lparr>user_ID = uuid 0, email = ''alice@example.com'', password = Bcrypt ''password123''\<rparr>],
       api_seed = 1\<rparr>)"
  by (simp add: Signup_def example_defs user_by_email_def insert_user_def Let_def)

theorem Signup_Login_roundtrip_witness:
  "Login example_user_req None ''k'' 50
     (snd (Signup example_user_req None True ''k'' 0 example_store)) =
       TokenResponse 200 (GenerateJWT (uuid 0) ''k'' 50) (uuid 0) ''alice@example.com''
   \<and> VerifyJWT (GenerateJWT (uuid 0) ''k'' 50) ''k'' 60 = Inr (uuid 0)"
proof -
  have t: "(60::int) < 50 + TOKEN_LIFETIME" by (simp add: TOKEN_LIFETIME_def)
  from UserApi.Signup_Login_roundtrip [OF example_signup_created t] show ?thesis
    by (simp only: example_signup_created snd_conv) (simp add: example_user_req_def)
qed

theorem Signup_users_wf_witness:
  "users_wf (snd (Signup example_user_req None True ''k'' 0 example_store))"
  by (rule UserApi.Signup_users_wf) (simp add: users_wf_def example_defs)

theorem Login_authenticates_witness:
  "\<exists>u \<in> set (users (snd (Signup example_user_req None True ''k'' 0 example_store))).
     email u = ''alice@example.com'' \<and> password u = Bcrypt ''password123'' \<and> user_ID u = uuid 0"
proof -
  let ?s = "snd (Signup example_user_req None True ''k'' 0 example_store)"
  have l: "Login example_user_req None ''k'' 50 ?s = TokenResponse 200 (GenerateJWT (uuid 0) ''k'' 50) (uuid 0) ''alice@example.com''"
    by (simp only: example_signup_created snd_conv) (simp add: Login_def user_by_email_def example_user_req_def)
  from UserApi.Login_authenticates [OF l] show ?thesis by (simp add: example_user_req_def) blast
qed

theorem DeleteWebsite_owner_only_witness:
  "fst (protected ''k'' (Authorization ''Bearer '' (GenerateJWT ''U2'' ''k'' 0)) 10 example_sites
          (\<lambda>u. DeleteWebsite u ''T1'' None example_sites)) = WebError 404 ''Website not found''
   \<and> snd (protected ''k'' (Authorization ''Bearer '' (GenerateJWT ''U2'' ''k'' 0)) 10 example_sites
          (\<lambda>u. DeleteWebsite u ''T1'' None example_sites)) = example_sites"
proof -
  let ?p = "protected ''k'' (Authorization ''Bearer '' (GenerateJWT ''U2'' ''k'' 0)) 10 example_sites
              (\<lambda>u. DeleteWebsite u ''T1'' None example_sites)"
  have p: "?p = (fst ?p, snd ?p)" by simp
  have a: "AuthMiddleware ''k'' (Authorization ''Bearer '' (GenerateJWT ''U2'' ''k'' 0)) 10 = Authenticated ''U2''"
    by (simp add: AuthMiddleware_def GenerateJWT_def time_claims_ok_def TOKEN_LIFETIME_def Let_def)
  from Websites.DeleteWebsite_owner_only [OF p] a
  have "filter (\<lambda>w. user_id w \<noteq> ''U2'') (website_rows (snd ?p)) = [example_site] \<or> snd ?p = example_sites"
    by (auto simp add: example_defs)
  then show ?thesis
    by (simp add: protected_def a DeleteWebsite_def example_defs delete_matches_def)
qed

lemma example_delete_T1:
  "DeleteWebsite (Some ''U1'') ''T1'' None example_sites =
     (WebDeleted, example_sites\<lparr>website_rows := [example_site\<lparr>disabled := True\<rparr>, example_site2]\<rparr>)"
  by (simp add: DeleteWebsite_def example_defs delete_matches_def)

theorem deleted_website_not_monitored_witness:
  "(1, ValidateTask ''https://t2.example'' (uuid 2) ''T2'') \<in> set (sent (monitoring_round None [uuid 0] (\<lambda>_. True)
      (example_two\<lparr>hub_db := example_sites\<lparr>website_rows := [example_site\<lparr>disabled := True\<rparr>, example_site2]\<rparr>\<rparr>)))
   \<and> ''T2'' \<noteq> ''T1''"
proof -
  let ?h = "example_two\<lparr>hub_db := example_sites\<lparr>website_rows := [example_site\<lparr>disabled := True\<rparr>, example_site2]\<rparr>\<rparr>"
  have m: "(1, ValidateTask ''https://t2.example'' (uuid 2) ''T2'') \<in> set (sent (monitoring_round None [uuid 0] (\<lambda>_. True) ?h))"
    by (simp add: monitoring_round_def example_defs active_websites_def map_filter_simps new_hub_def Let_def)
  have n: "(1, ValidateTask ''https://t2.example'' (uuid 2) ''T2'') \<notin> set (sent ?h)"
    by (simp add: example_defs new_hub_def)
  have dist: "distinct (map website_id (website_rows example_sites))" by (simp add: example_defs)
  from Websites.deleted_website_not_monitored [OF dist example_delete_T1 _ m n] m show ?thesis by simp
qed

theorem CreateWebsite_status_roundtrip_witness:
  "GetWebsiteStatus (uuid 0) (Some ''U1'') None
     (web_db (snd (CreateWebsite (Some ''U1'') ''https://t3.example'' True None \<lparr>web_db = example_sites, web_seed = 0\<rparr>)))
   = WebStatus \<lparr>website_id = uuid 0, url = ''https://t3.example'', user_id = ''U1'', disabled = False\<rparr> []"
proof -
  have c: "CreateWebsite (Some ''U1'') ''https://t3.example'' True None \<lparr>web_db = example_sites, web_seed = 0\<rparr> =
      (WebCreated (uuid 0) ''https://t3.example'',
       \<lparr>web_db = example_sites\<lparr>website_rows := website_rows example_sites @
          [\<lparr>website_id = uuid 0, url = ''https://t3.example'', user_id = ''U1'', disabled = False\<rparr>]\<rparr>,
        web_seed = 1\<rparr>)"
    by (simp add: CreateWebsite_def Let_def example_defs uuid_def)
  let ?s' = "snd (CreateWebsite (Some ''U1'') ''https://t3.example'' True None \<lparr>web_db = example_sites, web_seed = 0\<rparr>)"
  have e1: "GetWebsiteStatus (uuid 0) (Some ''U1'') None (web_db ?s') =
      WebStatus \<lparr>website_id = uuid 0, url = ''https://t3.example'', user_id = ''U1'', disabled = False\<rparr>
        (latest_ticks (web_db ?s') (uuid 0))"
    using conjunct1 [OF Websites.CreateWebsite_status_roundtrip [OF c]] by (simp only: c snd_conv)
  have e2: "latest_ticks (web_db ?s') (uuid 0) = []"
    by (simp only: c snd_conv) (simp add: latest_ticks_def example_defs)
  from e1 e2 show ?thesis by simp
qed

theorem GetWebsites_listing_witness:
  "GetWebsites (Some ''U1'') None example_sites = WebList [(example_site, [])] 1
   \<and> map fst [(example_site, [] :: website_tick list)] = rev (filter (owned_active ''U1'') (website_rows example_sites))"
proof -
  have g: "GetWebsites (Some ''U1'') None example_sites = WebList [(example_site, [])] 1"
    by (simp add: GetWebsites_def example_defs owned_active_def preload_ticks_def ticks_for_def)
  have d: "distinct (map website_id (website_rows example_sites))" by (simp add: example_defs)
  from g Websites.GetWebsites_listing [OF g d] show ?thesis by blast
qed

theorem GetWebsites_starves_sites_witness:
  "example_tick ''T1'' \<in> set (tick_rows example_starve)
   \<and> (\<exists>xs n. GetWebsites (Some ''U1'') None example_starve = WebList xs n \<and> (example_site, []) \<in> set xs)"
proof -
  have w: "example_site \<in> set (website_rows example_starve)" "owned_active ''U1'' example_site"
    and w': "example_site2\<lparr>user_id := ''U1''\<rparr> \<in> set (website_rows example_starve)"
      "owned_active ''U1'' (example_site2\<lparr>user_id := ''U1''\<rparr>)"
    by (simp_all add: example_defs owned_active_def)
  have t: "tick_rows example_starve = [example_tick ''T1''] @ replicate 100 (example_tick ''T2'')"
    by (simp add: example_starve_def)
  have c: "100 \<le> length (filter (\<lambda>t. tick_website_id t = website_id (example_site2\<lparr>user_id := ''U1''\<rparr>))
      (replicate 100 (example_tick ''T2'')))"
    by (simp add: example_defs)
  have o: "\<forall>t \<in> set (replicate 100 (example_tick ''T2'')). tick_website_id t \<noteq> website_id example_site"
    by (simp add: example_defs)
  from Websites.GetWebsites_starves_sites [OF w w' t c o] t show ?thesis by simp
qed

theorem settlement_conserves_witness:
  "holdings (st_db (settle_run example_settle example_settle_events))
     (st_queue (settle_run example_settle example_settle_events)) (uuid 0) = 100"
proof -
  have h: "\<forall>e \<in> set example_settle_events. event_healthy e"
    by (simp add: example_settle_events_def rpc_with_def)
  have "holdings (st_db example_settle) (st_queue example_settle) (uuid 0) = 100"
    by (simp add: holdings_def example_defs pending_of_def validator_by_id_def in_payouts_def)
  with Settlement.settlement_conserves [OF h, of example_settle "uuid 0"] show ?thesis by simp
qed

theorem consume_drains_queue_witness:
  "fst (consume [(None, rpc_with None NoStatus)] ([example_request], example_worker)) = []
   \<and> length (payout_rows (w_db (snd (consume [(None, rpc_with None NoStatus)] ([example_request], example_worker))))) = 1"
proof -
  have l: "length [(None :: fault, rpc_with None NoStatus)] = length [example_request]" by simp
  have f: "\<forall>d \<in> set [(None :: fault, rpc_with None NoStatus)]. fst d = None" by simp
  have r: "\<forall>r \<in> set [example_request]. validator_by_id (w_db example_worker) (req_validator_id r) \<noteq> None"
    using example_worker_facts(1) by simp
  have n: "\<forall>n \<ge> w_seed example_worker. \<forall>p \<in> set (payout_rows (w_db example_worker)). ptx_id p \<noteq> uuid n"
    by (simp add: example_defs)
  have z: "length (payout_rows (w_db example_worker)) = 0" by (simp add: example_defs)
  from Settlement.consume_drains_queue [OF l f r n] z show ?thesis by simp
qed

lemma example_create_serve:
  "filter (\<lambda>w. user_id w = ''U1'') (website_rows (srv_db (snd (serve (Load Map.empty) example_env example_create_rq example_server))))
   \<noteq> filter (\<lambda>w. user_id w = ''U1'') (website_rows (srv_db example_server))"
  by (simp add: serve_def route_request_def api_routes_def example_defs AuthMiddleware_def
      GenerateJWT_def Load_def getEnv_def time_claims_ok_def TOKEN_LIFETIME_def CreateWebsite_def
      Let_def uuid_def)

theorem serve_websites_owner_only_witness:
  "AuthMiddleware (JWTSecret (Load Map.empty)) (rq_header example_create_rq) (env_now example_env) = Authenticated ''U1''"
  using Api.serve_websites_owner_only [OF surjective_pairing example_create_serve] .

theorem payout_route_public_witness:
  "serve (Load Map.empty) example_env \<lparr>rq_method = POST, rq_path = ''/api/v1/payout/'' @ ''V7'', rq_header = NoAuthorization,
      rq_websiteId = [], rq_body = NoBody\<rparr> example_server =
   (PayoutResp (Inl ValidatorNotFound), example_server)"
proof -
  have "''V7'' \<noteq> []" and "CHR ''/'' \<notin> set ''V7''" by simp_all
  from Api.payout_route_public [OF this, of "Load Map.empty" example_env NoAuthorization "[]" NoBody example_server]
  show ?thesis by (simp add: RequestPayout_def example_defs validator_by_id_def)
qed

theorem concurrent_replies_run_twice_witness:
  "pending_of (hub_db (corr_hub (corr_run example_corr
      [Recv 1 (JValidate example_reply), Recv 2 (JValidate example_reply), Lookup 1, Lookup 2,
       Call 1 None, Call 2 None, Delete 1, Delete 2]))) (uuid 0) = 2 * COST_PER_VALIDATION
   \<and> ticks_of (hub_db (corr_hub (corr_run example_corr
      [Recv 1 (JValidate example_reply), Recv 2 (JValidate example_reply), Lookup 1, Lookup 2,
       Call 1 None, Call 2 None, Delete 1, Delete 2]))) (uuid 0) = 2"
proof -
  have c: "(1::conn) \<noteq> 2" by simp
  have l1: "loops example_corr 1 = HvIdle" and l2: "loops example_corr 2 = HvIdle"
    by (simp_all add: example_corr_def)
  have d: "decode_validate (JValidate example_reply) = Some example_reply" by simp
  have cb: "callbacks (corr_hub example_corr) (vi_callback_id example_reply) = Some (ValidateCallback ''T1'' ''PK1'')"
    by (simp add: example_defs new_hub_def)
  note eq = Correlation.concurrent_replies_run_twice [OF c l1 l2 d cb, of None None]
  show ?thesis
    by (simp only: eq) (simp add: example_defs new_hub_def validate_callback_def record_tick_def
        insert_tick_def validator_by_id_def add_pending_def pending_of_def ticks_of_def
        COST_PER_VALIDATION_def Let_def)
qed

theorem serve_implements_docs_witness:
  "api_status (fst (serve (Load Map.empty) example_env example_create_rq example_server)) = 201
   \<and> (\<exists>d. d \<in> set documented_api \<and> doc_method d = POST
        \<and> seg_match (split_path (doc_url d)) (split_path ''/api/v1/website'') \<noteq> None \<and> doc_status d = 201)"
proof -
  have st: "api_status (fst (serve (Load Map.empty) example_env example_create_rq example_server)) = 201"
    by (simp add: serve_def route_request_def api_routes_def example_defs AuthMiddleware_def
        GenerateJWT_def Load_def getEnv_def time_claims_ok_def TOKEN_LIFETIME_def CreateWebsite_def
        Let_def uuid_def)
  then have "api_status (fst (serve (Load Map.empty) example_env example_create_rq example_server)) < 300"
    by simp
  from ApiDocs.serve_implements_docs [OF surjective_pairing this] st show ?thesis
    by (auto simp add: example_create_rq_def)
qed

theorem payouts_lost_without_worker_witness:
  "api_main Map.empty example_io = Inr example_proc \<and> ap_worker example_proc = None
   \<and> serve (ap_config example_proc) example_env
        \<lparr>rq_method = POST, rq_path = ''/api/v1/payout/'' @ uuid 0, rq_header = NoAuthorization,
         rq_websiteId = [], rq_body = NoBody\<rparr> example_payout_server
     = (PayoutResp (Inr (Queued 100)), example_payout_server\<lparr>srv_db := set_pending (uuid 0) 0 (api_db example_api)\<rparr>)
   \<and> srv_queue example_payout_server = []"
proof -
  have m: "api_main Map.empty example_io = Inr example_proc"
    by (simp add: api_main_def Connect_def AutoMigrate_def Load_def getEnv_def example_defs)
  have k: "(Map.empty :: string \<rightharpoonup> string) ''PLATFORM_PRIVATE_KEY'' = None" by simp
  have q: "\<not> io_queue_exists example_io" and qd: "srv_queue_declared example_payout_server = ap_queue_declared example_proc"
    by (simp_all add: example_defs)
  have v: "validator_by_id (srv_db example_payout_server) (uuid 0) = Some example_row"
    by (simp add: example_defs validator_by_id_def)
  have p: "0 < pending_payouts example_row" and n: "uuid 0 \<noteq> []" and sl: "CHR ''/'' \<notin> set (uuid 0)"
    by (simp_all add: example_row_def)
  have e: "example_env = \<lparr>env_fault = None, env_publish_ok = True, env_hash_ok = True, env_now = 0\<rparr>"
    by (simp add: example_env_def)
  from Startup.payouts_lost_without_worker [OF m k q qd v p n sl, of True 0 NoAuthorization "[]" NoBody] m e
  show ?thesis by (simp add: example_row_def example_payout_server_def)
qed

end
